theory Spec2Isabelle
  imports Main "HOL-Library.Word"
begin

unbundle bit_operations_syntax

section \<open>Common data model\<close>

text \<open>
  Durations (\<open>std::chrono::microseconds\<close>) are signed integers in the source. Signed
  overflow is undefined there, so durations are modelled as mathematical integers and
  the model covers the executions in which no arithmetic overflows. Integer division
  of the source truncates towards zero.
\<close>

definition cpp_div :: "int \<Rightarrow> int \<Rightarrow> int" where
  "cpp_div a b = sgn a * sgn b * (\<bar>a\<bar> div \<bar>b\<bar>)"

text \<open>Modelled from the spec: the gains of the RTT filter, \<open>\<alpha> = 8\<close> (1/8 gain) and
  \<open>\<beta> = 4\<close> (1/4 gain); the constants \<open>kRttAlpha\<close> and \<open>kRttBeta\<close> are declared in
  a header that is not part of the sources.\<close>

definition kRttAlpha :: int where
  "kRttAlpha = 8"

definition kRttBeta :: int where
  "kRttBeta = 4"

type_synonym PacketNum = nat
type_synonym microseconds = int

text \<open>
  The two receive counters of an ack state are one-byte unsigned integers (\<open>uint8_t\<close>;
  the source prints them through \<open>static_cast<int>\<close>, as a one-byte integer must be):
  they are 8-bit words, and an increment at 255 wraps to 0. The tolerance, the
  configured thresholds and the packet numbers are wider unsigned integers and are
  modelled as naturals.
\<close>

record AckState =
  largestAckScheduled :: "PacketNum option"
  largestReceivedPacketNum :: "PacketNum option"
  largestReceivedAtLastCloseSent :: "PacketNum option"
  nextPacketNum :: PacketNum
  numRxPacketsRecvd :: "8 word"
  numNonRxPacketsRecvd :: "8 word"
  needsToSendAckImmediately :: bool
  tolerance :: "nat option"
  ignoreReorder :: bool

record AckStates =
  initialAckState :: AckState
  handshakeAckState :: AckState
  appDataAckState :: AckState

record LossState =
  srtt :: microseconds
  lrtt :: microseconds
  rttvar :: microseconds
  mrtt :: microseconds
  maxAckDelay :: microseconds

record PendingEvents =
  scheduleAckTimeout :: bool
  schedulePathValidationTimeout :: bool
  pathChallenge :: "64 word option"
  closeTransport :: bool

record TransportSettings =
  rxPacketsBeforeAckInitThreshold :: nat
  rxPacketsBeforeAckBeforeInit :: nat
  rxPacketsBeforeAckAfterInit :: nat
  disableMigration :: bool
  canIgnorePathMTU :: bool
  d6dConfig_enabled :: bool
  defaultCongestionController :: nat
  statelessResetTokenSecret :: "nat option"

record QuicConnectionStateBase =
  lossState :: LossState
  ackStates :: AckStates
  pendingEvents :: PendingEvents
  transportSettings :: TransportSettings

section \<open>QuicStateFunctions\<close>

text \<open>\<open>updateRtt\<close>. The first argument is the constant \<open>kDefaultMinRtt\<close>, declared
  outside the sources. The qlog sink only observes the values and is left out.\<close>

definition updateRtt ::
  "microseconds \<Rightarrow> 'a QuicConnectionStateBase_scheme \<Rightarrow> microseconds \<Rightarrow> microseconds
    \<Rightarrow> 'a QuicConnectionStateBase_scheme" where
  "updateRtt kDefaultMinRtt conn rttSample0 ackDelay =
    (let ls0 = lossState conn;
         minRtt = min (mrtt ls0) rttSample0;
         ls1 = ls0\<lparr>maxAckDelay := max (maxAckDelay ls0) ackDelay\<rparr>;
         shouldUseAckDelay = (rttSample0 > ackDelay \<and>
            (rttSample0 > minRtt + ackDelay \<or> mrtt ls1 = kDefaultMinRtt));
         rttSample = (if shouldUseAckDelay then rttSample0 - ackDelay else rttSample0);
         ls2 = ls1\<lparr>mrtt := minRtt\<rparr>;
         ls3 = ls2\<lparr>lrtt := rttSample\<rparr>;
         ls4 = (if srtt ls3 = 0
                then ls3\<lparr>srtt := rttSample, rttvar := cpp_div rttSample 2\<rparr>
                else (let ls' = ls3\<lparr>rttvar :=
                              cpp_div (rttvar ls3 * (kRttBeta - 1)) kRttBeta +
                              cpp_div (if srtt ls3 > rttSample then srtt ls3 - rttSample
                                       else rttSample - srtt ls3) kRttBeta\<rparr>
                      in ls'\<lparr>srtt := cpp_div (srtt ls' * (kRttAlpha - 1)) kRttAlpha +
                                      cpp_div rttSample kRttAlpha\<rparr>))
     in conn\<lparr>lossState := ls4\<rparr>)"

text \<open>\<open>updateAckSendStateOnRecvPacket\<close>. The ack state is passed by reference in the
  source, next to the connection it belongs to; the model returns both. The first
  argument is the constant \<open>kNonRtxRxPacketsPendingBeforeAck\<close>. The pre-increment of a
  counter sits behind the short-circuit \<open>||\<close>, so it only runs when the packet neither
  carries crypto data nor is out of order. The pre-increment wraps in the width of the
  counter; the sum of the two counters is formed after the integer promotion of both
  operands and cannot wrap.\<close>

definition updateAckSendStateOnRecvPacket ::
  "nat \<Rightarrow> 'a QuicConnectionStateBase_scheme \<times> AckState \<Rightarrow> bool \<Rightarrow> bool \<Rightarrow> bool
    \<Rightarrow> 'a QuicConnectionStateBase_scheme \<times> AckState" where
  "updateAckSendStateOnRecvPacket kNonRtxRxPacketsPendingBeforeAck ca pktOutOfOrder0
      pktHasRetransmittableData pktHasCryptoData =
    (let conn = fst ca; ackState = snd ca;
         thresh =
           (if pktHasRetransmittableData \<or> numRxPacketsRecvd ackState \<noteq> 0
            then (case tolerance ackState of
                    Some t \<Rightarrow> t
                  | None \<Rightarrow>
                      (if (case largestReceivedPacketNum ackState of Some n \<Rightarrow> n | None \<Rightarrow> 0)
                            > rxPacketsBeforeAckInitThreshold (transportSettings conn)
                       then rxPacketsBeforeAckAfterInit (transportSettings conn)
                       else rxPacketsBeforeAckBeforeInit (transportSettings conn)))
            else kNonRtxRxPacketsPendingBeforeAck);
         pktOutOfOrder = (if ignoreReorder ackState then False else pktOutOfOrder0);
         (conn1, ackState1) =
           (if pktHasRetransmittableData
            then (if pktHasCryptoData \<or> pktOutOfOrder
                  then (conn\<lparr>pendingEvents := (pendingEvents conn)\<lparr>scheduleAckTimeout := False\<rparr>\<rparr>,
                        ackState\<lparr>needsToSendAckImmediately := True\<rparr>)
                  else (let a = ackState\<lparr>numRxPacketsRecvd := numRxPacketsRecvd ackState + 1\<rparr>
                        in if unat (numRxPacketsRecvd a) + unat (numNonRxPacketsRecvd a) \<ge> thresh
                           then (conn\<lparr>pendingEvents := (pendingEvents conn)\<lparr>scheduleAckTimeout := False\<rparr>\<rparr>,
                                 a\<lparr>needsToSendAckImmediately := True\<rparr>)
                           else if \<not> needsToSendAckImmediately a
                           then (conn\<lparr>pendingEvents := (pendingEvents conn)\<lparr>scheduleAckTimeout := True\<rparr>\<rparr>, a)
                           else (conn, a)))
            else (let a = ackState\<lparr>numNonRxPacketsRecvd := numNonRxPacketsRecvd ackState + 1\<rparr>
                  in if unat (numNonRxPacketsRecvd a) + unat (numRxPacketsRecvd a) \<ge> thresh
                     then (conn\<lparr>pendingEvents := (pendingEvents conn)\<lparr>scheduleAckTimeout := False\<rparr>\<rparr>,
                           a\<lparr>needsToSendAckImmediately := True\<rparr>)
                     else (conn, a)))
     in if needsToSendAckImmediately ackState1
        then (conn1, ackState1\<lparr>numRxPacketsRecvd := 0, numNonRxPacketsRecvd := 0\<rparr>)
        else (conn1, ackState1))"

text \<open>A sequence of receives on one ack state: each element is the triple
  (out of order, has retransmittable data, has crypto data) of one packet.\<close>

fun recvPackets ::
  "nat \<Rightarrow> 'a QuicConnectionStateBase_scheme \<times> AckState \<Rightarrow> (bool \<times> bool \<times> bool) list
    \<Rightarrow> 'a QuicConnectionStateBase_scheme \<times> AckState" where
  "recvPackets k ca [] = ca"
| "recvPackets k ca ((ooo, rtx, crypto) # ps) =
     recvPackets k (updateAckSendStateOnRecvPacket k ca ooo rtx crypto) ps"

definition updateAckStateOnAckTimeout ::
  "'a QuicConnectionStateBase_scheme \<Rightarrow> 'a QuicConnectionStateBase_scheme" where
  "updateAckStateOnAckTimeout conn =
    (let conn1 = conn\<lparr>ackStates := (ackStates conn)\<lparr>appDataAckState :=
                   (appDataAckState (ackStates conn))\<lparr>needsToSendAckImmediately := True\<rparr>\<rparr>\<rparr>;
         conn2 = conn1\<lparr>ackStates := (ackStates conn1)\<lparr>appDataAckState :=
                   (appDataAckState (ackStates conn1))\<lparr>numRxPacketsRecvd := 0\<rparr>\<rparr>\<rparr>;
         conn3 = conn2\<lparr>ackStates := (ackStates conn2)\<lparr>appDataAckState :=
                   (appDataAckState (ackStates conn2))\<lparr>numNonRxPacketsRecvd := 0\<rparr>\<rparr>\<rparr>
     in conn3\<lparr>pendingEvents := (pendingEvents conn3)\<lparr>scheduleAckTimeout := False\<rparr>\<rparr>)"

section \<open>Errors\<close>

datatype TransportErrorCode =
  NO_ERROR | INTERNAL_ERROR | STREAM_LIMIT_ERROR | STREAM_STATE_ERROR
  | TRANSPORT_PARAMETER_ERROR | PROTOCOL_VIOLATION | INVALID_MIGRATION | CRYPTO_ERROR

datatype LocalErrorCode =
  LocalErrorCode_NO_ERROR | CREATING_EXISTING_STREAM | STREAM_LIMIT_EXCEEDED

datatype QuicTransportException = QuicTransportException string TransportErrorCode

text \<open>A function of the source that may throw returns \<open>Inl (exception, state)\<close>, with the
  state as it is at the throw (what was written before stays written), or
  \<open>Inr\<close> of its normal result.\<close>

section \<open>QuicStreamManager\<close>

text \<open>
  Stream ids, stream counts and limits are 64-bit unsigned integers in the source. The
  setters refuse a stream count above \<open>kMaxMaxStreams\<close>, which keeps the ids far from
  \<open>2^64\<close>; ids are modelled as naturals. The stream credit of \<open>removeClosedStream\<close> is
  a difference of unsigned values and wraps around below zero: there the arithmetic
  modulo \<open>2^64\<close> is written out.
\<close>

type_synonym StreamId = nat

datatype QuicNodeType = Client | Server

text \<open>Modelled from the spec: the stride between stream ids of one kind is 4, and the
  low two bits of an id encode the initiator (client or server) and the directionality;
  \<open>kStreamIncrement\<close>, \<open>isClientStream\<close>, \<open>isServerStream\<close>,
  \<open>isUnidirectionalStream\<close>, \<open>isRemoteStream\<close> and \<open>isLocalStream\<close> are
  declared in a file that is not part of the sources.\<close>

definition kStreamIncrement :: nat where
  "kStreamIncrement = 4"

definition isClientStream :: "StreamId \<Rightarrow> bool" where
  "isClientStream sid = (sid mod 2 = 0)"

definition isServerStream :: "StreamId \<Rightarrow> bool" where
  "isServerStream sid = (sid mod 2 = 1)"

definition isUnidirectionalStream :: "StreamId \<Rightarrow> bool" where
  "isUnidirectionalStream sid = ((sid div 2) mod 2 = 1)"

definition isRemoteStream :: "QuicNodeType \<Rightarrow> StreamId \<Rightarrow> bool" where
  "isRemoteStream nt sid =
     (case nt of Client \<Rightarrow> isServerStream sid | Server \<Rightarrow> isClientStream sid)"

definition isLocalStream :: "QuicNodeType \<Rightarrow> StreamId \<Rightarrow> bool" where
  "isLocalStream nt sid =
     (case nt of Client \<Rightarrow> isClientStream sid | Server \<Rightarrow> isServerStream sid)"

record Priority =
  level :: nat
  incremental :: bool

text \<open>Of a stream's state the manager reads the id, the control flag and the priority;
  buffers, flow control and the send and receive state machines belong to other files.\<close>

record QuicStreamState =
  stream_id :: StreamId
  isControl :: bool
  priority :: Priority

text \<open>The constructor \<open>QuicStreamState(streamId, conn)\<close> is declared outside the
  sources; a fresh stream is no control stream and has the default priority
  \<open>kDefaultPriority\<close>, a parameter.\<close>

definition newQuicStreamState :: "Priority \<Rightarrow> StreamId \<Rightarrow> QuicStreamState" where
  "newQuicStreamState kDefaultPriority sid =
     \<lparr>stream_id = sid, isControl = False, priority = kDefaultPriority\<rparr>"

record QuicStreamManager =
  nodeType :: QuicNodeType
  streams :: "StreamId \<rightharpoonup> QuicStreamState"
  openBidirectionalPeerStreams :: "StreamId set"
  openUnidirectionalPeerStreams :: "StreamId set"
  openBidirectionalLocalStreams :: "StreamId set"
  openUnidirectionalLocalStreams :: "StreamId set"
  nextAcceptablePeerBidirectionalStreamId :: StreamId
  nextAcceptablePeerUnidirectionalStreamId :: StreamId
  nextAcceptableLocalBidirectionalStreamId :: StreamId
  nextAcceptableLocalUnidirectionalStreamId :: StreamId
  maxLocalBidirectionalStreamId :: StreamId
  maxLocalUnidirectionalStreamId :: StreamId
  maxRemoteBidirectionalStreamId :: StreamId
  maxRemoteUnidirectionalStreamId :: StreamId
  initialRemoteBidirectionalStreamId :: StreamId
  initialRemoteUnidirectionalStreamId :: StreamId
  initialLocalBidirectionalStreamId :: StreamId
  initialLocalUnidirectionalStreamId :: StreamId
  maxLocalBidirectionalStreamIdIncreased :: bool
  maxLocalUnidirectionalStreamIdIncreased :: bool
  newPeerStreams :: "StreamId list"
  streamPriorityLevels :: "StreamId \<rightharpoonup> nat"
  readableStreams :: "StreamId set"
  peekableStreams :: "StreamId set"
  writableStreams :: "StreamId set"
  writableDSRStreams :: "StreamId set"
  writableControlStreams :: "StreamId set"
  lossStreams :: "StreamId set"
  blockedStreams :: "StreamId set"
  deliverableStreams :: "StreamId set"
  txStreams :: "StreamId set"
  windowUpdates :: "StreamId set"
  stopSendingStreams :: "StreamId set"
  flowControlUpdated :: "StreamId set"
  numControlStreams :: nat
  isAppIdle :: bool
  remoteBidirectionalStreamLimitUpdate_mem :: "nat option"
  remoteUnidirectionalStreamLimitUpdate_mem :: "nat option"
  streamLimitWindowingFraction :: nat
  advertisedInitialMaxStreamsBidi :: nat
  advertisedInitialMaxStreamsUni :: nat

definition isStreamUnopened :: "StreamId \<Rightarrow> StreamId \<Rightarrow> bool" where
  "isStreamUnopened streamId nextAcceptableStreamId = (streamId \<ge> nextAcceptableStreamId)"

text \<open>The loop of \<open>openPeerStreamIfNotClosed\<close>: every id from \<open>start\<close> up to
  \<open>streamId\<close>, in steps of the increment, is put into the open set and appended to the
  new streams.\<close>

function openPeerStreamLoop ::
  "StreamId \<Rightarrow> StreamId \<Rightarrow> StreamId set \<Rightarrow> StreamId list \<Rightarrow> StreamId set \<times> StreamId list" where
  "openPeerStreamLoop start streamId openStreams newStreams =
     (if start \<le> streamId
      then openPeerStreamLoop (start + kStreamIncrement) streamId
             (insert start openStreams) (newStreams @ [start])
      else (openStreams, newStreams))"
  by pat_completeness auto
termination
  by (relation "measure (\<lambda>(start, streamId, openStreams, newStreams). streamId + 1 - start)")
     (auto simp: kStreamIncrement_def)

text \<open>\<open>openPeerStreamIfNotClosed\<close> returns the error code and the new values of its three
  reference arguments: the open set, the next acceptable id and the new streams. The
  calls of \<open>reserve\<close> only size the containers.\<close>

definition openPeerStreamIfNotClosed ::
  "StreamId \<Rightarrow> StreamId set \<Rightarrow> StreamId \<Rightarrow> StreamId \<Rightarrow> StreamId list
    \<Rightarrow> LocalErrorCode \<times> StreamId set \<times> StreamId \<times> StreamId list" where
  "openPeerStreamIfNotClosed streamId openStreams nextAcceptableStreamId maxStreamId newStreams =
     (if streamId < nextAcceptableStreamId
      then (CREATING_EXISTING_STREAM, openStreams, nextAcceptableStreamId, newStreams)
      else if streamId \<ge> maxStreamId
      then (STREAM_LIMIT_EXCEEDED, openStreams, nextAcceptableStreamId, newStreams)
      else (let (openStreams', newStreams') =
                  openPeerStreamLoop nextAcceptableStreamId streamId openStreams newStreams;
                nextAcceptableStreamId' =
                  (if streamId \<ge> nextAcceptableStreamId then streamId + kStreamIncrement
                   else nextAcceptableStreamId)
            in (LocalErrorCode_NO_ERROR, openStreams', nextAcceptableStreamId', newStreams')))"

text \<open>The observer of priority changes is an outside object and only notified; the
  notifications are not part of the model.\<close>

definition addToStreamPriorityMap ::
  "QuicStreamManager \<Rightarrow> QuicStreamState \<Rightarrow> (QuicTransportException \<times> QuicStreamManager) + QuicStreamManager" where
  "addToStreamPriorityMap m streamState =
     (case streamPriorityLevels m (stream_id streamState) of
        Some l \<Rightarrow> Inl (QuicTransportException ''Attempted to add stream already in priority map''
                         STREAM_STATE_ERROR, m)
      | None \<Rightarrow>
          (let m' = m\<lparr>streamPriorityLevels :=
                        (streamPriorityLevels m)(stream_id streamState \<mapsto> level (priority streamState))\<rparr>
           in if streamPriorityLevels m' (stream_id streamState) \<noteq> Some (level (priority streamState))
              then Inl (QuicTransportException ''Failed to add stream to priority map''
                          STREAM_STATE_ERROR, m')
              else Inr m'))"

text \<open>Modelled from the spec: the connection is app-idle iff there are no non-control
  streams; \<open>hasNonCtrlStreams\<close> is declared in the header, which is not part of the
  sources. The congestion controller is only told about the change.\<close>

definition hasNonCtrlStreams :: "QuicStreamManager \<Rightarrow> bool" where
  "hasNonCtrlStreams m = (\<exists>s \<in> ran (streams m). \<not> isControl s)"

definition updateAppIdleState :: "QuicStreamManager \<Rightarrow> QuicStreamManager" where
  "updateAppIdleState m =
     (let currentNonCtrlStreams = hasNonCtrlStreams m
      in if isAppIdle m \<and> \<not> currentNonCtrlStreams then m
         else if \<not> isAppIdle m \<and> currentNonCtrlStreams then m
         else m\<lparr>isAppIdle := \<not> currentNonCtrlStreams\<rparr>)"

definition getOrCreatePeerStream ::
  "Priority \<Rightarrow> QuicStreamManager \<Rightarrow> StreamId
    \<Rightarrow> (QuicTransportException \<times> QuicStreamManager) + (QuicStreamState option \<times> QuicStreamManager)" where
  "getOrCreatePeerStream kDefaultPriority m streamId =
     (if nodeType m = Client \<and> isClientStream streamId
      then Inl (QuicTransportException ''Attempted getting client peer stream on client''
                  STREAM_STATE_ERROR, m)
      else if nodeType m = Server \<and> isServerStream streamId
      then Inl (QuicTransportException ''Attempted getting server peer stream on server''
                  STREAM_STATE_ERROR, m)
      else if \<not> isClientStream streamId \<and> \<not> isServerStream streamId
      then Inl (QuicTransportException ''Invalid stream'' STREAM_STATE_ERROR, m)
      else
        (case streams m streamId of
           Some peerStream \<Rightarrow> Inr (Some peerStream, m)
         | None \<Rightarrow>
            (let uni = isUnidirectionalStream streamId;
                 openPeerStreams = (if uni then openUnidirectionalPeerStreams m
                                    else openBidirectionalPeerStreams m)
             in if streamId \<in> openPeerStreams
                then (let st = newQuicStreamState kDefaultPriority streamId;
                          m1 = m\<lparr>streams := (streams m)(streamId \<mapsto> st)\<rparr>
                      in case addToStreamPriorityMap m1 st of
                           Inl e \<Rightarrow> Inl e
                         | Inr m2 \<Rightarrow> Inr (Some st, m2))
                else
                  (let nextAcceptableStreamId =
                         (if uni then nextAcceptablePeerUnidirectionalStreamId m
                          else nextAcceptablePeerBidirectionalStreamId m);
                       maxStreamId = (if uni then maxRemoteUnidirectionalStreamId m
                                      else maxRemoteBidirectionalStreamId m);
                       (openedResult, openPeerStreams', nextAcceptableStreamId', newStreams') =
                          openPeerStreamIfNotClosed streamId openPeerStreams
                            nextAcceptableStreamId maxStreamId (newPeerStreams m);
                       m1 = (if uni
                             then m\<lparr>openUnidirectionalPeerStreams := openPeerStreams',
                                    nextAcceptablePeerUnidirectionalStreamId := nextAcceptableStreamId',
                                    newPeerStreams := newStreams'\<rparr>
                             else m\<lparr>openBidirectionalPeerStreams := openPeerStreams',
                                    nextAcceptablePeerBidirectionalStreamId := nextAcceptableStreamId',
                                    newPeerStreams := newStreams'\<rparr>)
                   in if openedResult = CREATING_EXISTING_STREAM then Inr (None, m1)
                      else if openedResult = STREAM_LIMIT_EXCEEDED
                      then Inl (QuicTransportException ''Exceeded stream limit.''
                                  STREAM_LIMIT_ERROR, m1)
                      else (let st = newQuicStreamState kDefaultPriority streamId;
                                m2 = m1\<lparr>streams := (streams m1)(streamId \<mapsto> st)\<rparr>
                            in case addToStreamPriorityMap m2 st of
                                 Inl e \<Rightarrow> Inl e
                               | Inr m3 \<Rightarrow> Inr (Some st, m3))))))"

definition getOrCreateOpenedLocalStream ::
  "Priority \<Rightarrow> QuicStreamManager \<Rightarrow> StreamId
    \<Rightarrow> (QuicTransportException \<times> QuicStreamManager) + (QuicStreamState option \<times> QuicStreamManager)" where
  "getOrCreateOpenedLocalStream kDefaultPriority m streamId =
     (let openLocalStreams = (if isUnidirectionalStream streamId
                              then openUnidirectionalLocalStreams m
                              else openBidirectionalLocalStreams m)
      in if streamId \<in> openLocalStreams
         then (case streams m streamId of
                 Some s \<Rightarrow> Inl (QuicTransportException ''Creating an active stream''
                                  STREAM_STATE_ERROR, m)
               | None \<Rightarrow>
                   (let st = newQuicStreamState kDefaultPriority streamId;
                        m1 = m\<lparr>streams := (streams m)(streamId \<mapsto> st)\<rparr>
                    in case addToStreamPriorityMap m1 st of
                         Inl e \<Rightarrow> Inl e
                       | Inr m2 \<Rightarrow> Inr (Some st, m2)))
         else Inr (None, m))"

definition getStream ::
  "Priority \<Rightarrow> QuicStreamManager \<Rightarrow> StreamId
    \<Rightarrow> (QuicTransportException \<times> QuicStreamManager) + (QuicStreamState option \<times> QuicStreamManager)" where
  "getStream kDefaultPriority m streamId =
     (if isRemoteStream (nodeType m) streamId
      then (case getOrCreatePeerStream kDefaultPriority m streamId of
              Inl e \<Rightarrow> Inl e
            | Inr (stream, m1) \<Rightarrow> Inr (stream, updateAppIdleState m1))
      else (case streams m streamId of
              Some s \<Rightarrow> Inr (Some s, m)
            | None \<Rightarrow>
               (case getOrCreateOpenedLocalStream kDefaultPriority m streamId of
                  Inl e \<Rightarrow> Inl e
                | Inr (stream, m1) \<Rightarrow>
                    (let nextAcceptableStreamId =
                           (if isUnidirectionalStream streamId
                            then nextAcceptableLocalUnidirectionalStreamId m1
                            else nextAcceptableLocalBidirectionalStreamId m1)
                     in if stream = None \<and> isStreamUnopened streamId nextAcceptableStreamId
                        then Inl (QuicTransportException ''Trying to get unopened local stream''
                                    STREAM_STATE_ERROR, m1)
                        else Inr (stream, updateAppIdleState m1)))))"

text \<open>\<open>setMaxLocalBidirectionalStreams\<close> and its unidirectional twin. The first
  argument is the constant \<open>kMaxMaxStreams\<close>.\<close>

definition setMaxLocalBidirectionalStreams ::
  "nat \<Rightarrow> QuicStreamManager \<Rightarrow> nat \<Rightarrow> bool
    \<Rightarrow> (QuicTransportException \<times> QuicStreamManager) + QuicStreamManager" where
  "setMaxLocalBidirectionalStreams kMaxMaxStreams m maxStreams force =
     (if maxStreams > kMaxMaxStreams
      then Inl (QuicTransportException ''Attempt to set maxStreams beyond the max allowed.''
                  STREAM_LIMIT_ERROR, m)
      else (let maxStreamId = maxStreams * kStreamIncrement + initialLocalBidirectionalStreamId m
            in if force \<or> maxStreamId > maxLocalBidirectionalStreamId m
               then Inr (m\<lparr>maxLocalBidirectionalStreamId := maxStreamId,
                           maxLocalBidirectionalStreamIdIncreased := True\<rparr>)
               else Inr m))"

definition setMaxLocalUnidirectionalStreams ::
  "nat \<Rightarrow> QuicStreamManager \<Rightarrow> nat \<Rightarrow> bool
    \<Rightarrow> (QuicTransportException \<times> QuicStreamManager) + QuicStreamManager" where
  "setMaxLocalUnidirectionalStreams kMaxMaxStreams m maxStreams force =
     (if maxStreams > kMaxMaxStreams
      then Inl (QuicTransportException ''Attempt to set maxStreams beyond the max allowed.''
                  STREAM_LIMIT_ERROR, m)
      else (let maxStreamId = maxStreams * kStreamIncrement + initialLocalUnidirectionalStreamId m
            in if force \<or> maxStreamId > maxLocalUnidirectionalStreamId m
               then Inr (m\<lparr>maxLocalUnidirectionalStreamId := maxStreamId,
                           maxLocalUnidirectionalStreamIdIncreased := True\<rparr>)
               else Inr m))"

text \<open>\<open>setMaxRemoteBidirectionalStreamsInternal\<close> and its unidirectional twin. The first
  argument is the constant \<open>kMaxMaxStreams\<close>.\<close>

definition setMaxRemoteBidirectionalStreamsInternal ::
  "nat \<Rightarrow> QuicStreamManager \<Rightarrow> nat \<Rightarrow> bool
    \<Rightarrow> (QuicTransportException \<times> QuicStreamManager) + QuicStreamManager" where
  "setMaxRemoteBidirectionalStreamsInternal kMaxMaxStreams m maxStreams force =
     (if maxStreams > kMaxMaxStreams
      then Inl (QuicTransportException ''Attempt to set maxStreams beyond the max allowed.''
                  STREAM_LIMIT_ERROR, m)
      else (let maxStreamId = maxStreams * kStreamIncrement + initialRemoteBidirectionalStreamId m
            in if force \<or> maxStreamId > maxRemoteBidirectionalStreamId m
               then Inr (m\<lparr>maxRemoteBidirectionalStreamId := maxStreamId\<rparr>)
               else Inr m))"

definition setMaxRemoteUnidirectionalStreamsInternal ::
  "nat \<Rightarrow> QuicStreamManager \<Rightarrow> nat \<Rightarrow> bool
    \<Rightarrow> (QuicTransportException \<times> QuicStreamManager) + QuicStreamManager" where
  "setMaxRemoteUnidirectionalStreamsInternal kMaxMaxStreams m maxStreams force =
     (if maxStreams > kMaxMaxStreams
      then Inl (QuicTransportException ''Attempt to set maxStreams beyond the max allowed.''
                  STREAM_LIMIT_ERROR, m)
      else (let maxStreamId = maxStreams * kStreamIncrement + initialRemoteUnidirectionalStreamId m
            in if force \<or> maxStreamId > maxRemoteUnidirectionalStreamId m
               then Inr (m\<lparr>maxRemoteUnidirectionalStreamId := maxStreamId\<rparr>)
               else Inr m))"

definition setMaxRemoteBidirectionalStreams ::
  "nat \<Rightarrow> QuicStreamManager \<Rightarrow> nat
    \<Rightarrow> (QuicTransportException \<times> QuicStreamManager) + QuicStreamManager" where
  "setMaxRemoteBidirectionalStreams kMaxMaxStreams m maxStreams =
     setMaxRemoteBidirectionalStreamsInternal kMaxMaxStreams m maxStreams False"

definition setMaxRemoteUnidirectionalStreams ::
  "nat \<Rightarrow> QuicStreamManager \<Rightarrow> nat
    \<Rightarrow> (QuicTransportException \<times> QuicStreamManager) + QuicStreamManager" where
  "setMaxRemoteUnidirectionalStreams kMaxMaxStreams m maxStreams =
     setMaxRemoteUnidirectionalStreamsInternal kMaxMaxStreams m maxStreams False"

text \<open>\<open>refreshTransportSettings\<close>: the manager keeps a pointer to the settings of the
  connection; the two advertised initial stream limits are the settings it reads.\<close>

definition refreshTransportSettings ::
  "nat \<Rightarrow> QuicStreamManager \<Rightarrow> nat \<Rightarrow> nat
    \<Rightarrow> (QuicTransportException \<times> QuicStreamManager) + QuicStreamManager" where
  "refreshTransportSettings kMaxMaxStreams m settingsMaxStreamsBidi settingsMaxStreamsUni =
     (let m1 = m\<lparr>advertisedInitialMaxStreamsBidi := settingsMaxStreamsBidi,
                  advertisedInitialMaxStreamsUni := settingsMaxStreamsUni\<rparr>
      in case setMaxRemoteBidirectionalStreamsInternal kMaxMaxStreams m1
                (advertisedInitialMaxStreamsBidi m1) True of
           Inl e \<Rightarrow> Inl e
         | Inr m2 \<Rightarrow> setMaxRemoteUnidirectionalStreamsInternal kMaxMaxStreams m2
                       (advertisedInitialMaxStreamsUni m2) True)"

text \<open>Modelled from the spec: the number of remote streams that can still be opened,
  the gap between the maximum remote stream id and the next acceptable peer stream id
  in units of the stream increment; \<open>openableRemoteBidirectionalStreams\<close> and
  \<open>openableRemoteUnidirectionalStreams\<close> are declared in the header, which is not part
  of the sources.\<close>

definition openableRemoteBidirectionalStreams :: "QuicStreamManager \<Rightarrow> nat" where
  "openableRemoteBidirectionalStreams m =
     (maxRemoteBidirectionalStreamId m - nextAcceptablePeerBidirectionalStreamId m)
       div kStreamIncrement"

definition openableRemoteUnidirectionalStreams :: "QuicStreamManager \<Rightarrow> nat" where
  "openableRemoteUnidirectionalStreams m =
     (maxRemoteUnidirectionalStreamId m - nextAcceptablePeerUnidirectionalStreamId m)
       div kStreamIncrement"

text \<open>Modelled from the spec: reading the MAX_STREAMS update returns the pending value
  and clears it, so that a second read returns none; the accessors
  \<open>remoteBidirectionalStreamLimitUpdate\<close> and \<open>remoteUnidirectionalStreamLimitUpdate\<close>
  are declared in the header, which is not part of the sources.\<close>

definition remoteBidirectionalStreamLimitUpdate ::
  "QuicStreamManager \<Rightarrow> nat option \<times> QuicStreamManager" where
  "remoteBidirectionalStreamLimitUpdate m =
     (remoteBidirectionalStreamLimitUpdate_mem m,
      m\<lparr>remoteBidirectionalStreamLimitUpdate_mem := None\<rparr>)"

definition remoteUnidirectionalStreamLimitUpdate ::
  "QuicStreamManager \<Rightarrow> nat option \<times> QuicStreamManager" where
  "remoteUnidirectionalStreamLimitUpdate m =
     (remoteUnidirectionalStreamLimitUpdate_mem m,
      m\<lparr>remoteUnidirectionalStreamLimitUpdate_mem := None\<rparr>)"

text \<open>Unsigned 64-bit subtraction and addition, on naturals below \<open>2^64\<close>.\<close>

definition u64_sub :: "nat \<Rightarrow> nat \<Rightarrow> nat" where
  "u64_sub a b = nat ((int a - int b) mod 2 ^ 64)"

definition u64_add :: "nat \<Rightarrow> nat \<Rightarrow> nat" where
  "u64_add a b = (a + b) mod 2 ^ 64"

text \<open>\<open>removeClosedStream\<close>, in three parts: the erasures from the auxiliary indices,
  the stream limit update for a peer stream (the block that follows the erasure from the
  open set), and the function itself. The assertion that the stream is in its terminal
  states is a debug check on state that other files own. The division by the windowing
  fraction is undefined in the source when the fraction is zero, and the difference of
  the maximum and the initial remote stream id wraps when the maximum is the smaller one;
  the model is meant for a positive fraction and a maximum that is not below the initial
  id.\<close>

definition removeClosedStream_eraseIndices ::
  "QuicStreamManager \<Rightarrow> StreamId \<Rightarrow> QuicStreamManager" where
  "removeClosedStream_eraseIndices m streamId =
     m\<lparr>readableStreams := readableStreams m - {streamId},
       peekableStreams := peekableStreams m - {streamId},
       writableStreams := writableStreams m - {streamId},
       writableDSRStreams := writableDSRStreams m - {streamId},
       writableControlStreams := writableControlStreams m - {streamId},
       lossStreams := lossStreams m - {streamId},
       blockedStreams := blockedStreams m - {streamId},
       deliverableStreams := deliverableStreams m - {streamId},
       txStreams := txStreams m - {streamId},
       windowUpdates := windowUpdates m - {streamId},
       stopSendingStreams := stopSendingStreams m - {streamId},
       flowControlUpdated := flowControlUpdated m - {streamId}\<rparr>"

definition removeClosedStream_limitUpdate ::
  "nat \<Rightarrow> QuicStreamManager \<Rightarrow> StreamId
    \<Rightarrow> (QuicTransportException \<times> QuicStreamManager) + QuicStreamManager" where
  "removeClosedStream_limitUpdate kMaxMaxStreams m streamId =
     (let uni = isUnidirectionalStream streamId;
          openPeerStreams = (if uni then openUnidirectionalPeerStreams m
                             else openBidirectionalPeerStreams m);
          initialStreamLimit = (if uni then advertisedInitialMaxStreamsUni m
                                else advertisedInitialMaxStreamsBidi m);
          streamWindow = initialStreamLimit div streamLimitWindowingFraction m;
          openableRemoteStreams = (if uni then openableRemoteUnidirectionalStreams m
                                   else openableRemoteBidirectionalStreams m);
          streamCredit = u64_sub (u64_sub initialStreamLimit openableRemoteStreams)
                           (card openPeerStreams)
      in if streamCredit \<ge> streamWindow
         then (if uni
               then (let maxStreams = (maxRemoteUnidirectionalStreamId m
                             - initialRemoteUnidirectionalStreamId m) div kStreamIncrement
                     in case setMaxRemoteUnidirectionalStreams kMaxMaxStreams m
                               (u64_add maxStreams streamCredit) of
                          Inl e \<Rightarrow> Inl e
                        | Inr m' \<Rightarrow> Inr (m'\<lparr>remoteUnidirectionalStreamLimitUpdate_mem :=
                                            Some (u64_add maxStreams streamCredit)\<rparr>))
               else (let maxStreams = (maxRemoteBidirectionalStreamId m
                             - initialRemoteBidirectionalStreamId m) div kStreamIncrement
                     in case setMaxRemoteBidirectionalStreams kMaxMaxStreams m
                               (u64_add maxStreams streamCredit) of
                          Inl e \<Rightarrow> Inl e
                        | Inr m' \<Rightarrow> Inr (m'\<lparr>remoteBidirectionalStreamLimitUpdate_mem :=
                                            Some (u64_add maxStreams streamCredit)\<rparr>)))
         else Inr m)"

definition removeClosedStream ::
  "nat \<Rightarrow> QuicStreamManager \<Rightarrow> StreamId
    \<Rightarrow> (QuicTransportException \<times> QuicStreamManager) + QuicStreamManager" where
  "removeClosedStream kMaxMaxStreams m streamId =
     (case streams m streamId of
        None \<Rightarrow> Inr m
      | Some it \<Rightarrow>
         (let m1 = removeClosedStream_eraseIndices m streamId
          in case streamPriorityLevels m1 streamId of
               None \<Rightarrow> Inl (QuicTransportException ''Removed stream is not in the priority map''
                               STREAM_STATE_ERROR, m1)
             | Some l \<Rightarrow>
                (let m2 = m1\<lparr>streamPriorityLevels := (streamPriorityLevels m1)(streamId := None)\<rparr>;
                     m3 = (if isControl it
                           then m2\<lparr>numControlStreams := numControlStreams m2 - 1\<rparr> else m2);
                     m4 = m3\<lparr>streams := (streams m3)(streamId := None)\<rparr>
                 in if isRemoteStream (nodeType m4) streamId
                    then
                      (let m5 = (if isUnidirectionalStream streamId
                                 then m4\<lparr>openUnidirectionalPeerStreams :=
                                           openUnidirectionalPeerStreams m4 - {streamId}\<rparr>
                                 else m4\<lparr>openBidirectionalPeerStreams :=
                                           openBidirectionalPeerStreams m4 - {streamId}\<rparr>)
                       in case removeClosedStream_limitUpdate kMaxMaxStreams m5 streamId of
                            Inl e \<Rightarrow> Inl e
                          | Inr m6 \<Rightarrow> Inr (updateAppIdleState m6))
                    else
                      (let m5 = (if isUnidirectionalStream streamId
                                 then m4\<lparr>openUnidirectionalLocalStreams :=
                                           openUnidirectionalLocalStreams m4 - {streamId}\<rparr>
                                 else m4\<lparr>openBidirectionalLocalStreams :=
                                           openBidirectionalLocalStreams m4 - {streamId}\<rparr>)
                       in Inr (updateAppIdleState m5)))))"

text \<open>Running \<open>getStream\<close> and \<open>removeClosedStream\<close> over a list of ids, stopping at the
  first exception.\<close>

fun getStreams ::
  "Priority \<Rightarrow> QuicStreamManager \<Rightarrow> StreamId list
    \<Rightarrow> (QuicTransportException \<times> QuicStreamManager) + QuicStreamManager" where
  "getStreams p m [] = Inr m"
| "getStreams p m (sid # sids) =
     (case getStream p m sid of Inl e \<Rightarrow> Inl e | Inr (s, m') \<Rightarrow> getStreams p m' sids)"

fun removeClosedStreams ::
  "nat \<Rightarrow> QuicStreamManager \<Rightarrow> StreamId list
    \<Rightarrow> (QuicTransportException \<times> QuicStreamManager) + QuicStreamManager" where
  "removeClosedStreams k m [] = Inr m"
| "removeClosedStreams k m (sid # sids) =
     (case removeClosedStream k m sid of Inl e \<Rightarrow> Inl e | Inr m' \<Rightarrow> removeClosedStreams k m' sids)"

section \<open>TransportKnobs\<close>

text \<open>
  The value that \<open>folly::parseJson\<close> returns. A JSON object has string keys; the
  payload of a double is never read by the knob parser.
\<close>

datatype dynamic =
  NULLT | BOOL bool | INT64 int | DOUBLE | STRING string
  | ARRAY "dynamic list" | OBJECT "(string \<times> dynamic) list"














section \<open>ServerStateMachine: data\<close>

text \<open>
  Cipher objects, congestion controllers and reset tokens are opaque to the state machine:
  they are named by numbers. A \<open>std::unique_ptr\<close> or \<open>folly::Optional\<close> member is an
  \<open>option\<close>. Points in time and durations are integers (microseconds). The qlog and
  statistics sinks only observe and are left out.
\<close>

type_synonym ConnectionId = "8 word list"
type_synonym Aead = nat
type_synonym PacketNumberCipher = nat
type_synonym CongestionController = nat
type_synonym StatelessResetToken = nat
type_synonym TimePoint = int

datatype ServerState = Open | Closed

datatype QuicVersion =
  VERSION_NEGOTIATION | QUIC_DRAFT | QUIC_V1 | MVFST_EXPERIMENTAL | OtherVersion "32 word"

datatype IPAddress = IPv4 "32 word" | IPv6 "128 word"

record SocketAddress =
  ipAddress :: IPAddress
  port :: "16 word"

datatype ProtectionType = Initial | Handshake | ZeroRtt | KeyPhaseZero | KeyPhaseOne

datatype EncryptionLevel = EL_Initial | EL_Handshake | EL_EarlyData | EL_AppData

datatype PacketNumberSpace = PNS_Initial | PNS_Handshake | PNS_AppData

datatype QuicSimpleFrame = HandshakeDoneFrame | PathChallengeFrame "64 word" | OtherSimpleFrame

text \<open>The kinds of frames of a received packet; the payloads belong to the frame
  handlers.\<close>

datatype QuicFrame =
  PaddingFrame | RstStreamFrame | ConnectionCloseFrame | MaxDataFrame | MaxStreamDataFrame
  | DataBlockedFrame | StreamDataBlockedFrame | StreamsBlockedFrame | ReadAckFrame
  | ReadStreamFrame | ReadCryptoFrame | ReadNewTokenFrame | QuicSimpleFrame | PingFrame
  | NoopFrame | DatagramFrame

record PacketHeader =
  isLongHeader :: bool
  protectionType :: ProtectionType
  packetSequenceNum :: PacketNum
  packetNumberSpace :: PacketNumberSpace
  longHeaderVersion :: QuicVersion
  shortHeaderConnectionId :: ConnectionId

record RegularQuicPacket =
  header :: PacketHeader
  frames :: "QuicFrame list"

record QuicReadCodec =
  codecClientConnectionId :: "ConnectionId option"
  codecServerConnectionId :: "ConnectionId option"
  initialReadCipher :: "Aead option"
  initialReadHeaderCipher :: "PacketNumberCipher option"
  zeroRttReadCipher :: "Aead option"
  zeroRttHeaderCipher :: "PacketNumberCipher option"
  oneRttReadCipher :: "Aead option"
  oneRttHeaderCipher :: "PacketNumberCipher option"
  handshakeReadCipher :: "Aead option"
  handshakeHeaderCipher :: "PacketNumberCipher option"
  codecParameters :: "(nat \<times> QuicVersion) option"

record FlowControlState =
  peerAdvertisedMaxOffset :: nat
  peerAdvertisedInitialMaxStreamOffsetBidiLocal :: nat
  peerAdvertisedInitialMaxStreamOffsetBidiRemote :: nat
  peerAdvertisedInitialMaxStreamOffsetUni :: nat

datatype D6DMachineState = DISABLED | BASE | SEARCHING | SEARCH_COMPLETE | D6D_ERROR

record D6DState =
  basePMTU :: nat
  maxPMTU :: nat
  d6d_state :: D6DMachineState
  lastNonSearchState :: D6DMachineState
  timeLastNonSearchState :: TimePoint
  noBlackholeDetection :: bool
  raiseTimeout :: nat
  probeTimeout :: nat

record CongestionAndRttState =
  cr_peerAddress :: SocketAddress
  cr_recordTime :: TimePoint
  cr_congestionController :: "CongestionController option"
  cr_srtt :: microseconds
  cr_lrtt :: microseconds
  cr_rttvar :: microseconds
  cr_mrtt :: microseconds

record MigrationState =
  numMigrations :: nat
  previousPeerAddresses :: "SocketAddress list"
  lastCongestionAndRtt :: "CongestionAndRttState option"

record ConnectionIdData =
  connId :: ConnectionId
  sequenceNumber :: nat
  token :: "StatelessResetToken option"

text \<open>
  The connection id algorithm is an outside object whose \<open>encodeConnectionId\<close> may give a
  new result at every call: it is the sequence of its future results (\<open>None\<close> for an
  error), and a call consumes the head. The factory of congestion controllers is the
  function from the controller type to the controller it makes.
\<close>

record QuicServerConnectionState = QuicConnectionStateBase +
  state :: ServerState
  version :: "QuicVersion option"
  peerAddress :: SocketAddress
  originalPeerAddress :: SocketAddress
  serverAddr :: SocketAddress
  clientConnectionId :: "ConnectionId option"
  serverConnectionId :: "ConnectionId option"
  readCodec :: "QuicReadCodec option"
  usedZeroRtt :: bool
  oneRttWriteCipher :: "Aead option"
  oneRttWriteHeaderCipher :: "PacketNumberCipher option"
  initialWriteCipher :: "Aead option"
  initialHeaderCipher :: "PacketNumberCipher option"
  canBePaced :: bool
  writableBytesLimit :: "nat option"
  sentHandshakeDone :: bool
  pendingFrames :: "QuicSimpleFrame list"
  flowControlState :: FlowControlState
  streamManager :: QuicStreamManager
  peerIdleTimeout :: nat
  peerAckDelayExponent :: nat
  peerMinAckDelay :: "nat option"
  datagramMaxWriteFrameSize :: nat
  peerMaxUdpPayloadSize :: nat
  udpSendPacketLen :: nat
  peerActiveConnectionIdLimit :: nat
  d6d :: D6DState
  migrationState :: MigrationState
  pathValidationLimiter :: "nat option"
  outstandingPathValidation :: "64 word option"
  congestionController :: "CongestionController option"
  congestionControllerFactory :: "(nat \<Rightarrow> CongestionController) option"
  connIdAlgo :: "(nat \<Rightarrow> ConnectionId option) option"
  serverConnIdParams :: "nat option"
  connIdRejector :: "(ConnectionId \<Rightarrow> bool) option"
  nextSelfConnectionIdSequence :: nat
  selfConnectionIds :: "ConnectionIdData list"
  transportParametersEncoded :: bool

text \<open>
  The decoded transport parameters of the client: what \<open>getIntegerParameter\<close> and
  \<open>getConnIdParameter\<close> (declared outside the sources) return for each parameter id.
\<close>

record ClientTransportParameters =
  preferred_address :: "nat option"
  original_destination_connection_id :: "nat option"
  stateless_reset_token :: "nat option"
  retry_source_connection_id :: "nat option"
  initial_max_data :: "nat option"
  initial_max_stream_data_bidi_local :: "nat option"
  initial_max_stream_data_bidi_remote :: "nat option"
  initial_max_stream_data_uni :: "nat option"
  initial_max_streams_bidi :: "nat option"
  initial_max_streams_uni :: "nat option"
  idle_timeout :: "nat option"
  ack_delay_exponent :: "nat option"
  max_packet_size :: "nat option"
  active_connection_id_limit :: "nat option"
  d6d_base_pmtu :: "nat option"
  d6d_raise_timeout :: "nat option"
  d6d_probe_timeout :: "nat option"
  min_ack_delay :: "nat option"
  max_ack_delay :: "nat option"
  max_datagram_frame_size :: "nat option"
  initial_source_connection_id :: "ConnectionId option"

text \<open>What the getters of the handshake layer return during one call of
  \<open>updateHandshakeState\<close>.\<close>

record ServerHandshake =
  getZeroRttReadCipher :: "Aead option"
  getZeroRttReadHeaderCipher :: "PacketNumberCipher option"
  getOneRttWriteCipher :: "Aead option"
  getOneRttReadCipher :: "Aead option"
  getOneRttWriteHeaderCipher :: "PacketNumberCipher option"
  getOneRttReadHeaderCipher :: "PacketNumberCipher option"
  getHandshakeReadCipher :: "Aead option"
  getHandshakeReadHeaderCipher :: "PacketNumberCipher option"
  getClientTransportParams :: "ClientTransportParameters option"
  isHandshakeDone :: bool

text \<open>
  The constants of \<open>QuicConstants.h\<close> and the functions of other files that the state
  machine calls, none of them part of the sources: they are parameters of the model.
\<close>

record ServerEnv =
  kMaxNumMigrationsAllowed :: nat
  kTimeToRetainLastCongestionAndRttState :: int
  kDefaultMinRtt :: microseconds
  kMaxMaxStreams :: nat
  kMaxAckDelay :: nat
  kMinMaxUDPPayload :: nat
  kMaxIdleTimeout :: nat
  kMaxAckDelayExponent :: nat
  kDefaultAckDelayExponent :: nat
  kMaxDatagramPacketOverhead :: nat
  kDefaultMaxUDPPayload :: nat
  kDefaultUDPSendPacketLen :: nat
  kDefaultActiveConnectionIdLimit :: nat
  kMinD6DRaiseTimeout :: nat
  kMinD6DProbeTimeout :: nat
  kDefaultConnectionIdSize :: nat
  protectionTypeToEncryptionLevel :: "ProtectionType \<Rightarrow> EncryptionLevel"
  updatePacingOnKeyEstablished :: "bool \<Rightarrow> bool"
  generateToken :: "nat \<Rightarrow> SocketAddress \<Rightarrow> ConnectionId \<Rightarrow> StatelessResetToken"
  getClientInitialCipher :: "ConnectionId \<Rightarrow> QuicVersion \<Rightarrow> Aead"
  getServerInitialCipher :: "ConnectionId \<Rightarrow> QuicVersion \<Rightarrow> Aead"
  makeClientInitialHeaderCipher :: "ConnectionId \<Rightarrow> QuicVersion \<Rightarrow> PacketNumberCipher"
  makeServerInitialHeaderCipher :: "ConnectionId \<Rightarrow> QuicVersion \<Rightarrow> PacketNumberCipher"

text \<open>A function of the state machine ends normally, by a thrown
  \<open>QuicTransportException\<close>, or by a failed \<open>CHECK\<close>, which aborts the process. The
  failure comes with the connection as it is at that point.\<close>

datatype ServerFailure = Thrown QuicTransportException | CheckFailed string

type_synonym 'a ServerResult = "(ServerFailure \<times> QuicServerConnectionState) + 'a"

definition throwTransport ::
  "string \<Rightarrow> TransportErrorCode \<Rightarrow> QuicServerConnectionState \<Rightarrow> 'a ServerResult" where
  "throwTransport msg code conn = Inl (Thrown (QuicTransportException msg code), conn)"

definition kConnIdEncodingRetryLimit :: nat where
  "kConnIdEncodingRetryLimit = 16"

section \<open>ServerStateMachine: functions\<close>

text \<open>\<open>inSubnet\<close> with a prefix of 24 bits on IPv4 addresses: the upper 24 bits agree.\<close>

definition maybeNATRebinding :: "SocketAddress \<Rightarrow> SocketAddress \<Rightarrow> bool" where
  "maybeNATRebinding newPeerAddress oldPeerAddress =
     (let newIPAddr = ipAddress newPeerAddress; oldIPAddr = ipAddress oldPeerAddress
      in if newIPAddr = oldIPAddr then True
         else (case (newIPAddr, oldIPAddr) of
                 (IPv4 a, IPv4 b) \<Rightarrow> drop_bit 8 a = drop_bit 8 b
               | _ \<Rightarrow> False))"

text \<open>\<open>moveCurrentCongestionAndRttState\<close> returns the saved state and leaves the
  connection without its controller; \<open>now\<close> is the reading of the clock.\<close>

definition moveCurrentCongestionAndRttState ::
  "TimePoint \<Rightarrow> QuicServerConnectionState \<Rightarrow> CongestionAndRttState \<times> QuicServerConnectionState" where
  "moveCurrentCongestionAndRttState now conn =
     (\<lparr>cr_peerAddress = peerAddress conn, cr_recordTime = now,
        cr_congestionController = congestionController conn,
        cr_srtt = srtt (lossState conn), cr_lrtt = lrtt (lossState conn),
        cr_rttvar = rttvar (lossState conn), cr_mrtt = mrtt (lossState conn)\<rparr>,
      conn\<lparr>congestionController := None\<rparr>)"

definition resetCongestionAndRttState ::
  "ServerEnv \<Rightarrow> QuicServerConnectionState \<Rightarrow> QuicServerConnectionState ServerResult" where
  "resetCongestionAndRttState env conn =
     (case congestionControllerFactory conn of
        None \<Rightarrow> Inl (CheckFailed ''CongestionControllerFactory is not set.'', conn)
      | Some makeCongestionController \<Rightarrow>
          Inr (conn\<lparr>congestionController :=
                      Some (makeCongestionController
                              (defaultCongestionController (transportSettings conn))),
                    lossState := (lossState conn)\<lparr>srtt := 0, lrtt := 0, rttvar := 0,
                                    mrtt := kDefaultMinRtt env\<rparr>\<rparr>))"

definition recoverOrResetCongestionAndRttState ::
  "ServerEnv \<Rightarrow> TimePoint \<Rightarrow> QuicServerConnectionState \<Rightarrow> SocketAddress
    \<Rightarrow> QuicServerConnectionState ServerResult" where
  "recoverOrResetCongestionAndRttState env now conn peerAddr =
     (case lastCongestionAndRtt (migrationState conn) of
        None \<Rightarrow> resetCongestionAndRttState env conn
      | Some lastState \<Rightarrow>
          if cr_peerAddress lastState = peerAddr
             \<and> now - cr_recordTime lastState \<le> kTimeToRetainLastCongestionAndRttState env
          then Inr (conn\<lparr>congestionController := cr_congestionController lastState,
                         lossState := (lossState conn)\<lparr>srtt := cr_srtt lastState,
                            lrtt := cr_lrtt lastState, rttvar := cr_rttvar lastState,
                            mrtt := cr_mrtt lastState\<rparr>,
                         migrationState := (migrationState conn)\<lparr>lastCongestionAndRtt := None\<rparr>\<rparr>)
          else resetCongestionAndRttState env conn)"

text \<open>\<open>onConnectionMigration\<close>; \<open>pathData\<close> is the secure random number that the
  function draws for a new path challenge.\<close>

definition onConnectionMigration ::
  "ServerEnv \<Rightarrow> TimePoint \<Rightarrow> 64 word \<Rightarrow> QuicServerConnectionState \<Rightarrow> SocketAddress \<Rightarrow> bool
    \<Rightarrow> QuicServerConnectionState ServerResult" where
  "onConnectionMigration env now pathData conn newPeerAddress isIntentional =
     (if numMigrations (migrationState conn) \<ge> kMaxNumMigrationsAllowed env
      then throwTransport ''Too many migrations'' INVALID_MIGRATION conn
      else
       (let conn1 = conn\<lparr>migrationState := (migrationState conn)
                      \<lparr>numMigrations := numMigrations (migrationState conn) + 1\<rparr>\<rparr>;
            hasPendingPathChallenge = (pathChallenge (pendingEvents conn1) \<noteq> None);
            conn2 = conn1\<lparr>pendingEvents := (pendingEvents conn1)\<lparr>pathChallenge := None\<rparr>\<rparr>;
            conn3 =
              (if newPeerAddress \<notin> set (previousPeerAddresses (migrationState conn2))
               then conn2\<lparr>pendingEvents := (pendingEvents conn2)\<lparr>pathChallenge := Some pathData\<rparr>,
                          pathValidationLimiter := Some (udpSendPacketLen conn2)\<rparr>
               else conn2\<lparr>migrationState := (migrationState conn2)
                      \<lparr>previousPeerAddresses :=
                         remove1 newPeerAddress (previousPeerAddresses (migrationState conn2))\<rparr>\<rparr>);
            isNATRebinding = maybeNATRebinding newPeerAddress (peerAddress conn3);
            r =
              (if hasPendingPathChallenge \<or> outstandingPathValidation conn3 \<noteq> None
               then (let conn4 = conn3\<lparr>pendingEvents := (pendingEvents conn3)
                                       \<lparr>schedulePathValidationTimeout := False\<rparr>,
                                     outstandingPathValidation := None\<rparr>
                     in if \<not> isNATRebinding
                        then recoverOrResetCongestionAndRttState env now conn4 newPeerAddress
                        else Inr conn4)
               else (let conn4 = conn3\<lparr>migrationState := (migrationState conn3)
                                   \<lparr>previousPeerAddresses :=
                                      previousPeerAddresses (migrationState conn3) @ [peerAddress conn3]\<rparr>\<rparr>
                     in if \<not> isNATRebinding
                        then (let (st, conn5) = moveCurrentCongestionAndRttState now conn4
                              in case recoverOrResetCongestionAndRttState env now conn5 newPeerAddress of
                                   Inl e \<Rightarrow> Inl e
                                 | Inr conn6 \<Rightarrow>
                                     Inr (conn6\<lparr>migrationState := (migrationState conn6)
                                            \<lparr>lastCongestionAndRtt := Some st\<rparr>\<rparr>))
                        else Inr conn4))
        in case r of
             Inl e \<Rightarrow> Inl e
           | Inr conn7 \<Rightarrow> Inr (conn7\<lparr>peerAddress := newPeerAddress\<rparr>)))"

text \<open>A sequence of migrations, to one new peer address after the other, stopping at
  the first failure; each comes with the clock reading and the random number of its
  call.\<close>

fun onConnectionMigrations ::
  "ServerEnv \<Rightarrow> QuicServerConnectionState \<Rightarrow> (TimePoint \<times> 64 word \<times> SocketAddress \<times> bool) list
    \<Rightarrow> QuicServerConnectionState ServerResult" where
  "onConnectionMigrations env conn [] = Inr conn"
| "onConnectionMigrations env conn ((now, pathData, newPeerAddress, isIntentional) # rest) =
     (case onConnectionMigration env now pathData conn newPeerAddress isIntentional of
        Inl e \<Rightarrow> Inl e
      | Inr conn' \<Rightarrow> onConnectionMigrations env conn' rest)"

text \<open>
  The part of the packet loop of \<open>onServerReadDataFromOpen\<close> between the parse of a
  regular packet and the update of the ack state: the packet must have frames, an
  unprotected packet may only carry padding, ack, close, crypto and ping frames, the
  client connection id must be known, the version is recorded from the first long
  header (\<open>setExperimentalSettings\<close>, called there for one version, has an empty
  body), and a packet from another address than the peer address is refused below the
  AppData level and when migration is disabled. \<open>peer\<close> is the source address of the
  datagram.
\<close>

definition onServerReadDataFromOpen_packetChecks ::
  "ServerEnv \<Rightarrow> QuicServerConnectionState \<Rightarrow> SocketAddress \<Rightarrow> RegularQuicPacket
    \<Rightarrow> QuicServerConnectionState ServerResult" where
  "onServerReadDataFromOpen_packetChecks env conn peer regularPacket =
     (if frames regularPacket = []
      then throwTransport ''Packet has no frames'' PROTOCOL_VIOLATION conn
      else
       (let protectionLevel = protectionType (header regularPacket);
            encryptionLevel = protectionTypeToEncryptionLevel env protectionLevel;
            isProtectedPacket = (protectionLevel = ZeroRtt \<or> protectionLevel = KeyPhaseZero
                                 \<or> protectionLevel = KeyPhaseOne)
        in if \<not> isProtectedPacket
              \<and> list_ex (\<lambda>quicFrame. quicFrame \<noteq> PaddingFrame \<and> quicFrame \<noteq> ReadAckFrame
                      \<and> quicFrame \<noteq> ConnectionCloseFrame \<and> quicFrame \<noteq> ReadCryptoFrame
                      \<and> quicFrame \<noteq> PingFrame) (frames regularPacket)
           then throwTransport ''Invalid frame'' PROTOCOL_VIOLATION conn
           else if clientConnectionId conn = None
           then Inl (CheckFailed ''conn.clientConnectionId'', conn)
           else
            (let r = (if version conn = None
                      then (if \<not> isLongHeader (header regularPacket)
                            then throwTransport ''Invalid packet type'' PROTOCOL_VIOLATION conn
                            else Inr (conn\<lparr>version :=
                                        Some (longHeaderVersion (header regularPacket))\<rparr>))
                      else Inr conn)
             in case r of
                  Inl e \<Rightarrow> Inl e
                | Inr conn1 \<Rightarrow>
                    if peerAddress conn1 \<noteq> peer
                    then (if encryptionLevel \<noteq> EL_AppData
                          then throwTransport ''Migration not allowed during handshake''
                                 INVALID_MIGRATION conn1
                          else if disableMigration (transportSettings conn1)
                          then throwTransport ''Migration disabled'' INVALID_MIGRATION conn1
                          else Inr conn1)
                    else Inr conn1)))"

text \<open>
  The loop of \<open>createAndAddNewSelfConnId\<close>. The arguments are the rejector, the results
  of the id algorithm, the number of results consumed so far, the current candidate and
  the counter \<open>encodedTimes\<close>; the counter is incremented behind the short-circuit
  \<open>&&\<close>, that is whenever a candidate was rejected, also the last time.
\<close>

function encodeLoop ::
  "(ConnectionId \<Rightarrow> bool) option \<Rightarrow> (nat \<Rightarrow> ConnectionId option) \<Rightarrow> nat
    \<Rightarrow> ConnectionId option \<Rightarrow> nat \<Rightarrow> ConnectionId option \<times> nat \<times> nat" where
  "encodeLoop rejector algo calls encodedCid encodedTimes =
     (if encodedCid \<noteq> None \<and> rejector \<noteq> None
         \<and> (case rejector of Some rejectConnectionId \<Rightarrow>
               (case encodedCid of Some cid \<Rightarrow> rejectConnectionId cid | None \<Rightarrow> False)
             | None \<Rightarrow> False)
         \<and> encodedTimes + 1 < kConnIdEncodingRetryLimit
      then encodeLoop rejector algo (calls + 1) (algo calls) (encodedTimes + 1)
      else (encodedCid, calls,
            if encodedCid \<noteq> None \<and> rejector \<noteq> None
               \<and> (case rejector of Some rejectConnectionId \<Rightarrow>
                     (case encodedCid of Some cid \<Rightarrow> rejectConnectionId cid | None \<Rightarrow> False)
                   | None \<Rightarrow> False)
            then encodedTimes + 1 else encodedTimes))"
  by pat_completeness auto
termination
  by (relation "measure (\<lambda>(rejector, algo, calls, encodedCid, encodedTimes).
        kConnIdEncodingRetryLimit - encodedTimes)") auto

text \<open>\<open>createAndAddNewSelfConnId\<close> returns the new connection id data, or none when the
  id algorithm ended on an error.\<close>

definition createAndAddNewSelfConnId ::
  "ServerEnv \<Rightarrow> QuicServerConnectionState
    \<Rightarrow> (ConnectionIdData option \<times> QuicServerConnectionState) ServerResult" where
  "createAndAddNewSelfConnId env conn =
     (case connIdAlgo conn of
        None \<Rightarrow> Inl (CheckFailed ''connIdAlgo'', conn)
      | Some algo \<Rightarrow>
       (case serverConnIdParams conn of
          None \<Rightarrow> Inl (CheckFailed ''serverConnIdParams'', conn)
        | Some params \<Rightarrow>
         (case statelessResetTokenSecret (transportSettings conn) of
            None \<Rightarrow> Inl (CheckFailed ''transportSettings.statelessResetTokenSecret'', conn)
          | Some secret \<Rightarrow>
             (let (encodedCid, calls, encodedTimes) =
                     encodeLoop (connIdRejector conn) algo 1 (algo 0) 0;
                  conn1 = conn\<lparr>connIdAlgo := Some (\<lambda>i. algo (i + calls))\<rparr>
              in case encodedCid of
                   None \<Rightarrow> Inr (None, conn1)
                 | Some cid \<Rightarrow>
                    (let newConnIdData =
                           \<lparr>connId = cid,
                            sequenceNumber = nextSelfConnectionIdSequence conn1,
                            token = Some (generateToken env secret (serverAddr conn1) cid)\<rparr>;
                         conn2 = conn1\<lparr>nextSelfConnectionIdSequence :=
                                          nextSelfConnectionIdSequence conn1 + 1,
                                        selfConnectionIds :=
                                          selfConnectionIds conn1 @ [newConnIdData]\<rparr>
                     in Inr (Some newConnIdData, conn2))))))"

text \<open>
  The handling of the first packet in \<open>onServerReadDataFromOpen\<close>, entered when the
  connection has no read codec yet. \<open>parsedLongHeader\<close> is the result of
  \<open>parseLongHeaderInvariant\<close>: the version, the source and the destination connection
  id, or none. The result says whether the function goes on to the packet loop
  (\<open>True\<close>) or has returned (\<open>False\<close>, the datagram is dropped). The call of
  \<open>accept\<close> hands the server's transport parameters to the handshake layer and leaves
  the connection as it is.
\<close>

definition onServerReadDataFromOpen_firstPacket ::
  "ServerEnv \<Rightarrow> QuicServerConnectionState
    \<Rightarrow> (QuicVersion \<times> ConnectionId \<times> ConnectionId) option
    \<Rightarrow> (bool \<times> QuicServerConnectionState) ServerResult" where
  "onServerReadDataFromOpen_firstPacket env conn parsedLongHeader =
     (case parsedLongHeader of
        None \<Rightarrow> Inr (False, conn)
      | Some (version', clientConnectionId', initialDestinationConnectionId) \<Rightarrow>
         if version' = VERSION_NEGOTIATION then Inr (False, conn)
         else if length initialDestinationConnectionId < kDefaultConnectionIdSize env
         then Inr (False, conn)
         else if connIdAlgo conn = None
         then Inl (CheckFailed ''ConnectionIdAlgo is not set.'', conn)
         else if serverConnectionId conn \<noteq> None
         then Inl (CheckFailed ''!conn.serverConnectionId.has_value()'', conn)
         else if serverConnIdParams conn = None
         then Inl (CheckFailed ''conn.serverConnIdParams'', conn)
         else
          (case createAndAddNewSelfConnId env conn of
             Inl e \<Rightarrow> Inl e
           | Inr (None, conn1) \<Rightarrow> Inl (CheckFailed ''newServerConnIdData.has_value()'', conn1)
           | Inr (Some newServerConnIdData, conn1) \<Rightarrow>
              (let conn2 = conn1\<lparr>serverConnectionId := Some (connId newServerConnIdData)\<rparr>;
                   conn3 = conn2\<lparr>transportParametersEncoded := True\<rparr>;
                   codec = \<lparr>codecClientConnectionId = Some clientConnectionId',
                            codecServerConnectionId = serverConnectionId conn3,
                            initialReadCipher = Some (getClientInitialCipher env
                                                        initialDestinationConnectionId version'),
                            initialReadHeaderCipher = Some (makeClientInitialHeaderCipher env
                                                        initialDestinationConnectionId version'),
                            zeroRttReadCipher = None, zeroRttHeaderCipher = None,
                            oneRttReadCipher = None, oneRttHeaderCipher = None,
                            handshakeReadCipher = None, handshakeHeaderCipher = None,
                            codecParameters = Some (peerAckDelayExponent conn3, version')\<rparr>;
                   conn4 = conn3\<lparr>readCodec := Some codec,
                                  initialWriteCipher := Some (getServerInitialCipher env
                                                        initialDestinationConnectionId version'),
                                  initialHeaderCipher := Some (makeServerInitialHeaderCipher env
                                                        initialDestinationConnectionId version')\<rparr>
               in Inr (True, conn4\<lparr>peerAddress := originalPeerAddress conn4\<rparr>))))"

text \<open>
  \<open>processClientInitialParams\<close>, in three parts: the checks that come first, the
  application of the parameters, and the PMTU discovery settings at the end. \<open>now\<close> is
  the reading of the clock. The comparison of the initial source connection id reads the
  client connection id of the read codec; a connection without a read codec would be a
  null dereference there. The message about a too small packet size is given without the
  number that the source appends to it.
\<close>

definition nonzero :: "nat option \<Rightarrow> bool" where
  "nonzero v = (case v of Some x \<Rightarrow> x \<noteq> 0 | None \<Rightarrow> False)"

definition value_or :: "'a option \<Rightarrow> 'a \<Rightarrow> 'a" where
  "value_or v d = (case v of Some x \<Rightarrow> x | None \<Rightarrow> d)"

definition processClientInitialParams_d6d ::
  "ServerEnv \<Rightarrow> TimePoint \<Rightarrow> QuicServerConnectionState \<Rightarrow> ClientTransportParameters \<Rightarrow> nat
    \<Rightarrow> QuicServerConnectionState" where
  "processClientInitialParams_d6d env now conn clientParams maxUdpPayloadSize =
     (if d6dConfig_enabled (transportSettings conn)
      then
       (let r = (case d6d_base_pmtu clientParams of
                   None \<Rightarrow> (True, conn)
                 | Some d6dBasePMTU \<Rightarrow>
                     if d6dBasePMTU \<ge> kMinMaxUDPPayload env \<and> d6dBasePMTU \<le> kDefaultMaxUDPPayload env
                     then (True, conn\<lparr>d6d := (d6d conn)
                             \<lparr>basePMTU := max d6dBasePMTU (udpSendPacketLen conn),
                              maxPMTU := maxUdpPayloadSize,
                              d6d_state := BASE,
                              lastNonSearchState := DISABLED,
                              timeLastNonSearchState := now,
                              noBlackholeDetection := True\<rparr>\<rparr>)
                     else (False, conn))
        in if \<not> fst r then snd r
           else
            (let conn1 = snd r;
                 conn2 = (case d6d_raise_timeout clientParams of
                            None \<Rightarrow> conn1
                          | Some d6dRaiseTimeout \<Rightarrow>
                              if d6dRaiseTimeout \<ge> kMinD6DRaiseTimeout env
                              then conn1\<lparr>d6d := (d6d conn1)\<lparr>raiseTimeout := d6dRaiseTimeout\<rparr>\<rparr>
                              else conn1)
             in (case d6d_probe_timeout clientParams of
                   None \<Rightarrow> conn2
                 | Some d6dProbeTimeout \<Rightarrow>
                     if d6dProbeTimeout \<ge> kMinD6DProbeTimeout env
                     then conn2\<lparr>d6d := (d6d conn2)\<lparr>probeTimeout := d6dProbeTimeout\<rparr>\<rparr>
                     else conn2)))
      else conn)"

definition processClientInitialParams_apply ::
  "ServerEnv \<Rightarrow> TimePoint \<Rightarrow> QuicServerConnectionState \<Rightarrow> ClientTransportParameters
    \<Rightarrow> QuicServerConnectionState ServerResult" where
  "processClientInitialParams_apply env now conn clientParams =
     (let conn1 = conn\<lparr>flowControlState := (flowControlState conn)
                    \<lparr>peerAdvertisedMaxOffset := value_or (initial_max_data clientParams) 0,
                     peerAdvertisedInitialMaxStreamOffsetBidiLocal :=
                       value_or (initial_max_stream_data_bidi_local clientParams) 0,
                     peerAdvertisedInitialMaxStreamOffsetBidiRemote :=
                       value_or (initial_max_stream_data_bidi_remote clientParams) 0,
                     peerAdvertisedInitialMaxStreamOffsetUni :=
                       value_or (initial_max_stream_data_uni clientParams) 0\<rparr>\<rparr>
      in case setMaxLocalBidirectionalStreams (kMaxMaxStreams env) (streamManager conn1)
                (value_or (initial_max_streams_bidi clientParams) 0) False of
           Inl (e, m) \<Rightarrow> Inl (Thrown e, conn1\<lparr>streamManager := m\<rparr>)
         | Inr m \<Rightarrow>
            (let conn2 = conn1\<lparr>streamManager := m\<rparr>
             in case setMaxLocalUnidirectionalStreams (kMaxMaxStreams env) (streamManager conn2)
                       (value_or (initial_max_streams_uni clientParams) 0) False of
                  Inl (e, m) \<Rightarrow> Inl (Thrown e, conn2\<lparr>streamManager := m\<rparr>)
                | Inr m \<Rightarrow>
                   (let conn3 = conn2\<lparr>streamManager := m\<rparr>;
                        conn4 = conn3\<lparr>peerIdleTimeout :=
                                   min (value_or (idle_timeout clientParams) 0) (kMaxIdleTimeout env)\<rparr>
                    in if (case ack_delay_exponent clientParams of
                             Some e \<Rightarrow> e > kMaxAckDelayExponent env | None \<Rightarrow> False)
                       then throwTransport ''ack_delay_exponent too large''
                              TRANSPORT_PARAMETER_ERROR conn4
                       else
                        (let conn5 = conn4\<lparr>peerAckDelayExponent :=
                                       value_or (ack_delay_exponent clientParams)
                                         (kDefaultAckDelayExponent env)\<rparr>;
                             conn6 = (case min_ack_delay clientParams of
                                        Some d \<Rightarrow> conn5\<lparr>peerMinAckDelay := Some d\<rparr>
                                      | None \<Rightarrow> conn5)
                         in if (case max_datagram_frame_size clientParams of
                                  Some s \<Rightarrow> s > 0 \<and> s \<le> kMaxDatagramPacketOverhead env
                                | None \<Rightarrow> False)
                            then throwTransport ''max_datagram_frame_size too small''
                                   TRANSPORT_PARAMETER_ERROR conn6
                            else
                             (let conn7 = (case max_datagram_frame_size clientParams of
                                             Some s \<Rightarrow> conn6\<lparr>datagramMaxWriteFrameSize := s\<rparr>
                                           | None \<Rightarrow> conn6);
                                  maxUdpPayloadSize =
                                    (case max_packet_size clientParams of
                                       Some packetSize \<Rightarrow> min packetSize (kDefaultMaxUDPPayload env)
                                     | None \<Rightarrow> kDefaultMaxUDPPayload env);
                                  conn8 =
                                    (case max_packet_size clientParams of
                                       Some packetSize \<Rightarrow>
                                         (let c = conn7\<lparr>peerMaxUdpPayloadSize := maxUdpPayloadSize\<rparr>
                                          in if canIgnorePathMTU (transportSettings c)
                                             then (if packetSize > kDefaultMaxUDPPayload env
                                                   then c\<lparr>udpSendPacketLen :=
                                                            kDefaultUDPSendPacketLen env\<rparr>
                                                   else c\<lparr>udpSendPacketLen := maxUdpPayloadSize\<rparr>)
                                             else c)
                                     | None \<Rightarrow> conn7);
                                  conn9 = conn8\<lparr>peerActiveConnectionIdLimit :=
                                            value_or (active_connection_id_limit clientParams)
                                              (kDefaultActiveConnectionIdLimit env)\<rparr>
                              in Inr (processClientInitialParams_d6d env now conn9 clientParams
                                        maxUdpPayloadSize))))))"

definition processClientInitialParams ::
  "ServerEnv \<Rightarrow> TimePoint \<Rightarrow> QuicServerConnectionState \<Rightarrow> ClientTransportParameters
    \<Rightarrow> QuicServerConnectionState ServerResult" where
  "processClientInitialParams env now conn clientParams =
     (if (version conn = Some QUIC_DRAFT \<or> version conn = Some QUIC_V1)
         \<and> initial_source_connection_id clientParams = None
      then throwTransport ''Initial CID does not match.'' TRANSPORT_PARAMETER_ERROR conn
      else if (version conn = Some QUIC_DRAFT \<or> version conn = Some QUIC_V1)
         \<and> readCodec conn = None
      then Inl (CheckFailed ''conn.readCodec'', conn)
      else if (version conn = Some QUIC_DRAFT \<or> version conn = Some QUIC_V1)
         \<and> initial_source_connection_id clientParams
               \<noteq> (case readCodec conn of Some codec \<Rightarrow> codecClientConnectionId codec
                                        | None \<Rightarrow> None)
      then throwTransport ''Initial CID does not match.'' TRANSPORT_PARAMETER_ERROR conn
      else if nonzero (preferred_address clientParams)
      then throwTransport ''Preferred Address is received by server''
             TRANSPORT_PARAMETER_ERROR conn
      else if nonzero (original_destination_connection_id clientParams)
      then throwTransport ''OriginalDestinationConnectionId is received by server''
             TRANSPORT_PARAMETER_ERROR conn
      else if nonzero (stateless_reset_token clientParams)
      then throwTransport ''Stateless Reset Token is received by server''
             TRANSPORT_PARAMETER_ERROR conn
      else if nonzero (retry_source_connection_id clientParams)
      then throwTransport ''Retry Source Connection ID is received by server''
             TRANSPORT_PARAMETER_ERROR conn
      else if (case max_ack_delay clientParams of
                 Some d \<Rightarrow> d \<ge> kMaxAckDelay env | None \<Rightarrow> False)
      then throwTransport ''Max Ack Delay is greater than 2^14 '' TRANSPORT_PARAMETER_ERROR conn
      else if (case max_packet_size clientParams of
                 Some packetSize \<Rightarrow> packetSize < kMinMaxUDPPayload env | None \<Rightarrow> False)
      then throwTransport ''Max packet size too small.'' TRANSPORT_PARAMETER_ERROR conn
      else processClientInitialParams_apply env now conn clientParams)"

text \<open>
  A call of a setter through \<open>conn.readCodec\<close>. The read codec is a
  \<open>std::unique_ptr\<close>, empty until the first packet; the call on an empty one is a null
  dereference, which the model ends in a failure.
\<close>

definition withReadCodec ::
  "QuicServerConnectionState \<Rightarrow> (QuicReadCodec \<Rightarrow> QuicReadCodec)
    \<Rightarrow> QuicServerConnectionState ServerResult" where
  "withReadCodec conn setter =
     (case readCodec conn of
        None \<Rightarrow> Inl (CheckFailed ''conn.readCodec'', conn)
      | Some codec \<Rightarrow> Inr (conn\<lparr>readCodec := Some (setter codec)\<rparr>))"

text \<open>
  \<open>updateHandshakeState\<close>, in three parts that follow each other in the source: the
  0-RTT read cipher and the header ciphers, the 1-RTT write cipher with the transport
  parameters of the client, and the remaining read ciphers with the end of the
  handshake. \<open>handshakeLayer\<close> holds what the getters of the handshake layer return in
  this call. \<open>sendSimpleFrame\<close> (declared outside the sources) queues the frame for
  sending.
\<close>

definition updateHandshakeState_headerCiphers ::
  "ServerHandshake \<Rightarrow> QuicServerConnectionState \<Rightarrow> QuicServerConnectionState ServerResult" where
  "updateHandshakeState_headerCiphers handshakeLayer conn =
     (let zeroRttReadCipher' = getZeroRttReadCipher handshakeLayer;
          zeroRttHeaderCipher' = getZeroRttReadHeaderCipher handshakeLayer;
          oneRttWriteHeaderCipher' = getOneRttWriteHeaderCipher handshakeLayer;
          oneRttReadHeaderCipher' = getOneRttReadHeaderCipher handshakeLayer
      in case (if zeroRttReadCipher' \<noteq> None
               then withReadCodec (conn\<lparr>usedZeroRtt := True\<rparr>)
                      (\<lambda>codec. codec\<lparr>zeroRttReadCipher := zeroRttReadCipher'\<rparr>)
               else Inr conn) of
           Inl e \<Rightarrow> Inl e
         | Inr conn1 \<Rightarrow>
            (case (if zeroRttHeaderCipher' \<noteq> None
                   then withReadCodec conn1
                          (\<lambda>codec. codec\<lparr>zeroRttHeaderCipher := zeroRttHeaderCipher'\<rparr>)
                   else Inr conn1) of
               Inl e \<Rightarrow> Inl e
             | Inr conn2 \<Rightarrow>
                (let conn3 = (if oneRttWriteHeaderCipher' \<noteq> None
                              then conn2\<lparr>oneRttWriteHeaderCipher := oneRttWriteHeaderCipher'\<rparr>
                              else conn2)
                 in if oneRttReadHeaderCipher' \<noteq> None
                    then withReadCodec conn3
                           (\<lambda>codec. codec\<lparr>oneRttHeaderCipher := oneRttReadHeaderCipher'\<rparr>)
                    else Inr conn3)))"

definition updateHandshakeState_oneRttWriteCipher ::
  "ServerEnv \<Rightarrow> TimePoint \<Rightarrow> ServerHandshake \<Rightarrow> QuicServerConnectionState
    \<Rightarrow> QuicServerConnectionState ServerResult" where
  "updateHandshakeState_oneRttWriteCipher env now handshakeLayer conn =
     (let oneRttWriteCipher' = getOneRttWriteCipher handshakeLayer
      in if oneRttWriteCipher' \<noteq> None
         then (if oneRttWriteCipher conn \<noteq> None
               then throwTransport ''Duplicate 1-rtt write cipher'' CRYPTO_ERROR conn
               else
                (let conn1 = conn\<lparr>oneRttWriteCipher := oneRttWriteCipher'\<rparr>;
                     conn2 = conn1\<lparr>canBePaced :=
                                updatePacingOnKeyEstablished env (canBePaced conn1)\<rparr>
                 in case getClientTransportParams handshakeLayer of
                      None \<Rightarrow> throwTransport ''No client transport params''
                                TRANSPORT_PARAMETER_ERROR conn2
                    | Some clientParams \<Rightarrow>
                        processClientInitialParams env now conn2 clientParams))
         else Inr conn)"

definition updateHandshakeState_readCiphers ::
  "ServerHandshake \<Rightarrow> QuicServerConnectionState \<Rightarrow> QuicServerConnectionState ServerResult" where
  "updateHandshakeState_readCiphers handshakeLayer conn =
     (let oneRttReadCipher' = getOneRttReadCipher handshakeLayer
      in case (if oneRttReadCipher' \<noteq> None
               then withReadCodec (conn\<lparr>writableBytesLimit := None\<rparr>)
                      (\<lambda>codec. codec\<lparr>oneRttReadCipher := oneRttReadCipher'\<rparr>)
               else Inr conn) of
           Inl e \<Rightarrow> Inl e
         | Inr conn1 \<Rightarrow>
            (let handshakeReadCipher' = getHandshakeReadCipher handshakeLayer;
                 handshakeReadHeaderCipher' = getHandshakeReadHeaderCipher handshakeLayer
             in case (if handshakeReadCipher' \<noteq> None
                      then (if handshakeReadHeaderCipher' = None
                            then Inl (CheckFailed ''handshakeReadHeaderCipher'', conn1)
                            else withReadCodec conn1
                                   (\<lambda>codec. codec\<lparr>handshakeReadCipher := handshakeReadCipher',
                                       handshakeHeaderCipher := handshakeReadHeaderCipher'\<rparr>))
                      else Inr conn1) of
                  Inl e \<Rightarrow> Inl e
                | Inr conn2 \<Rightarrow>
                    if isHandshakeDone handshakeLayer
                    then (if oneRttWriteCipher conn2 = None
                          then Inl (CheckFailed ''conn.oneRttWriteCipher'', conn2)
                          else if \<not> sentHandshakeDone conn2
                          then Inr (conn2\<lparr>pendingFrames :=
                                             pendingFrames conn2 @ [HandshakeDoneFrame],
                                           sentHandshakeDone := True\<rparr>)
                          else Inr conn2)
                    else Inr conn2))"

definition updateHandshakeState ::
  "ServerEnv \<Rightarrow> TimePoint \<Rightarrow> ServerHandshake \<Rightarrow> QuicServerConnectionState
    \<Rightarrow> QuicServerConnectionState ServerResult" where
  "updateHandshakeState env now handshakeLayer conn =
     (case updateHandshakeState_headerCiphers handshakeLayer conn of
        Inl e \<Rightarrow> Inl e
      | Inr conn1 \<Rightarrow>
         (case updateHandshakeState_oneRttWriteCipher env now handshakeLayer conn1 of
            Inl e \<Rightarrow> Inl e
          | Inr conn2 \<Rightarrow> updateHandshakeState_readCiphers handshakeLayer conn2))"

text \<open>Two calls of \<open>updateHandshakeState\<close> in a row, the second only when the first
  ended normally.\<close>

definition updateHandshakeStateTwice ::
  "ServerEnv \<Rightarrow> TimePoint \<Rightarrow> ServerHandshake \<Rightarrow> TimePoint \<Rightarrow> ServerHandshake
    \<Rightarrow> QuicServerConnectionState \<Rightarrow> QuicServerConnectionState ServerResult" where
  "updateHandshakeStateTwice env now1 hs1 now2 hs2 conn =
     (case updateHandshakeState env now1 hs1 conn of
        Inl e \<Rightarrow> Inl e
      | Inr conn1 \<Rightarrow> updateHandshakeState env now2 hs2 conn1)"

section \<open>Readers and helper notions for the stream manager\<close>

text \<open>The ids that one implicit opening adds: \<open>start, start + 4, \<dots>\<close> up to
  \<open>streamId\<close>.\<close>

definition openedIds :: "StreamId \<Rightarrow> StreamId \<Rightarrow> StreamId list" where
  "openedIds start streamId =
     map (\<lambda>i. start + kStreamIncrement * i) [0..<(streamId - start) div kStreamIncrement + 1]"

text \<open>Readers that pick the member of the direction of a peer stream id.\<close>

definition peerNextAcceptable :: "QuicStreamManager \<Rightarrow> StreamId \<Rightarrow> StreamId" where
  "peerNextAcceptable m sid = (if isUnidirectionalStream sid
     then nextAcceptablePeerUnidirectionalStreamId m else nextAcceptablePeerBidirectionalStreamId m)"

definition peerOpenStreams :: "QuicStreamManager \<Rightarrow> StreamId \<Rightarrow> StreamId set" where
  "peerOpenStreams m sid = (if isUnidirectionalStream sid
     then openUnidirectionalPeerStreams m else openBidirectionalPeerStreams m)"

definition peerMaxStreamId :: "QuicStreamManager \<Rightarrow> StreamId \<Rightarrow> StreamId" where
  "peerMaxStreamId m sid = (if isUnidirectionalStream sid
     then maxRemoteUnidirectionalStreamId m else maxRemoteBidirectionalStreamId m)"

definition peerInitialStreamLimit :: "QuicStreamManager \<Rightarrow> StreamId \<Rightarrow> nat" where
  "peerInitialStreamLimit m sid = (if isUnidirectionalStream sid
     then advertisedInitialMaxStreamsUni m else advertisedInitialMaxStreamsBidi m)"

definition peerInitialStreamId :: "QuicStreamManager \<Rightarrow> StreamId \<Rightarrow> StreamId" where
  "peerInitialStreamId m sid = (if isUnidirectionalStream sid
     then initialRemoteUnidirectionalStreamId m else initialRemoteBidirectionalStreamId m)"

definition peerStreamLimitUpdate :: "QuicStreamManager \<Rightarrow> StreamId \<Rightarrow> nat option" where
  "peerStreamLimitUpdate m sid = (if isUnidirectionalStream sid
     then remoteUnidirectionalStreamLimitUpdate_mem m else remoteBidirectionalStreamLimitUpdate_mem m)"

definition peerOpenableStreams :: "QuicStreamManager \<Rightarrow> StreamId \<Rightarrow> nat" where
  "peerOpenableStreams m sid = (if isUnidirectionalStream sid
     then openableRemoteUnidirectionalStreams m else openableRemoteBidirectionalStreams m)"

text \<open>The manager in the middle of \<open>removeClosedStream\<close> for a peer stream with state
  \<open>it\<close>: all erasures done, the stream limit update still to come.\<close>

definition erasedPeerStream :: "QuicStreamManager \<Rightarrow> StreamId \<Rightarrow> QuicStreamState \<Rightarrow> QuicStreamManager" where
  "erasedPeerStream m sid it =
     (let m1 = removeClosedStream_eraseIndices m sid;
          m2 = m1\<lparr>streamPriorityLevels := (streamPriorityLevels m1)(sid := None)\<rparr>;
          m3 = (if isControl it then m2\<lparr>numControlStreams := numControlStreams m2 - 1\<rparr> else m2);
          m4 = m3\<lparr>streams := (streams m3)(sid := None)\<rparr>
      in if isUnidirectionalStream sid
         then m4\<lparr>openUnidirectionalPeerStreams := openUnidirectionalPeerStreams m4 - {sid}\<rparr>
         else m4\<lparr>openBidirectionalPeerStreams := openBidirectionalPeerStreams m4 - {sid}\<rparr>)"

text \<open>The states of the windowing scenario: the bidirectional peer streams
  \<open>4 * k, \<dots>, 4 * (n - 1)\<close> are open and have state, the advertised limit is 100 with
  fraction 4, and no update is pending.\<close>

definition windowInv :: "QuicStreamManager \<Rightarrow> nat \<Rightarrow> nat \<Rightarrow> bool" where
  "windowInv m n k =
     (nodeType m = Server \<and> nextAcceptablePeerBidirectionalStreamId m = 4 * n
      \<and> maxRemoteBidirectionalStreamId m = 400 \<and> initialRemoteBidirectionalStreamId m = 0
      \<and> openBidirectionalPeerStreams m = (\<lambda>i. 4 * i) ` {k..<n}
      \<and> (\<forall>i. k \<le> i \<and> i < n \<longrightarrow> streams m (4 * i) \<noteq> None \<and> streamPriorityLevels m (4 * i) \<noteq> None)
      \<and> (\<forall>i. n \<le> i \<longrightarrow> streams m (4 * i) = None \<and> streamPriorityLevels m (4 * i) = None)
      \<and> advertisedInitialMaxStreamsBidi m = 100 \<and> streamLimitWindowingFraction m = 4
      \<and> remoteBidirectionalStreamLimitUpdate_mem m = None)"


section \<open>Helper notions for the connection id allocation\<close>

text \<open>A candidate of the connection id algorithm is rejected when it is an id (not an
  error), a rejector is installed, and the rejector refuses the id: the first three
  conjuncts of the loop condition of \<open>createAndAddNewSelfConnId\<close>.\<close>

definition rejectedCandidate ::
  "(ConnectionId \<Rightarrow> bool) option \<Rightarrow> ConnectionId option \<Rightarrow> bool" where
  "rejectedCandidate rejector encodedCid =
     (case rejector of
        None \<Rightarrow> False
      | Some rejectConnectionId \<Rightarrow>
          (case encodedCid of None \<Rightarrow> False | Some cid \<Rightarrow> rejectConnectionId cid))"

section \<open>Example states\<close>

definition ackState0 :: AckState where
  "ackState0 = \<lparr>largestAckScheduled = None, largestReceivedPacketNum = None,
     largestReceivedAtLastCloseSent = None, nextPacketNum = 0, numRxPacketsRecvd = 0,
     numNonRxPacketsRecvd = 0, needsToSendAckImmediately = False, tolerance = None,
     ignoreReorder = False\<rparr>"

definition lossState0 :: LossState where
  "lossState0 = \<lparr>srtt = 0, lrtt = 0, rttvar = 0, mrtt = 1000000000, maxAckDelay = 0\<rparr>"

definition conn0 :: QuicConnectionStateBase where
  "conn0 = \<lparr>lossState = lossState0,
     ackStates = \<lparr>initialAckState = ackState0, handshakeAckState = ackState0,
                   appDataAckState = ackState0\<rparr>,
     pendingEvents = \<lparr>scheduleAckTimeout = False, schedulePathValidationTimeout = False,
                       pathChallenge = None, closeTransport = False\<rparr>,
     transportSettings = \<lparr>rxPacketsBeforeAckInitThreshold = 100,
                           rxPacketsBeforeAckBeforeInit = 10,
                           rxPacketsBeforeAckAfterInit = 10, disableMigration = False,
                           canIgnorePathMTU = False, d6dConfig_enabled = False,
                           defaultCongestionController = 0,
                           statelessResetTokenSecret = Some 7\<rparr>\<rparr>"

definition priority0 :: Priority where
  "priority0 = \<lparr>level = 3, incremental = True\<rparr>"

definition serverManager :: "nat \<Rightarrow> nat \<Rightarrow> QuicStreamManager" where
  "serverManager limit fraction =
     \<lparr>nodeType = Server, streams = Map.empty,
      openBidirectionalPeerStreams = {}, openUnidirectionalPeerStreams = {},
      openBidirectionalLocalStreams = {}, openUnidirectionalLocalStreams = {},
      nextAcceptablePeerBidirectionalStreamId = 0, nextAcceptablePeerUnidirectionalStreamId = 2,
      nextAcceptableLocalBidirectionalStreamId = 1, nextAcceptableLocalUnidirectionalStreamId = 3,
      maxLocalBidirectionalStreamId = 1, maxLocalUnidirectionalStreamId = 3,
      maxRemoteBidirectionalStreamId = limit * 4, maxRemoteUnidirectionalStreamId = limit * 4 + 2,
      initialRemoteBidirectionalStreamId = 0, initialRemoteUnidirectionalStreamId = 2,
      initialLocalBidirectionalStreamId = 1, initialLocalUnidirectionalStreamId = 3,
      maxLocalBidirectionalStreamIdIncreased = False,
      maxLocalUnidirectionalStreamIdIncreased = False,
      newPeerStreams = [], streamPriorityLevels = Map.empty,
      readableStreams = {}, peekableStreams = {}, writableStreams = {}, writableDSRStreams = {},
      writableControlStreams = {}, lossStreams = {}, blockedStreams = {}, deliverableStreams = {},
      txStreams = {}, windowUpdates = {}, stopSendingStreams = {}, flowControlUpdated = {},
      numControlStreams = 0, isAppIdle = False,
      remoteBidirectionalStreamLimitUpdate_mem = None,
      remoteUnidirectionalStreamLimitUpdate_mem = None,
      streamLimitWindowingFraction = fraction,
      advertisedInitialMaxStreamsBidi = limit, advertisedInitialMaxStreamsUni = limit\<rparr>"

definition managerW :: QuicStreamManager where
  "managerW = (serverManager 4 2)
     \<lparr>streams := [0 \<mapsto> newQuicStreamState priority0 0],
      streamPriorityLevels := [0 \<mapsto> 3],
      openBidirectionalPeerStreams := {0},
      nextAcceptablePeerBidirectionalStreamId := 12\<rparr>"


definition serverEnv0 :: ServerEnv where
  "serverEnv0 =
     \<lparr>kMaxNumMigrationsAllowed = 6, kTimeToRetainLastCongestionAndRttState = 60000000,
      kDefaultMinRtt = 9223372036854775807, kMaxMaxStreams = 1152921504606846976,
      kMaxAckDelay = 16384, kMinMaxUDPPayload = 1200, kMaxIdleTimeout = 600000,
      kMaxAckDelayExponent = 20, kDefaultAckDelayExponent = 3,
      kMaxDatagramPacketOverhead = 25, kDefaultMaxUDPPayload = 1452,
      kDefaultUDPSendPacketLen = 1252, kDefaultActiveConnectionIdLimit = 2,
      kMinD6DRaiseTimeout = 30, kMinD6DProbeTimeout = 1, kDefaultConnectionIdSize = 8,
      protectionTypeToEncryptionLevel =
        (\<lambda>p. case p of Initial \<Rightarrow> EL_Initial | Handshake \<Rightarrow> EL_Handshake
              | ZeroRtt \<Rightarrow> EL_EarlyData | KeyPhaseZero \<Rightarrow> EL_AppData | KeyPhaseOne \<Rightarrow> EL_AppData),
      updatePacingOnKeyEstablished = (\<lambda>b. True),
      generateToken = (\<lambda>secret addr cid. secret + length cid),
      getClientInitialCipher = (\<lambda>cid v. 1), getServerInitialCipher = (\<lambda>cid v. 2),
      makeClientInitialHeaderCipher = (\<lambda>cid v. 3),
      makeServerInitialHeaderCipher = (\<lambda>cid v. 4)\<rparr>"

definition address1 :: SocketAddress where
  "address1 = \<lparr>ipAddress = IPv4 3232235777, port = 4433\<rparr>"

definition address2 :: SocketAddress where
  "address2 = \<lparr>ipAddress = IPv4 167772161, port = 5000\<rparr>"

definition readCodec0 :: QuicReadCodec where
  "readCodec0 =
     \<lparr>codecClientConnectionId = Some [1, 2, 3, 4, 5, 6, 7, 8],
      codecServerConnectionId = Some [8, 7, 6, 5, 4, 3, 2, 1],
      initialReadCipher = Some 1, initialReadHeaderCipher = Some 3,
      zeroRttReadCipher = None, zeroRttHeaderCipher = None,
      oneRttReadCipher = None, oneRttHeaderCipher = None,
      handshakeReadCipher = None, handshakeHeaderCipher = None,
      codecParameters = Some (3, QUIC_V1)\<rparr>"

definition countingAlgo :: "nat \<Rightarrow> ConnectionId option" where
  "countingAlgo i = Some [of_nat i, 0, 0, 0, 0, 0, 0, 0]"

definition serverConn0 :: QuicServerConnectionState where
  "serverConn0 = QuicConnectionStateBase.extend conn0
     \<lparr>state = Open, version = Some QUIC_V1, peerAddress = address1,
      originalPeerAddress = address1, serverAddr = address2,
      clientConnectionId = Some [1, 2, 3, 4, 5, 6, 7, 8],
      serverConnectionId = Some [8, 7, 6, 5, 4, 3, 2, 1],
      readCodec = Some readCodec0, usedZeroRtt = False,
      oneRttWriteCipher = None, oneRttWriteHeaderCipher = None,
      initialWriteCipher = Some 2, initialHeaderCipher = Some 4,
      canBePaced = False, writableBytesLimit = None, sentHandshakeDone = False,
      pendingFrames = [],
      flowControlState = \<lparr>peerAdvertisedMaxOffset = 0,
         peerAdvertisedInitialMaxStreamOffsetBidiLocal = 0,
         peerAdvertisedInitialMaxStreamOffsetBidiRemote = 0,
         peerAdvertisedInitialMaxStreamOffsetUni = 0\<rparr>,
      streamManager = serverManager 100 4,
      peerIdleTimeout = 0, peerAckDelayExponent = 3, peerMinAckDelay = None,
      datagramMaxWriteFrameSize = 0, peerMaxUdpPayloadSize = 1452, udpSendPacketLen = 1252,
      peerActiveConnectionIdLimit = 2,
      d6d = \<lparr>basePMTU = 1252, maxPMTU = 1452, d6d_state = DISABLED,
             lastNonSearchState = DISABLED, timeLastNonSearchState = 0,
             noBlackholeDetection = False, raiseTimeout = 600, probeTimeout = 5\<rparr>,
      migrationState = \<lparr>numMigrations = 0, previousPeerAddresses = [],
                         lastCongestionAndRtt = None\<rparr>,
      pathValidationLimiter = None, outstandingPathValidation = None,
      congestionController = Some 1, congestionControllerFactory = Some (\<lambda>t. 100 + t),
      connIdAlgo = Some countingAlgo,
      serverConnIdParams = Some 1, connIdRejector = None,
      nextSelfConnectionIdSequence = 1, selfConnectionIds = [],
      transportParametersEncoded = True\<rparr>"

definition clientParams0 :: ClientTransportParameters where
  "clientParams0 =
     \<lparr>preferred_address = None, original_destination_connection_id = None,
      stateless_reset_token = None, retry_source_connection_id = None,
      initial_max_data = Some 1000000, initial_max_stream_data_bidi_local = Some 100000,
      initial_max_stream_data_bidi_remote = Some 100000, initial_max_stream_data_uni = Some 100000,
      initial_max_streams_bidi = Some 10, initial_max_streams_uni = Some 10,
      idle_timeout = Some 30000, ack_delay_exponent = None, max_packet_size = Some 1400,
      active_connection_id_limit = None, d6d_base_pmtu = None, d6d_raise_timeout = None,
      d6d_probe_timeout = None, min_ack_delay = None, max_ack_delay = Some 25,
      max_datagram_frame_size = None,
      initial_source_connection_id = Some [1, 2, 3, 4, 5, 6, 7, 8]\<rparr>"

definition handshake0 :: ServerHandshake where
  "handshake0 =
     \<lparr>getZeroRttReadCipher = None, getZeroRttReadHeaderCipher = None,
      getOneRttWriteCipher = Some 11, getOneRttReadCipher = None,
      getOneRttWriteHeaderCipher = Some 12, getOneRttReadHeaderCipher = None,
      getHandshakeReadCipher = Some 13, getHandshakeReadHeaderCipher = Some 14,
      getClientTransportParams = Some clientParams0, isHandshakeDone = False\<rparr>"

definition handshakeHeader :: PacketHeader where
  "handshakeHeader = \<lparr>isLongHeader = True, protectionType = Handshake, packetSequenceNum = 1,
     packetNumberSpace = PNS_Handshake, longHeaderVersion = QUIC_V1,
     shortHeaderConnectionId = []\<rparr>"

definition handshakeStreamPacket :: RegularQuicPacket where
  "handshakeStreamPacket = \<lparr>header = handshakeHeader, frames = [ReadStreamFrame]\<rparr>"

definition handshakeCryptoPacket :: RegularQuicPacket where
  "handshakeCryptoPacket = \<lparr>header = handshakeHeader, frames = [ReadCryptoFrame, PaddingFrame]\<rparr>"

definition appDataStreamPacket :: RegularQuicPacket where
  "appDataStreamPacket =
     \<lparr>header = \<lparr>isLongHeader = False, protectionType = KeyPhaseZero, packetSequenceNum = 7,
         packetNumberSpace = PNS_AppData, longHeaderVersion = QUIC_V1,
         shortHeaderConnectionId = [8, 7, 6, 5, 4, 3, 2, 1]\<rparr>,
      frames = [ReadStreamFrame]\<rparr>"

definition twoMigrations :: "(TimePoint \<times> 64 word \<times> SocketAddress \<times> bool) list" where
  "twoMigrations = [(10, 1, address2, False), (20, 2, address1, False)]"

text \<open>A rejector that refuses every id, one that refuses the ids starting with a byte
  below 3, and a connection before its first packet.\<close>

definition rejectAll :: "ConnectionId \<Rightarrow> bool" where
  "rejectAll cid = True"

definition rejectLow :: "ConnectionId \<Rightarrow> bool" where
  "rejectLow cid = (case cid of [] \<Rightarrow> True | b # bs \<Rightarrow> b < 3)"

definition freshServerConn :: QuicServerConnectionState where
  "freshServerConn = serverConn0\<lparr>serverConnectionId := None, readCodec := None,
     initialWriteCipher := None, initialHeaderCipher := None,
     transportParametersEncoded := False\<rparr>"

definition lowRejectingConn :: QuicServerConnectionState where
  "lowRejectingConn = freshServerConn\<lparr>connIdRejector := Some rejectLow\<rparr>"

section \<open>Acknowledgement timeout\<close>

text \<open>
  Claim C10. \<open>updateAckStateOnAckTimeout\<close> changes the AppData ack state (the immediate
  latch is set, both receive counters are zero) and the \<open>scheduleAckTimeout\<close> flag (cleared)
  and nothing else: the result is the input connection with exactly these fields
  replaced, so the Initial and Handshake ack states, the other fields of the AppData ack
  state, the other pending events and every other field of the connection keep their values.
\<close>

theorem updateAckStateOnAckTimeout_frame:
  "updateAckStateOnAckTimeout conn =
     conn\<lparr>ackStates := (ackStates conn)\<lparr>appDataAckState :=
             (appDataAckState (ackStates conn))\<lparr>needsToSendAckImmediately := True,
                numRxPacketsRecvd := 0, numNonRxPacketsRecvd := 0\<rparr>\<rparr>,
          pendingEvents := (pendingEvents conn)\<lparr>scheduleAckTimeout := False\<rparr>\<rparr>
   \<and> initialAckState (ackStates (updateAckStateOnAckTimeout conn)) = initialAckState (ackStates conn)
   \<and> handshakeAckState (ackStates (updateAckStateOnAckTimeout conn)) = handshakeAckState (ackStates conn)
   \<and> needsToSendAckImmediately (appDataAckState (ackStates (updateAckStateOnAckTimeout conn)))
   \<and> numRxPacketsRecvd (appDataAckState (ackStates (updateAckStateOnAckTimeout conn))) = 0
   \<and> numNonRxPacketsRecvd (appDataAckState (ackStates (updateAckStateOnAckTimeout conn))) = 0
   \<and> \<not> scheduleAckTimeout (pendingEvents (updateAckStateOnAckTimeout conn))
   \<and> lossState (updateAckStateOnAckTimeout conn) = lossState conn
   \<and> transportSettings (updateAckStateOnAckTimeout conn) = transportSettings conn
   \<and> QuicConnectionStateBase.more (updateAckStateOnAckTimeout conn) = QuicConnectionStateBase.more conn"
  by (simp add: updateAckStateOnAckTimeout_def Let_def)

section \<open>Round-trip time estimation\<close>

lemma cpp_div_pos_bounds:
  assumes "0 < b"
  shows "\<bar>cpp_div a b * b - a\<bar> < b"
    and "0 \<le> a \<Longrightarrow> cpp_div a b * b \<le> a \<and> 0 \<le> cpp_div a b"
    and "a \<le> 0 \<Longrightarrow> a \<le> cpp_div a b * b \<and> cpp_div a b \<le> 0"
proof -
  have pos: "cpp_div a b = a div b" if "0 \<le> a" for a
    using that assms by (cases "a = 0") (simp_all add: cpp_div_def)
  have neg: "cpp_div a b = - ((- a) div b)" if "a < 0" for a
    using that assms by (simp add: cpp_div_def)
  have d: "(c div b) * b \<le> c \<and> c < (c div b) * b + b \<and> 0 \<le> c div b" if "0 \<le> c" for c :: int
  proof -
    have "c = (c div b) * b + c mod b" by simp
    moreover have "0 \<le> c mod b" "c mod b < b" using assms by simp_all
    moreover have "0 \<le> c div b" using that assms by (simp add: pos_imp_zdiv_nonneg_iff)
    ultimately show ?thesis by linarith
  qed
  show "\<bar>cpp_div a b * b - a\<bar> < b"
  proof (cases "0 \<le> a")
    case True
    then show ?thesis using d[of a] pos[of a] by simp
  next
    case False
    then have "a < 0" by simp
    then show ?thesis using d[of "- a"] neg[of a] by simp
  qed
  show "0 \<le> a \<Longrightarrow> cpp_div a b * b \<le> a \<and> 0 \<le> cpp_div a b"
    using d[of a] pos[of a] by simp
  show "a \<le> 0 \<Longrightarrow> a \<le> cpp_div a b * b \<and> cpp_div a b \<le> 0"
  proof (cases "a = 0")
    case True then show ?thesis by (simp add: cpp_div_def)
  next
    case False
    assume "a \<le> 0"
    with False have "a < 0" by simp
    then show ?thesis using d[of "- a"] neg[of a] by simp
  qed
qed

text \<open>
  Claim C3. For every prior loss state and every pair of RTT sample and ack delay,
  \<open>updateRtt\<close> sets \<open>mrtt\<close> to the minimum of the prior \<open>mrtt\<close> and the sample and
  \<open>maxAckDelay\<close> to the maximum of the prior value and the ack delay. The ack delay is
  subtracted from the sample exactly when the sample exceeds the ack delay and either the
  sample exceeds the updated minimum plus the ack delay or the prior \<open>mrtt\<close> is
  \<open>kDefaultMinRtt\<close>. When the prior \<open>srtt\<close> is zero, \<open>srtt\<close> becomes the adjusted
  sample and \<open>rttvar\<close> half of it; otherwise
  \<open>rttvar = rttvar * (\<beta> - 1) / \<beta> + |srtt - sample| / \<beta>\<close> and
  \<open>srtt = srtt * (\<alpha> - 1) / \<alpha> + sample / \<alpha>\<close>, with \<open>\<alpha> = 8\<close>, \<open>\<beta> = 4\<close> and the
  truncating division of the source.
\<close>

theorem updateRtt_fields:
  "(let ls = lossState conn;
        ls' = lossState (updateRtt defaultMinRtt conn rttSample ackDelay);
        sample = (if ackDelay < rttSample \<and>
                     (min (mrtt ls) rttSample + ackDelay < rttSample \<or> mrtt ls = defaultMinRtt)
                  then rttSample - ackDelay else rttSample)
    in mrtt ls' = min (mrtt ls) rttSample
     \<and> maxAckDelay ls' = max (maxAckDelay ls) ackDelay
     \<and> lrtt ls' = sample
     \<and> srtt ls' = (if srtt ls = 0 then sample
                   else cpp_div (srtt ls * (kRttAlpha - 1)) kRttAlpha + cpp_div sample kRttAlpha)
     \<and> rttvar ls' = (if srtt ls = 0 then cpp_div sample 2
                     else cpp_div (rttvar ls * (kRttBeta - 1)) kRttBeta
                          + cpp_div \<bar>srtt ls - sample\<bar> kRttBeta)
     \<and> kRttAlpha = 8 \<and> kRttBeta = 4)"
  by (auto simp add: updateRtt_def Let_def kRttAlpha_def kRttBeta_def abs_if)

text \<open>For a non-negative ack delay the condition can equally be read with the prior
  \<open>mrtt\<close> in both places.\<close>

lemma updateRtt_cond_prior_mrtt:
  "0 \<le> ackDelay \<Longrightarrow>
   (ackDelay < rttSample \<and> (min m rttSample + ackDelay < rttSample \<or> m = d))
   = (ackDelay < rttSample \<and> (m + ackDelay < rttSample \<or> m = (d::int)))"
  by (auto simp: min_def)

theorem updateRtt_fields_witness:
  "(let ls' = lossState (updateRtt 1000000000 conn0 50000 20000)
    in mrtt ls' = 50000 \<and> maxAckDelay ls' = 20000 \<and> lrtt ls' = 30000 \<and> srtt ls' = 30000
       \<and> rttvar ls' = 15000)"
  using updateRtt_fields [where conn = conn0 and defaultMinRtt = 1000000000
      and rttSample = 50000 and ackDelay = 20000]
  by (simp add: conn0_def lossState0_def Let_def cpp_div_def)

section \<open>Smoothed RTT moves towards the sample\<close>

text \<open>The step of the filter on integers: \<open>8 * (s * 7 / 8 + x / 8)\<close> differs from
  \<open>7 * s + x\<close> by less than 16, and by at most 14 downwards when both are
  non-negative.\<close>

lemma srtt_step:
  "(7 \<le> \<bar>s - x\<bar> \<longrightarrow> \<bar>cpp_div (s * 7) 8 + cpp_div x 8 - x\<bar> \<le> \<bar>s - x\<bar>)
   \<and> \<bar>cpp_div (s * 7) 8 + cpp_div x 8 - x\<bar> \<le> \<bar>s - x\<bar> + 1
   \<and> (0 \<le> x \<and> x < s \<longrightarrow> x \<le> cpp_div (s * 7) 8 + cpp_div x 8
                         \<and> cpp_div (s * 7) 8 + cpp_div x 8 < s)
   \<and> (0 \<le> s \<and> s \<le> x \<longrightarrow> s - 1 \<le> cpp_div (s * 7) 8 + cpp_div x 8
                         \<and> cpp_div (s * 7) 8 + cpp_div x 8 \<le> x)
   \<and> (0 \<le> s \<and> s \<le> x \<longrightarrow>
        (\<bar>cpp_div (s * 7) 8 + cpp_div x 8 - x\<bar> \<le> \<bar>s - x\<bar>
         \<longleftrightarrow> (s * 7) mod 8 + x mod 8 \<le> x - s))"
proof -
  define p where "p = cpp_div (s * 7) 8"
  define q where "q = cpp_div x 8"
  have 1: "\<bar>p * 8 - s * 7\<bar> < 8" "0 \<le> s * 7 \<Longrightarrow> p * 8 \<le> s * 7 \<and> 0 \<le> p" "s * 7 \<le> 0 \<Longrightarrow> s * 7 \<le> p * 8 \<and> p \<le> 0"
    unfolding p_def using cpp_div_pos_bounds[of 8 "s * 7"] by simp_all
  have 2: "\<bar>q * 8 - x\<bar> < 8" "0 \<le> x \<Longrightarrow> q * 8 \<le> x \<and> 0 \<le> q" "x \<le> 0 \<Longrightarrow> x \<le> q * 8 \<and> q \<le> 0"
    unfolding q_def using cpp_div_pos_bounds[of 8 x] by simp_all
  have a: "7 \<le> \<bar>s - x\<bar> \<longrightarrow> \<bar>p + q - x\<bar> \<le> \<bar>s - x\<bar>" using 1(1) 2(1) by linarith
  have b: "\<bar>p + q - x\<bar> \<le> \<bar>s - x\<bar> + 1" using 1(1) 2(1) by linarith
  have c: "0 \<le> x \<and> x < s \<longrightarrow> x \<le> p + q \<and> p + q < s" using 1 2 by linarith
  have d: "0 \<le> s \<and> s \<le> x \<longrightarrow> s - 1 \<le> p + q \<and> p + q \<le> x" using 1 2 by linarith
  have e: "0 \<le> s \<and> s \<le> x \<longrightarrow>
        (\<bar>p + q - x\<bar> \<le> \<bar>s - x\<bar> \<longleftrightarrow> (s * 7) mod 8 + x mod 8 \<le> x - s)"
  proof
    assume h: "0 \<le> s \<and> s \<le> x"
    have pd: "p = (s * 7) div 8" using h by (cases "s = 0") (simp_all add: p_def cpp_div_def)
    have qd: "q = x div 8" using h by (cases "x = 0") (simp_all add: q_def cpp_div_def)
    have pe: "p * 8 + (s * 7) mod 8 = s * 7" unfolding pd by simp
    have qe: "q * 8 + x mod 8 = x" unfolding qd by simp
    show "\<bar>p + q - x\<bar> \<le> \<bar>s - x\<bar> \<longleftrightarrow> (s * 7) mod 8 + x mod 8 \<le> x - s"
      using h pe qe by linarith
  qed
  show ?thesis unfolding p_def[symmetric] q_def[symmetric] using a b c d e by blast
qed

lemma updateRtt_srtt_lrtt:
  "srtt (lossState (updateRtt defaultMinRtt conn rttSample ackDelay))
     = (if srtt (lossState conn) = 0
        then lrtt (lossState (updateRtt defaultMinRtt conn rttSample ackDelay))
        else cpp_div (srtt (lossState conn) * 7) 8
             + cpp_div (lrtt (lossState (updateRtt defaultMinRtt conn rttSample ackDelay))) 8)"
  "lrtt (lossState (updateRtt defaultMinRtt conn rttSample ackDelay)) = rttSample
   \<or> lrtt (lossState (updateRtt defaultMinRtt conn rttSample ackDelay)) = rttSample - ackDelay"
  "mrtt (lossState (updateRtt defaultMinRtt conn rttSample ackDelay))
     = min (mrtt (lossState conn)) rttSample"
  by (simp_all add: updateRtt_def Let_def kRttAlpha_def kRttBeta_def)

text \<open>With \<open>srtt = 9\<close> and a sample of \<open>9\<close> microseconds (ack delay \<open>0\<close>), the two
  truncating divisions give \<open>63 / 8 + 9 / 8 = 7 + 1 = 8\<close>: the smoothed RTT moves away
  from the sample by one microsecond.\<close>

theorem updateRtt_srtt_counterexample:
  "\<not> (\<bar>srtt (lossState (updateRtt 1000000000 (conn0\<lparr>lossState := lossState0\<lparr>srtt := 9, mrtt := 9\<rparr>\<rparr>) 9 0)) - 9\<bar>
        \<le> \<bar>srtt (lossState (conn0\<lparr>lossState := lossState0\<lparr>srtt := 9, mrtt := 9\<rparr>\<rparr>)) - 9\<bar>)"
  by (simp add: updateRtt_def Let_def conn0_def lossState0_def cpp_div_def kRttAlpha_def kRttBeta_def)

text \<open>
  Claim C7, as amended. Write \<open>s\<close> for the smoothed RTT before \<open>updateRtt\<close>, \<open>s'\<close>
  for the one after, and \<open>x\<close> for the ack-delay adjusted sample, which the function
  stores in \<open>lrtt\<close> (the sample itself or the sample minus the ack delay). When \<open>s\<close>
  is at least 7 microseconds away from \<open>x\<close>, \<open>s'\<close> is no farther from \<open>x\<close> than
  \<open>s\<close> was: \<open>|s' - x| \<le> |s - x|\<close>. When it is closer than 7 microseconds, the two
  truncating divisions can add at most one microsecond: \<open>|s' - x| \<le> |s - x| + 1\<close>. For
  non-negative durations the result stays on the side of the sample: from above,
  \<open>x \<le> s' < s\<close>, strictly closer; from below or at the sample,
  \<open>s - 1 \<le> s' \<le> x\<close>, and there \<open>|s' - x| \<le> |s - x|\<close> holds exactly when the
  two remainders lost to the divisions, \<open>(7 * s) mod 8 + x mod 8\<close>, do not exceed
  \<open>x - s\<close>. The minimum RTT never grows.
\<close>

theorem updateRtt_srtt_moves_toward_sample:
  "(let s = srtt (lossState conn);
        ls' = lossState (updateRtt defaultMinRtt conn rttSample ackDelay);
        x = lrtt ls'
    in (x = rttSample \<or> x = rttSample - ackDelay)
     \<and> (7 \<le> \<bar>s - x\<bar> \<longrightarrow> \<bar>srtt ls' - x\<bar> \<le> \<bar>s - x\<bar>)
     \<and> (\<bar>s - x\<bar> < 7 \<longrightarrow> \<bar>srtt ls' - x\<bar> \<le> \<bar>s - x\<bar> + 1)
     \<and> (0 \<le> x \<and> x < s \<longrightarrow> x \<le> srtt ls' \<and> srtt ls' < s)
     \<and> (0 \<le> s \<and> s \<le> x \<longrightarrow> s - 1 \<le> srtt ls' \<and> srtt ls' \<le> x)
     \<and> (0 \<le> s \<and> s \<le> x \<longrightarrow>
          (\<bar>srtt ls' - x\<bar> \<le> \<bar>s - x\<bar> \<longleftrightarrow> (s * 7) mod 8 + x mod 8 \<le> x - s))
     \<and> mrtt ls' \<le> mrtt (lossState conn))"
proof -
  define s where "s = srtt (lossState conn)"
  define x where "x = lrtt (lossState (updateRtt defaultMinRtt conn rttSample ackDelay))"
  define s' where "s' = srtt (lossState (updateRtt defaultMinRtt conn rttSample ackDelay))"
  have e: "s' = (if s = 0 then x else cpp_div (s * 7) 8 + cpp_div x 8)"
    unfolding s'_def s_def x_def by (rule updateRtt_srtt_lrtt(1))
  have l: "x = rttSample \<or> x = rttSample - ackDelay"
    unfolding x_def by (rule updateRtt_srtt_lrtt(2))
  have m: "mrtt (lossState (updateRtt defaultMinRtt conn rttSample ackDelay))
             \<le> mrtt (lossState conn)"
    by (simp only: updateRtt_srtt_lrtt(3) min.cobounded1)
  have a: "7 \<le> \<bar>s - x\<bar> \<longrightarrow> \<bar>s' - x\<bar> \<le> \<bar>s - x\<bar>"
  proof (cases "s = 0")
    case True
    then show ?thesis using e by simp
  next
    case False
    then show ?thesis using e srtt_step[of s x, THEN conjunct1] by simp
  qed
  have b: "\<bar>s - x\<bar> < 7 \<longrightarrow> \<bar>s' - x\<bar> \<le> \<bar>s - x\<bar> + 1"
  proof (cases "s = 0")
    case True
    then show ?thesis using e by simp
  next
    case False
    then show ?thesis using e srtt_step[of s x, THEN conjunct2, THEN conjunct1] by simp
  qed
  have c: "0 \<le> x \<and> x < s \<longrightarrow> x \<le> s' \<and> s' < s"
  proof (cases "s = 0")
    case True
    then show ?thesis by simp
  next
    case False
    then show ?thesis
      using e srtt_step[of s x, THEN conjunct2, THEN conjunct2, THEN conjunct1] by simp
  qed
  have d: "0 \<le> s \<and> s \<le> x \<longrightarrow> s - 1 \<le> s' \<and> s' \<le> x"
  proof (cases "s = 0")
    case True
    then show ?thesis using e by simp
  next
    case False
    then show ?thesis
      using e srtt_step[of s x, THEN conjunct2, THEN conjunct2, THEN conjunct2, THEN conjunct1]
      by simp
  qed
  have f: "0 \<le> s \<and> s \<le> x \<longrightarrow>
          (\<bar>s' - x\<bar> \<le> \<bar>s - x\<bar> \<longleftrightarrow> (s * 7) mod 8 + x mod 8 \<le> x - s)"
  proof (cases "s = 0")
    case True
    have "0 \<le> x \<longrightarrow> x mod 8 \<le> x" by (simp add: zmod_le_nonneg_dividend)
    then show ?thesis using True e by simp
  next
    case False
    then show ?thesis
      using e srtt_step[of s x, THEN conjunct2, THEN conjunct2, THEN conjunct2, THEN conjunct2]
      by simp
  qed
  show ?thesis
    unfolding Let_def s_def[symmetric] x_def[symmetric] s'_def[symmetric]
    using l a b c d f m by blast
qed

text \<open>From \<open>srtt = 100\<close> with a sample of \<open>20\<close> the result is \<open>89\<close>; from
  \<open>srtt = 9\<close> with a sample of \<open>9\<close> it is within one microsecond below.\<close>

theorem updateRtt_srtt_moves_toward_sample_witness:
  "srtt (lossState (updateRtt 1000000000 (conn0\<lparr>lossState := lossState0\<lparr>srtt := 100, mrtt := 50\<rparr>\<rparr>) 20 0)) = 89
   \<and> \<bar>srtt (lossState (updateRtt 1000000000 (conn0\<lparr>lossState := lossState0\<lparr>srtt := 100, mrtt := 50\<rparr>\<rparr>) 20 0)) - 20\<bar>
       \<le> \<bar>100 - 20\<bar>
   \<and> \<bar>srtt (lossState (updateRtt 1000000000 (conn0\<lparr>lossState := lossState0\<lparr>srtt := 9, mrtt := 9\<rparr>\<rparr>) 9 0)) - 9\<bar>
       \<le> 1
   \<and> 9 - 1 \<le> srtt (lossState (updateRtt 1000000000 (conn0\<lparr>lossState := lossState0\<lparr>srtt := 9, mrtt := 9\<rparr>\<rparr>) 9 0))
   \<and> ((\<bar>srtt (lossState (updateRtt 1000000000 (conn0\<lparr>lossState := lossState0\<lparr>srtt := 9, mrtt := 9\<rparr>\<rparr>) 9 0)) - 9\<bar>
         \<le> \<bar>9 - 9\<bar>) = ((9 * 7) mod 8 + 9 mod 8 \<le> (9::int) - 9))"
proof -
  let ?c = "conn0\<lparr>lossState := lossState0\<lparr>srtt := 100, mrtt := 50\<rparr>\<rparr>"
  let ?d = "conn0\<lparr>lossState := lossState0\<lparr>srtt := 9, mrtt := 9\<rparr>\<rparr>"
  have l: "lrtt (lossState (updateRtt 1000000000 ?c 20 0)) = 20" "srtt (lossState ?c) = 100"
     "lrtt (lossState (updateRtt 1000000000 ?d 9 0)) = 9" "srtt (lossState ?d) = 9"
    by (simp_all add: updateRtt_def Let_def conn0_def lossState0_def)
  have e: "srtt (lossState (updateRtt 1000000000 ?c 20 0)) = 89"
    by (simp add: updateRtt_def Let_def conn0_def lossState0_def cpp_div_def kRttAlpha_def kRttBeta_def)
  note t1 = updateRtt_srtt_moves_toward_sample
      [where conn = ?c and defaultMinRtt = 1000000000 and rttSample = 20 and ackDelay = 0,
       unfolded Let_def l]
  note t2 = updateRtt_srtt_moves_toward_sample
      [where conn = ?d and defaultMinRtt = 1000000000 and rttSample = 9 and ackDelay = 0,
       unfolded Let_def l]
  have h1: "(7::int) \<le> \<bar>100 - 20\<bar>" by simp
  have h2: "\<bar>9 - 9\<bar> < (7::int)" by simp
  have h4: "(0::int) \<le> 9 \<and> (9::int) \<le> 9" by simp
  have a: "\<bar>srtt (lossState (updateRtt 1000000000 ?c 20 0)) - 20\<bar> \<le> \<bar>100 - 20\<bar>"
    using t1 [THEN conjunct2, THEN conjunct1, THEN mp, OF h1] .
  have b: "\<bar>srtt (lossState (updateRtt 1000000000 ?d 9 0)) - 9\<bar> \<le> 1"
    using t2 [THEN conjunct2, THEN conjunct2, THEN conjunct1, THEN mp, OF h2] by simp
  have c: "9 - 1 \<le> srtt (lossState (updateRtt 1000000000 ?d 9 0))"
    using t2 [THEN conjunct2, THEN conjunct2, THEN conjunct2, THEN conjunct2, THEN conjunct1,
              THEN mp, OF h4, THEN conjunct1] .
  have d: "(\<bar>srtt (lossState (updateRtt 1000000000 ?d 9 0)) - 9\<bar> \<le> \<bar>9 - 9\<bar>)
           = ((9 * 7) mod 8 + 9 mod 8 \<le> (9::int) - 9)"
    using t2 [THEN conjunct2, THEN conjunct2, THEN conjunct2, THEN conjunct2, THEN conjunct2,
              THEN conjunct1, THEN mp, OF h4] .
  show ?thesis using e a b c d by blast
qed

section \<open>Scheduling of acknowledgements\<close>















text \<open>A counter at 255 wraps to 0 at the next retransmittable packet: from such a state,
  with a tolerance of 10, ten retransmittable packets leave the latch unset.\<close>

lemma recvPackets_wrap_at_255:
  "\<not> needsToSendAckImmediately (snd (recvPackets 20
        (conn0, ackState0\<lparr>numRxPacketsRecvd := 255, tolerance := Some 10\<rparr>)
        (replicate 10 (False, True, False))))"
proof -
  have r: "replicate 10 (False, True, False)
         = [(False, True, False), (False, True, False), (False, True, False),
            (False, True, False), (False, True, False), (False, True, False),
            (False, True, False), (False, True, False), (False, True, False),
            (False, True, False)]"
    by (simp add: eval_nat_numeral)
  show ?thesis
    unfolding r
    by (simp add: updateAckSendStateOnRecvPacket_def Let_def ackState0_def conn0_def)
qed

section \<open>Implicit opening of peer streams\<close>

declare openPeerStreamLoop.simps [simp del]

lemma openPeerStreamLoop_eq:
  "openPeerStreamLoop start sid os ns =
     (if start \<le> sid then (os \<union> set (openedIds start sid), ns @ openedIds start sid) else (os, ns))"
proof (induction start sid os ns rule: openPeerStreamLoop.induct)
  case (1 start streamId openStreams newStreams)
  show ?case
  proof (cases "start \<le> streamId")
    case False
    then show ?thesis by (simp add: openPeerStreamLoop.simps)
  next
    case True
    note IH = 1[OF True]
    show ?thesis
    proof (cases "start + kStreamIncrement \<le> streamId")
      case False
      then have "(streamId - start) div kStreamIncrement = 0"
        using True by (simp add: kStreamIncrement_def)
      then have "openedIds start streamId = [start]"
        by (simp add: openedIds_def)
      then show ?thesis using True False IH
        by (subst openPeerStreamLoop.simps) simp
    next
      case T2: True
      have d: "(streamId - start) div kStreamIncrement
               = Suc ((streamId - (start + kStreamIncrement)) div kStreamIncrement)"
        using T2 by (simp add: kStreamIncrement_def)
      have "openedIds start streamId
              = start # map (\<lambda>i. start + kStreamIncrement * Suc i)
                   [0..<(streamId - (start + kStreamIncrement)) div kStreamIncrement + 1]"
        unfolding openedIds_def d
        by (simp only: Suc_eq_plus1[symmetric] map_upt_Suc) simp
      also have "map (\<lambda>i. start + kStreamIncrement * Suc i)
                   [0..<(streamId - (start + kStreamIncrement)) div kStreamIncrement + 1]
                 = openedIds (start + kStreamIncrement) streamId"
        by (simp add: openedIds_def)
      finally have e: "openedIds start streamId = start # openedIds (start + kStreamIncrement) streamId" .
      show ?thesis using True T2 IH e
        by (subst openPeerStreamLoop.simps) simp
    qed
  qed
qed

lemma openedIds_props:
  "length (openedIds start sid) = (sid - start) div kStreamIncrement + 1"
  "distinct (openedIds start sid)"
  "\<forall>x \<in> set (openedIds start sid). start \<le> x"
  by (auto simp: openedIds_def distinct_map inj_on_def kStreamIncrement_def)

lemma updateAppIdleState_eq:
  "updateAppIdleState m = m\<lparr>isAppIdle := \<not> hasNonCtrlStreams m\<rparr>"
  by (auto simp: updateAppIdleState_def Let_def)

lemma remote_parity:
  "isRemoteStream (nodeType m) sid \<Longrightarrow>
     \<not> (nodeType m = Client \<and> isClientStream sid) \<and> \<not> (nodeType m = Server \<and> isServerStream sid)
     \<and> \<not> (\<not> isClientStream sid \<and> \<not> isServerStream sid)"
  by (cases "nodeType m") (auto simp: isRemoteStream_def isClientStream_def isServerStream_def)

lemma getOrCreatePeerStream_open:
  assumes "isRemoteStream (nodeType m) sid"
    and "\<forall>x \<in> peerOpenStreams m sid. x < peerNextAcceptable m sid"
    and "streams m sid = None" and "streamPriorityLevels m sid = None"
    and "peerNextAcceptable m sid \<le> sid" and "sid < peerMaxStreamId m sid"
  shows "getOrCreatePeerStream p m sid =
     Inr (Some (newQuicStreamState p sid),
       (if isUnidirectionalStream sid
        then m\<lparr>openUnidirectionalPeerStreams := openUnidirectionalPeerStreams m
                    \<union> set (openedIds (nextAcceptablePeerUnidirectionalStreamId m) sid),
               nextAcceptablePeerUnidirectionalStreamId := sid + kStreamIncrement,
               newPeerStreams := newPeerStreams m @ openedIds (nextAcceptablePeerUnidirectionalStreamId m) sid,
               streams := (streams m)(sid \<mapsto> newQuicStreamState p sid),
               streamPriorityLevels := (streamPriorityLevels m)(sid \<mapsto> level p)\<rparr>
        else m\<lparr>openBidirectionalPeerStreams := openBidirectionalPeerStreams m
                    \<union> set (openedIds (nextAcceptablePeerBidirectionalStreamId m) sid),
               nextAcceptablePeerBidirectionalStreamId := sid + kStreamIncrement,
               newPeerStreams := newPeerStreams m @ openedIds (nextAcceptablePeerBidirectionalStreamId m) sid,
               streams := (streams m)(sid \<mapsto> newQuicStreamState p sid),
               streamPriorityLevels := (streamPriorityLevels m)(sid \<mapsto> level p)\<rparr>))"
proof -
  have notin: "sid \<notin> peerOpenStreams m sid" using assms(2,5) by auto
  show ?thesis
    using remote_parity[OF assms(1)] notin assms(3-6)
    by (auto simp add: getOrCreatePeerStream_def peerOpenStreams_def peerNextAcceptable_def
        peerMaxStreamId_def Let_def openPeerStreamIfNotClosed_def openPeerStreamLoop_eq
        addToStreamPriorityMap_def newQuicStreamState_def)
qed

lemma getOrCreatePeerStream_limit:
  assumes "isRemoteStream (nodeType m) sid"
    and "\<forall>x \<in> peerOpenStreams m sid. x < peerNextAcceptable m sid"
    and "streams m sid = None"
    and "peerNextAcceptable m sid \<le> sid" and "peerMaxStreamId m sid \<le> sid"
  shows "getOrCreatePeerStream p m sid =
     Inl (QuicTransportException ''Exceeded stream limit.'' STREAM_LIMIT_ERROR, m)"
proof -
  have notin: "sid \<notin> peerOpenStreams m sid" using assms(2,4) by auto
  show ?thesis
    using remote_parity[OF assms(1)] notin assms(3-5)
    by (auto simp add: getOrCreatePeerStream_def peerOpenStreams_def peerNextAcceptable_def
        peerMaxStreamId_def Let_def openPeerStreamIfNotClosed_def)
qed

lemma opened_card:
  assumes "\<forall>x \<in> S. x < start"
  shows "card ((S \<union> set (openedIds start sid)) - S) = (sid - start) div kStreamIncrement + 1"
proof -
  have "set (openedIds start sid) \<inter> S = {}"
    using assms openedIds_props(3)[of start sid] by fastforce
  then have "(S \<union> set (openedIds start sid)) - S = set (openedIds start sid)" by auto
  then show ?thesis
    using openedIds_props(1,2)[of start sid] by (simp add: distinct_card)
qed

text \<open>
  Claim C5, as amended. Let \<open>sid\<close> be a peer stream id (of the parity of the peer) that is
  at or above the next acceptable peer stream id of its direction, on a manager where
  every open peer stream of that direction is below the next acceptable id and \<open>sid\<close> has
  no state yet. If \<open>sid\<close> is below the advertised maximum, \<open>getStream\<close> returns the new
  stream and opens the ids \<open>next, next + 4, \<dots>\<close> up to \<open>sid\<close>: exactly
  \<open>(sid - next) div 4 + 1\<close> streams, each put into the open set and appended to
  \<open>newPeerStreams\<close>, and the next acceptable id becomes \<open>sid + 4\<close>. If \<open>sid\<close> is at
  or above the maximum, \<open>getStream\<close> throws STREAM_LIMIT_ERROR and the manager is
  unchanged.
\<close>

theorem getStream_opens_peer_streams:
  assumes "isRemoteStream (nodeType m) sid"
    and "\<forall>x \<in> peerOpenStreams m sid. x < peerNextAcceptable m sid"
    and "streams m sid = None" and "streamPriorityLevels m sid = None"
    and "peerNextAcceptable m sid \<le> sid"
  shows "(sid < peerMaxStreamId m sid \<longrightarrow>
           (case getStream p m sid of
              Inl e \<Rightarrow> False
            | Inr (s, m') \<Rightarrow>
                s = Some (newQuicStreamState p sid)
              \<and> streams m' sid = Some (newQuicStreamState p sid)
              \<and> peerOpenStreams m' sid
                  = peerOpenStreams m sid \<union> set (openedIds (peerNextAcceptable m sid) sid)
              \<and> newPeerStreams m' = newPeerStreams m @ openedIds (peerNextAcceptable m sid) sid
              \<and> card (peerOpenStreams m' sid - peerOpenStreams m sid)
                  = (sid - peerNextAcceptable m sid) div 4 + 1
              \<and> length (newPeerStreams m')
                  = length (newPeerStreams m) + ((sid - peerNextAcceptable m sid) div 4 + 1)
              \<and> peerNextAcceptable m' sid = sid + 4))
       \<and> (peerMaxStreamId m sid \<le> sid \<longrightarrow>
           getStream p m sid
             = Inl (QuicTransportException ''Exceeded stream limit.'' STREAM_LIMIT_ERROR, m))"
proof (intro conjI impI)
  assume lt: "sid < peerMaxStreamId m sid"
  have c: "card ((peerOpenStreams m sid \<union> set (openedIds (peerNextAcceptable m sid) sid))
              - peerOpenStreams m sid) = (sid - peerNextAcceptable m sid) div 4 + 1"
    using opened_card[OF assms(2), of sid] by (simp add: kStreamIncrement_def)
  have l: "length (openedIds (peerNextAcceptable m sid) sid)
             = (sid - peerNextAcceptable m sid) div 4 + 1"
    by (simp add: openedIds_props(1) kStreamIncrement_def)
  show "case getStream p m sid of
              Inl e \<Rightarrow> False
            | Inr (s, m') \<Rightarrow>
                s = Some (newQuicStreamState p sid)
              \<and> streams m' sid = Some (newQuicStreamState p sid)
              \<and> peerOpenStreams m' sid
                  = peerOpenStreams m sid \<union> set (openedIds (peerNextAcceptable m sid) sid)
              \<and> newPeerStreams m' = newPeerStreams m @ openedIds (peerNextAcceptable m sid) sid
              \<and> card (peerOpenStreams m' sid - peerOpenStreams m sid)
                  = (sid - peerNextAcceptable m sid) div 4 + 1
              \<and> length (newPeerStreams m')
                  = length (newPeerStreams m) + ((sid - peerNextAcceptable m sid) div 4 + 1)
              \<and> peerNextAcceptable m' sid = sid + 4"
    using c l assms(1)
    by (cases "isUnidirectionalStream sid")
       (simp_all add: getStream_def getOrCreatePeerStream_open[OF assms lt] updateAppIdleState_eq
        peerOpenStreams_def peerNextAcceptable_def kStreamIncrement_def)
next
  assume "peerMaxStreamId m sid \<le> sid"
  then show "getStream p m sid
             = Inl (QuicTransportException ''Exceeded stream limit.'' STREAM_LIMIT_ERROR, m)"
    using assms(1) getOrCreatePeerStream_limit[OF assms(1,2,3,5)]
    by (simp add: getStream_def)
qed

lemma serverManager_simps:
  "isRemoteStream (nodeType (serverManager l f)) 8"
  "peerOpenStreams (serverManager l f) 8 = {}"
  "peerNextAcceptable (serverManager l f) 8 = 0"
  "peerMaxStreamId (serverManager l f) 8 = l * 4"
  "streams (serverManager l f) 8 = None"
  "streamPriorityLevels (serverManager l f) 8 = None"
  "newPeerStreams (serverManager l f) = []"
  by (simp_all add: serverManager_def isRemoteStream_def isClientStream_def
        peerOpenStreams_def peerNextAcceptable_def peerMaxStreamId_def isUnidirectionalStream_def)

theorem getStream_opens_peer_streams_witness:
  "(case getStream priority0 (serverManager 100 4) 8 of
      Inl e \<Rightarrow> False
    | Inr (s, m') \<Rightarrow>
        s = Some (newQuicStreamState priority0 8)
      \<and> peerOpenStreams m' 8 = {0, 4, 8}
      \<and> newPeerStreams m' = [0, 4, 8]
      \<and> card (peerOpenStreams m' 8 - {}) = 3
      \<and> peerNextAcceptable m' 8 = 12)
   \<and> getStream priority0 (serverManager 2 4) 8
       = Inl (QuicTransportException ''Exceeded stream limit.'' STREAM_LIMIT_ERROR, serverManager 2 4)"
proof -
  have ids: "openedIds 0 8 = [0, 4, 8]"
    by (simp add: openedIds_def kStreamIncrement_def upt_rec)
  have a: "case getStream priority0 (serverManager 100 4) 8 of
      Inl e \<Rightarrow> False
    | Inr (s, m') \<Rightarrow>
        s = Some (newQuicStreamState priority0 8)
      \<and> peerOpenStreams m' 8 = {0, 4, 8}
      \<and> newPeerStreams m' = [0, 4, 8]
      \<and> card (peerOpenStreams m' 8 - {}) = 3
      \<and> peerNextAcceptable m' 8 = 12"
    using getStream_opens_peer_streams [where m = "serverManager 100 4" and sid = 8 and p = priority0]
    by (auto simp add: serverManager_simps ids split: sum.splits)
  have b: "getStream priority0 (serverManager 2 4) 8
       = Inl (QuicTransportException ''Exceeded stream limit.'' STREAM_LIMIT_ERROR, serverManager 2 4)"
    using getStream_opens_peer_streams [where m = "serverManager 2 4" and sid = 8 and p = priority0]
    by (simp add: serverManager_simps)
  show ?thesis using a b by simp
qed

text \<open>On a fresh server manager the next acceptable bidirectional peer id is \<open>0\<close>;
  \<open>getStream 0\<close> opens one stream, while the rounded-up quotient of \<open>0 - 0\<close> by 4
  (written \<open>(d + 3) div 4\<close> on naturals) is \<open>0\<close>.\<close>

theorem getStream_ceiling_counterexample:
  "\<not> (length (newPeerStreams (snd (projr (getStream priority0 (serverManager 100 4) 0))))
         - length (newPeerStreams (serverManager 100 4))
       = (0 - nextAcceptablePeerBidirectionalStreamId (serverManager 100 4) + 3) div 4)"
proof -
  have "openPeerStreamLoop 0 0 {} [] = ({0}, [0])"
    by (simp add: openPeerStreamLoop_eq openedIds_def)
  then show ?thesis
    by (simp add: getStream_def getOrCreatePeerStream_def serverManager_def isRemoteStream_def
        isClientStream_def isServerStream_def isUnidirectionalStream_def Let_def
        openPeerStreamIfNotClosed_def addToStreamPriorityMap_def newQuicStreamState_def
        updateAppIdleState_eq kStreamIncrement_def)
qed

section \<open>Stream credit on closing a peer stream\<close>

lemma u64_sub_nowrap: "b \<le> a \<Longrightarrow> a < 2 ^ 64 \<Longrightarrow> u64_sub a b = a - b"
proof -
  assume h: "b \<le> a" "a < 2 ^ 64"
  have e: "int a - int b = int (a - b)" using h(1) by (rule of_nat_diff[symmetric])
  have "a - b < 2 ^ 64" using h by arith
  then have "int (a - b) < int (2 ^ 64)" by (simp only: of_nat_less_iff)
  then have l: "int (a - b) < 2 ^ 64" by (simp only: of_nat_power of_nat_numeral)
  have "0 \<le> int (a - b)" by (rule of_nat_0_le_iff)
  then have "int (a - b) mod 2 ^ 64 = int (a - b)" using l by (rule mod_pos_pos_trivial)
  then show ?thesis unfolding u64_sub_def e by (simp only: nat_int)
qed

lemma u64_add_nowrap: "a + b < 2 ^ 64 \<Longrightarrow> u64_add a b = a + b"
  unfolding u64_add_def by (rule mod_less)

lemma limitUpdate_bidi_eq:
  "\<not> isUnidirectionalStream sid \<Longrightarrow> removeClosedStream_limitUpdate K m sid =
     (let credit = u64_sub (u64_sub (advertisedInitialMaxStreamsBidi m) (openableRemoteBidirectionalStreams m))
                     (card (openBidirectionalPeerStreams m));
          newMax = u64_add ((maxRemoteBidirectionalStreamId m - initialRemoteBidirectionalStreamId m)
                      div kStreamIncrement) credit
      in if advertisedInitialMaxStreamsBidi m div streamLimitWindowingFraction m \<le> credit
         then (if newMax > K
               then Inl (QuicTransportException ''Attempt to set maxStreams beyond the max allowed.''
                           STREAM_LIMIT_ERROR, m)
               else Inr (m\<lparr>maxRemoteBidirectionalStreamId :=
                            (if newMax * kStreamIncrement + initialRemoteBidirectionalStreamId m
                                  > maxRemoteBidirectionalStreamId m
                             then newMax * kStreamIncrement + initialRemoteBidirectionalStreamId m
                             else maxRemoteBidirectionalStreamId m),
                          remoteBidirectionalStreamLimitUpdate_mem := Some newMax\<rparr>))
         else Inr m)"
  by (simp add: removeClosedStream_limitUpdate_def Let_def setMaxRemoteBidirectionalStreams_def
      setMaxRemoteBidirectionalStreamsInternal_def)

lemma limitUpdate_uni_eq:
  "isUnidirectionalStream sid \<Longrightarrow> removeClosedStream_limitUpdate K m sid =
     (let credit = u64_sub (u64_sub (advertisedInitialMaxStreamsUni m) (openableRemoteUnidirectionalStreams m))
                     (card (openUnidirectionalPeerStreams m));
          newMax = u64_add ((maxRemoteUnidirectionalStreamId m - initialRemoteUnidirectionalStreamId m)
                      div kStreamIncrement) credit
      in if advertisedInitialMaxStreamsUni m div streamLimitWindowingFraction m \<le> credit
         then (if newMax > K
               then Inl (QuicTransportException ''Attempt to set maxStreams beyond the max allowed.''
                           STREAM_LIMIT_ERROR, m)
               else Inr (m\<lparr>maxRemoteUnidirectionalStreamId :=
                            (if newMax * kStreamIncrement + initialRemoteUnidirectionalStreamId m
                                  > maxRemoteUnidirectionalStreamId m
                             then newMax * kStreamIncrement + initialRemoteUnidirectionalStreamId m
                             else maxRemoteUnidirectionalStreamId m),
                          remoteUnidirectionalStreamLimitUpdate_mem := Some newMax\<rparr>))
         else Inr m)"
  by (simp add: removeClosedStream_limitUpdate_def Let_def setMaxRemoteUnidirectionalStreams_def
      setMaxRemoteUnidirectionalStreamsInternal_def)

lemma removeClosedStream_peer_eq:
  assumes "isRemoteStream (nodeType m) sid" and "streams m sid = Some it"
    and "streamPriorityLevels m sid = Some l"
  shows "removeClosedStream K m sid =
     (case removeClosedStream_limitUpdate K (erasedPeerStream m sid it) sid of
        Inl e \<Rightarrow> Inl e
      | Inr m6 \<Rightarrow> Inr (updateAppIdleState m6))"
  using assms
  by (simp add: removeClosedStream_def erasedPeerStream_def Let_def removeClosedStream_eraseIndices_def)

lemma erasedPeerStream_fields:
  "nodeType (erasedPeerStream m sid it) = nodeType m"
  "streams (erasedPeerStream m sid it) = (streams m)(sid := None)"
  "streamPriorityLevels (erasedPeerStream m sid it) = (streamPriorityLevels m)(sid := None)"
  "peerOpenStreams (erasedPeerStream m sid it) sid = peerOpenStreams m sid - {sid}"
  "peerNextAcceptable (erasedPeerStream m sid it) x = peerNextAcceptable m x"
  "peerMaxStreamId (erasedPeerStream m sid it) x = peerMaxStreamId m x"
  "peerInitialStreamId (erasedPeerStream m sid it) x = peerInitialStreamId m x"
  "peerInitialStreamLimit (erasedPeerStream m sid it) x = peerInitialStreamLimit m x"
  "peerOpenableStreams (erasedPeerStream m sid it) x = peerOpenableStreams m x"
  "peerStreamLimitUpdate (erasedPeerStream m sid it) x = peerStreamLimitUpdate m x"
  "streamLimitWindowingFraction (erasedPeerStream m sid it) = streamLimitWindowingFraction m"
  "newPeerStreams (erasedPeerStream m sid it) = newPeerStreams m"
  by (simp_all add: erasedPeerStream_def Let_def removeClosedStream_eraseIndices_def
      peerOpenStreams_def peerNextAcceptable_def peerMaxStreamId_def peerInitialStreamId_def
      peerInitialStreamLimit_def peerOpenableStreams_def peerStreamLimitUpdate_def
      openableRemoteBidirectionalStreams_def openableRemoteUnidirectionalStreams_def)

lemma updateAppIdleState_fields:
  "nodeType (updateAppIdleState m) = nodeType m"
  "streams (updateAppIdleState m) = streams m"
  "streamPriorityLevels (updateAppIdleState m) = streamPriorityLevels m"
  "peerOpenStreams (updateAppIdleState m) x = peerOpenStreams m x"
  "peerNextAcceptable (updateAppIdleState m) x = peerNextAcceptable m x"
  "peerMaxStreamId (updateAppIdleState m) x = peerMaxStreamId m x"
  "peerInitialStreamId (updateAppIdleState m) x = peerInitialStreamId m x"
  "peerInitialStreamLimit (updateAppIdleState m) x = peerInitialStreamLimit m x"
  "peerOpenableStreams (updateAppIdleState m) x = peerOpenableStreams m x"
  "peerStreamLimitUpdate (updateAppIdleState m) x = peerStreamLimitUpdate m x"
  "streamLimitWindowingFraction (updateAppIdleState m) = streamLimitWindowingFraction m"
  "newPeerStreams (updateAppIdleState m) = newPeerStreams m"
  by (simp_all add: updateAppIdleState_eq
      peerOpenStreams_def peerNextAcceptable_def peerMaxStreamId_def peerInitialStreamId_def
      peerInitialStreamLimit_def peerOpenableStreams_def peerStreamLimitUpdate_def
      openableRemoteBidirectionalStreams_def openableRemoteUnidirectionalStreams_def)

text \<open>The stream limit update in terms of the direction-independent readers, when
  nothing wraps.\<close>

lemma limitUpdate_nowrap:
  fixes K m sid
  defines "m' \<equiv> projr (removeClosedStream_limitUpdate K m sid)"
  assumes "peerInitialStreamId m sid \<le> peerMaxStreamId m sid"
    and "peerOpenableStreams m sid + card (peerOpenStreams m sid) \<le> peerInitialStreamLimit m sid"
    and "(peerMaxStreamId m sid - peerInitialStreamId m sid) div 4 + peerInitialStreamLimit m sid \<le> K"
    and "K < 2 ^ 64"
  shows "removeClosedStream_limitUpdate K m sid = Inr m'
      \<and> nodeType m' = nodeType m \<and> streams m' = streams m
      \<and> streamPriorityLevels m' = streamPriorityLevels m
      \<and> peerOpenStreams m' sid = peerOpenStreams m sid
      \<and> peerNextAcceptable m' sid = peerNextAcceptable m sid
      \<and> peerInitialStreamId m' sid = peerInitialStreamId m sid
      \<and> peerInitialStreamLimit m' sid = peerInitialStreamLimit m sid
      \<and> streamLimitWindowingFraction m' = streamLimitWindowingFraction m
      \<and> (if peerInitialStreamLimit m sid div streamLimitWindowingFraction m
             \<le> peerInitialStreamLimit m sid - peerOpenableStreams m sid - card (peerOpenStreams m sid)
          then (peerMaxStreamId m' sid - peerInitialStreamId m sid) div 4
                 = (peerMaxStreamId m sid - peerInitialStreamId m sid) div 4
                   + (peerInitialStreamLimit m sid - peerOpenableStreams m sid - card (peerOpenStreams m sid))
             \<and> peerMaxStreamId m' sid =
                   max (peerMaxStreamId m sid)
                       (((peerMaxStreamId m sid - peerInitialStreamId m sid) div 4
                   + (peerInitialStreamLimit m sid - peerOpenableStreams m sid - card (peerOpenStreams m sid))) * 4
                        + peerInitialStreamId m sid)
             \<and> peerStreamLimitUpdate m' sid
                 = Some ((peerMaxStreamId m sid - peerInitialStreamId m sid) div 4
                   + (peerInitialStreamLimit m sid - peerOpenableStreams m sid - card (peerOpenStreams m sid)))
          else m' = m)"
proof -
  define L where "L = peerInitialStreamLimit m sid"
  define opn where "opn = peerOpenableStreams m sid"
  define sz where "sz = card (peerOpenStreams m sid)"
  define ms where "ms = (peerMaxStreamId m sid - peerInitialStreamId m sid) div 4"
  define c where "c = L - opn - sz"
  have K64: "K < 2 ^ 64" by (rule assms(5))
  have LK: "ms + L \<le> K" using assms(4) by (simp only: L_def ms_def)
  have L64: "L < 2 ^ 64" using LK K64 by arith
  have o: "opn + sz \<le> L" using assms(3) by (simp only: L_def opn_def sz_def)
  have "u64_sub L opn = L - opn" using o L64 by (intro u64_sub_nowrap) arith+
  moreover have "u64_sub (L - opn) sz = L - opn - sz" using o L64 by (intro u64_sub_nowrap) arith+
  ultimately have c1: "u64_sub (u64_sub L opn) sz = c" by (simp only: c_def)
  have cL: "c \<le> L" by (simp add: c_def)
  have "ms + c < 2 ^ 64" using LK cL K64 by arith
  then have a1: "u64_add ms c = ms + c" by (rule u64_add_nowrap)
  have le: "\<not> K < ms + c" using LK cL by arith
  have msb: "ms * 4 + peerInitialStreamId m sid \<le> peerMaxStreamId m sid"
  proof -
    have "ms * 4 \<le> peerMaxStreamId m sid - peerInitialStreamId m sid"
      unfolding ms_def by simp
    then show ?thesis using assms(2) by arith
  qed
  have dv: "((ms + c) * 4 + i - i) div 4 = ms + c" for i :: nat by simp
  have c0: "(ms + c) * 4 + peerInitialStreamId m sid \<le> peerMaxStreamId m sid \<Longrightarrow> c = 0"
  proof -
    assume "(ms + c) * 4 + peerInitialStreamId m sid \<le> peerMaxStreamId m sid"
    then have "(ms + c) * 4 \<le> peerMaxStreamId m sid - peerInitialStreamId m sid" by arith
    then have "ms + c \<le> (peerMaxStreamId m sid - peerInitialStreamId m sid) div 4"
      by (simp add: less_eq_div_iff_mult_less_eq)
    then show "c = 0" by (simp add: ms_def)
  qed
  show ?thesis
  proof (cases "isUnidirectionalStream sid")
    case True
    have L': "advertisedInitialMaxStreamsUni m = L" using True by (simp add: L_def peerInitialStreamLimit_def)
    have o': "openableRemoteUnidirectionalStreams m = opn" using True by (simp add: opn_def peerOpenableStreams_def)
    have s': "card (openUnidirectionalPeerStreams m) = sz" using True by (simp add: sz_def peerOpenStreams_def)
    have m': "(maxRemoteUnidirectionalStreamId m - initialRemoteUnidirectionalStreamId m) div kStreamIncrement = ms"
      using True by (simp add: ms_def peerMaxStreamId_def peerInitialStreamId_def kStreamIncrement_def)
    have f: "removeClosedStream_limitUpdate K m sid =
       (if L div streamLimitWindowingFraction m \<le> c
        then Inr (m\<lparr>maxRemoteUnidirectionalStreamId :=
                            (if (ms + c) * 4 + initialRemoteUnidirectionalStreamId m
                                  > maxRemoteUnidirectionalStreamId m
                             then (ms + c) * 4 + initialRemoteUnidirectionalStreamId m
                             else maxRemoteUnidirectionalStreamId m),
                          remoteUnidirectionalStreamLimitUpdate_mem := Some (ms + c)\<rparr>)
        else Inr m)"
      unfolding limitUpdate_uni_eq[OF True] Let_def L' o' s' m' c1 a1
      using le by (simp add: kStreamIncrement_def)
    show ?thesis
      unfolding m'_def f L_def[symmetric] opn_def[symmetric] sz_def[symmetric] ms_def[symmetric] c_def[symmetric]
      using True msb c0 dv[of "initialRemoteUnidirectionalStreamId m"]
      by (auto simp add: peerOpenStreams_def peerNextAcceptable_def peerMaxStreamId_def
          peerInitialStreamId_def peerInitialStreamLimit_def peerStreamLimitUpdate_def max_def
          L' m'[unfolded kStreamIncrement_def])
  next
    case False
    have L': "advertisedInitialMaxStreamsBidi m = L" using False by (simp add: L_def peerInitialStreamLimit_def)
    have o': "openableRemoteBidirectionalStreams m = opn" using False by (simp add: opn_def peerOpenableStreams_def)
    have s': "card (openBidirectionalPeerStreams m) = sz" using False by (simp add: sz_def peerOpenStreams_def)
    have m': "(maxRemoteBidirectionalStreamId m - initialRemoteBidirectionalStreamId m) div kStreamIncrement = ms"
      using False by (simp add: ms_def peerMaxStreamId_def peerInitialStreamId_def kStreamIncrement_def)
    have f: "removeClosedStream_limitUpdate K m sid =
       (if L div streamLimitWindowingFraction m \<le> c
        then Inr (m\<lparr>maxRemoteBidirectionalStreamId :=
                            (if (ms + c) * 4 + initialRemoteBidirectionalStreamId m
                                  > maxRemoteBidirectionalStreamId m
                             then (ms + c) * 4 + initialRemoteBidirectionalStreamId m
                             else maxRemoteBidirectionalStreamId m),
                          remoteBidirectionalStreamLimitUpdate_mem := Some (ms + c)\<rparr>)
        else Inr m)"
      unfolding limitUpdate_bidi_eq[OF False] Let_def L' o' s' m' c1 a1
      using le by (simp add: kStreamIncrement_def)
    show ?thesis
      unfolding m'_def f L_def[symmetric] opn_def[symmetric] sz_def[symmetric] ms_def[symmetric] c_def[symmetric]
      using False msb c0 dv[of "initialRemoteBidirectionalStreamId m"]
      by (auto simp add: peerOpenStreams_def peerNextAcceptable_def peerMaxStreamId_def
          peerInitialStreamId_def peerInitialStreamLimit_def peerStreamLimitUpdate_def max_def
          L' m'[unfolded kStreamIncrement_def])
  qed
qed

lemma bidi4: "\<not> isUnidirectionalStream (4 * i)" "isClientStream (4 * i)"
proof -
  have "(4 * i) div 2 = 2 * i" by simp
  then show "\<not> isUnidirectionalStream (4 * i)" by (simp add: isUnidirectionalStream_def)
  have "(4 * i) mod 2 = 0" by presburger
  then show "isClientStream (4 * i)" by (simp add: isClientStream_def)
qed

lemma windowInv_init: "windowInv (serverManager 100 4) 0 0"
  by (simp add: windowInv_def serverManager_def)

lemma openedIds_single: "openedIds s s = [s]"
  by (simp add: openedIds_def)

lemma windowInv_open:
  assumes "windowInv m n k" and "k \<le> n" and "n < 100"
  shows "\<exists>s m'. getStream p m (4 * n) = Inr (s, m') \<and> windowInv m' (Suc n) k"
proof -
  have r: "isRemoteStream (nodeType m) (4 * n)"
    using assms(1) bidi4(2)[of n] by (simp add: windowInv_def isRemoteStream_def)
  have nx: "peerNextAcceptable m (4 * n) = 4 * n" "peerOpenStreams m (4 * n) = (\<lambda>i. 4 * i) ` {k..<n}"
    "peerMaxStreamId m (4 * n) = 400"
    using assms(1) bidi4(1)[of n]
    by (simp_all add: windowInv_def peerNextAcceptable_def peerOpenStreams_def peerMaxStreamId_def)
  have h2: "\<forall>x \<in> peerOpenStreams m (4 * n). x < peerNextAcceptable m (4 * n)"
    unfolding nx by auto
  have h3: "streams m (4 * n) = None" "streamPriorityLevels m (4 * n) = None"
    using assms(1) by (simp_all add: windowInv_def)
  have h5: "peerNextAcceptable m (4 * n) \<le> 4 * n" "4 * n < peerMaxStreamId m (4 * n)"
    unfolding nx using assms(3) by simp_all
  have nxt: "nextAcceptablePeerBidirectionalStreamId m = 4 * n" using assms(1) by (simp add: windowInv_def)
  note g = getOrCreatePeerStream_open[OF r h2 h3 h5, of p, unfolded if_not_P[OF bidi4(1)] nxt openedIds_single]
  have s: "{k..<Suc n} = insert n {k..<n}" using assms(2) by auto
  have "windowInv (updateAppIdleState (m\<lparr>openBidirectionalPeerStreams :=
                 openBidirectionalPeerStreams m \<union> set [4 * n],
               nextAcceptablePeerBidirectionalStreamId := 4 * n + kStreamIncrement,
               newPeerStreams := newPeerStreams m @ [4 * n],
               streams := (streams m)(4 * n \<mapsto> newQuicStreamState p (4 * n)),
               streamPriorityLevels := (streamPriorityLevels m)(4 * n \<mapsto> level p)\<rparr>)) (Suc n) k"
    using assms(1) by (auto simp add: windowInv_def updateAppIdleState_eq kStreamIncrement_def s)
  then show ?thesis using r by (simp add: getStream_def g)
qed

lemma windowInv_opens:
  assumes "windowInv m n 0" and "n + d = 100"
  shows "\<exists>m'. getStreams p m (map (\<lambda>i. 4 * i) [n..<100]) = Inr m' \<and> windowInv m' 100 0"
  using assms
proof (induction d arbitrary: m n)
  case 0
  then show ?case by simp
next
  case (Suc d)
  then have n: "n < 100" by simp
  from windowInv_open[OF Suc.prems(1) _ n, of p] obtain s m1
    where g: "getStream p m (4 * n) = Inr (s, m1)" and i: "windowInv m1 (Suc n) 0" by auto
  from Suc.IH[OF i] Suc.prems(2) obtain m' where
    "getStreams p m1 (map (\<lambda>i. 4 * i) [Suc n..<100]) = Inr m'" "windowInv m' 100 0" by auto
  then show ?case using g n by (simp add: upt_conv_Cons)
qed

lemma image4_minus:
  "k < (100::nat) \<Longrightarrow> (\<lambda>i. 4 * i) ` {k..<100} - {4 * k} = (\<lambda>i::nat. 4 * i) ` {Suc k..<100}"
  by (auto simp: image_iff)

lemma card_open_after: "k < (100::nat) \<Longrightarrow> card ((\<lambda>i. 4 * i) ` {k..<100} - {4 * k}) = 99 - k"
proof -
  assume k: "k < (100::nat)"
  have inj: "inj_on (\<lambda>i::nat. 4 * i) A" for A by (simp add: inj_on_def)
  show ?thesis unfolding image4_minus[OF k] by (simp add: card_image[OF inj])
qed

lemma conj10_if:
  "P1 \<and> P2 \<and> P3 \<and> P4 \<and> P5 \<and> P6 \<and> P7 \<and> P8 \<and> P9 \<and> (if c then X \<and> Y \<and> Z else W)
     \<Longrightarrow> (if c then Z else W)"
  by (simp split: if_splits)

lemma windowInv_close:
  assumes "windowInv m 100 k" and "k < 25" and "200 \<le> K" and "K < 2 ^ 64"
  shows "\<exists>m'. removeClosedStream K m (4 * k) = Inr m' \<and>
           (if k < 24 then windowInv m' 100 (Suc k)
            else remoteBidirectionalStreamLimitUpdate_mem m' = Some 125)"
proof -
  have k100: "k < 100" using assms(2) by simp
  have r: "isRemoteStream (nodeType m) (4 * k)"
    using assms(1) bidi4(2)[of k] by (simp add: windowInv_def isRemoteStream_def)
  obtain it l where st: "streams m (4 * k) = Some it" "streamPriorityLevels m (4 * k) = Some l"
    using assms(1) k100 by (auto simp add: windowInv_def)
  let ?e = "erasedPeerStream m (4 * k) it"
  have rd: "peerInitialStreamId m (4 * k) = 0" "peerMaxStreamId m (4 * k) = 400"
     "peerInitialStreamLimit m (4 * k) = 100" "peerOpenableStreams m (4 * k) = 0"
     "peerOpenStreams m (4 * k) = (\<lambda>i. 4 * i) ` {k..<100}"
     "peerStreamLimitUpdate m (4 * k) = None"
    using assms(1) bidi4(1)[of k]
    by (simp_all add: windowInv_def peerInitialStreamId_def peerMaxStreamId_def
        peerInitialStreamLimit_def peerOpenableStreams_def openableRemoteBidirectionalStreams_def
        peerOpenStreams_def peerStreamLimitUpdate_def)
  have fr: "streamLimitWindowingFraction m = 4" using assms(1) by (simp add: windowInv_def)
  have cd: "card (peerOpenStreams ?e (4 * k)) = 99 - k"
    by (simp add: erasedPeerStream_fields rd card_open_after[OF k100])
  have a1: "peerInitialStreamId ?e (4 * k) \<le> peerMaxStreamId ?e (4 * k)"
    by (simp add: erasedPeerStream_fields rd)
  have a2: "peerOpenableStreams ?e (4 * k) + card (peerOpenStreams ?e (4 * k))
              \<le> peerInitialStreamLimit ?e (4 * k)"
    unfolding cd by (simp add: erasedPeerStream_fields rd)
  have a3: "(peerMaxStreamId ?e (4 * k) - peerInitialStreamId ?e (4 * k)) div 4
              + peerInitialStreamLimit ?e (4 * k) \<le> K"
    using assms(3) by (simp add: erasedPeerStream_fields rd)
  define m6 where "m6 = projr (removeClosedStream_limitUpdate K ?e (4 * k))"
  note lu = limitUpdate_nowrap[OF a1 a2 a3 assms(4), folded m6_def]
  have m6: "removeClosedStream_limitUpdate K ?e (4 * k) = Inr m6" using lu by (rule conjunct1)
  have upd: "(if peerInitialStreamLimit ?e (4 * k) div streamLimitWindowingFraction ?e
             \<le> peerInitialStreamLimit ?e (4 * k) - peerOpenableStreams ?e (4 * k) - card (peerOpenStreams ?e (4 * k))
          then peerStreamLimitUpdate m6 (4 * k)
                 = Some ((peerMaxStreamId ?e (4 * k) - peerInitialStreamId ?e (4 * k)) div 4
                   + (peerInitialStreamLimit ?e (4 * k) - peerOpenableStreams ?e (4 * k) - card (peerOpenStreams ?e (4 * k))))
          else m6 = ?e)"
    using lu by (rule conj10_if)
  have res: "removeClosedStream K m (4 * k) = Inr (updateAppIdleState m6)"
    by (simp add: removeClosedStream_peer_eq[OF r st] m6)
  have u: "(if 25 \<le> Suc k then peerStreamLimitUpdate m6 (4 * k) = Some (100 + Suc k) else m6 = ?e)"
    using upd k100 unfolding cd by (simp add: erasedPeerStream_fields rd fr)
  show ?thesis
  proof (cases "k < 24")
    case True
    then have e: "m6 = ?e" using u by simp
    have s: "{k..<100} - {k} = {Suc k..<100}" by auto
    have o: "openBidirectionalPeerStreams ?e = (\<lambda>i. 4 * i) ` {Suc k..<100}"
    proof -
      have "openBidirectionalPeerStreams ?e = peerOpenStreams ?e (4 * k)"
        using bidi4(1)[of k] by (simp add: peerOpenStreams_def)
      also have "\<dots> = (\<lambda>i. 4 * i) ` {k..<100} - {4 * k}"
        by (simp only: erasedPeerStream_fields(4) rd(5))
      also have "\<dots> = (\<lambda>i. 4 * i) ` {Suc k..<100}"
        by (rule image4_minus[OF k100])
      finally show ?thesis .
    qed
    have nx: "nextAcceptablePeerBidirectionalStreamId ?e = 400"
      "maxRemoteBidirectionalStreamId ?e = 400" "initialRemoteBidirectionalStreamId ?e = 0"
      "advertisedInitialMaxStreamsBidi ?e = 100" "remoteBidirectionalStreamLimitUpdate_mem ?e = None"
      using erasedPeerStream_fields(5-10)[of m "4 * k" it "4 * k"] bidi4(1)[of k] assms(1)
      by (simp_all add: peerNextAcceptable_def peerMaxStreamId_def peerInitialStreamId_def
          peerInitialStreamLimit_def peerStreamLimitUpdate_def windowInv_def)
    have st_e: "streams ?e (4 * i) = (if i = k then None else streams m (4 * i))" for i
      by (simp add: erasedPeerStream_fields(2))
    have pr_e: "streamPriorityLevels ?e (4 * i) = (if i = k then None else streamPriorityLevels m (4 * i))" for i
      by (simp add: erasedPeerStream_fields(3))
    have nt: "nodeType ?e = Server" "streamLimitWindowingFraction ?e = 4"
      using assms(1) by (simp_all add: erasedPeerStream_fields(1,11) windowInv_def)
    have old: "\<forall>i. k \<le> i \<and> i < 100 \<longrightarrow> streams m (4 * i) \<noteq> None \<and> streamPriorityLevels m (4 * i) \<noteq> None"
      "\<forall>i. 100 \<le> i \<longrightarrow> streams m (4 * i) = None \<and> streamPriorityLevels m (4 * i) = None"
      using assms(1) by (simp_all add: windowInv_def)
    have "windowInv ?e 100 (Suc k)"
      unfolding windowInv_def using old k100 by (simp add: o nx nt st_e pr_e)
    then have "windowInv (updateAppIdleState ?e) 100 (Suc k)"
      by (simp add: windowInv_def updateAppIdleState_eq)
    then show ?thesis using res True e by simp
  next
    case False
    then have k: "k = 24" using assms(2) by simp
    have "peerStreamLimitUpdate m6 (4 * k) = Some 125" using u k by simp
    then have "remoteBidirectionalStreamLimitUpdate_mem (updateAppIdleState m6) = Some 125"
      using bidi4(1)[of k] by (simp add: peerStreamLimitUpdate_def updateAppIdleState_eq)
    then show ?thesis using res False by simp
  qed
qed

lemma windowInv_closes:
  assumes "windowInv m 100 k" and "k + d = 24" and "200 \<le> K" and "K < 2 ^ 64"
  shows "\<exists>m'. removeClosedStreams K m (map (\<lambda>i. 4 * i) [k..<24]) = Inr m' \<and> windowInv m' 100 24"
  using assms(1,2)
proof (induction d arbitrary: m k)
  case 0
  then show ?case by simp
next
  case (Suc d)
  then have k: "k < 24" by simp
  then have k25: "k < 25" by simp
  from windowInv_close[OF Suc.prems(1) k25 assms(3,4)] k obtain m1
    where g: "removeClosedStream K m (4 * k) = Inr m1" and i: "windowInv m1 100 (Suc k)" by auto
  from Suc.IH[OF i] Suc.prems(2) obtain m' where
    "removeClosedStreams K m1 (map (\<lambda>i. 4 * i) [Suc k..<24]) = Inr m'" "windowInv m' 100 24" by auto
  then show ?case using g k by (simp add: upt_conv_Cons)
qed

lemma removeClosedStreams_append:
  "removeClosedStreams K m (xs @ ys) =
     (case removeClosedStreams K m xs of Inl e \<Rightarrow> Inl e | Inr m' \<Rightarrow> removeClosedStreams K m' ys)"
  by (induction xs arbitrary: m) (auto split: sum.splits)

lemma window_scenario:
  assumes "200 \<le> K" and "K < 2 ^ 64"
  shows "\<exists>m1 m2. getStreams p (serverManager 100 4) (map (\<lambda>i. 4 * i) [0..<100]) = Inr m1
     \<and> removeClosedStreams K m1 (map (\<lambda>i. 4 * i) [0..<25]) = Inr m2
     \<and> remoteBidirectionalStreamLimitUpdate_mem m2 = Some 125"
proof -
  from windowInv_opens[OF windowInv_init, of 100 p] obtain m1 where
    m1: "getStreams p (serverManager 100 4) (map (\<lambda>i. 4 * i) [0..<100]) = Inr m1"
    and i1: "windowInv m1 100 0" by auto
  from windowInv_closes[OF i1 _ assms, of 24] obtain ma where
    ma: "removeClosedStreams K m1 (map (\<lambda>i. 4 * i) [0..<24]) = Inr ma"
    and i2: "windowInv ma 100 24" by auto
  from windowInv_close[OF i2 _ assms] obtain m2 where
    m2: "removeClosedStream K ma (4 * 24) = Inr m2"
    and u: "remoteBidirectionalStreamLimitUpdate_mem m2 = Some 125" by auto
  have "[0..<25] = [0..<24] @ [24]" by (simp add: upt_rec)
  then have "removeClosedStreams K m1 (map (\<lambda>i. 4 * i) [0..<25]) = Inr m2"
    using ma m2 by (simp add: removeClosedStreams_append)
  then show ?thesis using m1 u by blast
qed

lemma conj10_if_True:
  "P1 \<and> P2 \<and> P3 \<and> P4 \<and> P5 \<and> P6 \<and> P7 \<and> P8 \<and> P9 \<and> (if c then X \<and> Y \<and> Z else W)
     \<Longrightarrow> c \<Longrightarrow> X \<and> Z"
  by simp

lemma conj10_if_False:
  "P1 \<and> P2 \<and> P3 \<and> P4 \<and> P5 \<and> P6 \<and> P7 \<and> P8 \<and> P9 \<and> (if c then X \<and> Y \<and> Z else W)
     \<Longrightarrow> \<not> c \<Longrightarrow> W"
  by simp

lemma limitUpdate_read_twice:
  "remoteBidirectionalStreamLimitUpdate_mem m = Some v \<Longrightarrow>
     fst (remoteBidirectionalStreamLimitUpdate m) = Some v
     \<and> fst (remoteBidirectionalStreamLimitUpdate (snd (remoteBidirectionalStreamLimitUpdate m))) = None"
  by (simp add: remoteBidirectionalStreamLimitUpdate_def)

text \<open>
  Claim C6. Take a peer stream \<open>sid\<close> that has a state record and a priority entry, on a
  manager with a positive windowing fraction whose limits are consistent (the maximum
  remote id is not below the initial one, the openable and the open streams together do
  not exceed the initial stream limit, and the stream counts stay within
  \<open>kMaxMaxStreams < 2^64\<close>, so no unsigned operation wraps). Then \<open>removeClosedStream\<close>
  returns normally, the stream has no state and is erased from the open set, and with
  \<open>streamCredit = initialStreamLimit - openableRemote - |openPeerStreams|\<close> (the open set
  taken after the erasure): when \<open>streamCredit \<ge> initialStreamLimit div fraction\<close> the
  maximum number of remote streams grows by \<open>streamCredit\<close> and the MAX_STREAMS update
  carries the new maximum; otherwise neither the maximum nor the pending update changes.
  In particular, on a server manager with an initial limit of 100 and fraction 4,
  opening the bidirectional peer streams \<open>0, 4, \<dots>, 396\<close> and then closing
  \<open>0, 4, \<dots>, 96\<close> leaves the update \<open>125\<close>, and a second read returns none.
\<close>

theorem removeClosedStream_stream_credit:
  "(isRemoteStream (nodeType m) sid \<and> streams m sid = Some it \<and> streamPriorityLevels m sid = Some l
     \<and> 0 < streamLimitWindowingFraction m
     \<and> peerInitialStreamId m sid \<le> peerMaxStreamId m sid
     \<and> peerOpenableStreams m sid + card (peerOpenStreams m sid - {sid}) \<le> peerInitialStreamLimit m sid
     \<and> (peerMaxStreamId m sid - peerInitialStreamId m sid) div 4 + peerInitialStreamLimit m sid
           \<le> maxMaxStreams
     \<and> maxMaxStreams < 2 ^ 64
    \<longrightarrow>
     (case removeClosedStream maxMaxStreams m sid of
        Inl e \<Rightarrow> False
      | Inr m' \<Rightarrow>
         (let streamCredit = peerInitialStreamLimit m sid - peerOpenableStreams m sid
                               - card (peerOpenStreams m sid - {sid})
          in streams m' sid = None
           \<and> peerOpenStreams m' sid = peerOpenStreams m sid - {sid}
           \<and> (if peerInitialStreamLimit m sid div streamLimitWindowingFraction m \<le> streamCredit
               then (peerMaxStreamId m' sid - peerInitialStreamId m sid) div 4
                      = (peerMaxStreamId m sid - peerInitialStreamId m sid) div 4 + streamCredit
                  \<and> peerStreamLimitUpdate m' sid
                      = Some ((peerMaxStreamId m sid - peerInitialStreamId m sid) div 4 + streamCredit)
               else peerMaxStreamId m' sid = peerMaxStreamId m sid
                  \<and> peerStreamLimitUpdate m' sid = peerStreamLimitUpdate m sid))))
   \<and> (200 \<le> maxMaxStreams \<and> maxMaxStreams < 2 ^ 64 \<longrightarrow>
       (case getStreams p (serverManager 100 4) (map (\<lambda>i. 4 * i) [0..<100]) of
          Inl e \<Rightarrow> False
        | Inr m1 \<Rightarrow>
           (case removeClosedStreams maxMaxStreams m1 (map (\<lambda>i. 4 * i) [0..<25]) of
              Inl e \<Rightarrow> False
            | Inr m2 \<Rightarrow>
                fst (remoteBidirectionalStreamLimitUpdate m2) = Some 125
              \<and> fst (remoteBidirectionalStreamLimitUpdate
                        (snd (remoteBidirectionalStreamLimitUpdate m2))) = None)))"
proof (intro conjI impI)
  assume h: "isRemoteStream (nodeType m) sid \<and> streams m sid = Some it \<and> streamPriorityLevels m sid = Some l
     \<and> 0 < streamLimitWindowingFraction m
     \<and> peerInitialStreamId m sid \<le> peerMaxStreamId m sid
     \<and> peerOpenableStreams m sid + card (peerOpenStreams m sid - {sid}) \<le> peerInitialStreamLimit m sid
     \<and> (peerMaxStreamId m sid - peerInitialStreamId m sid) div 4 + peerInitialStreamLimit m sid
           \<le> maxMaxStreams
     \<and> maxMaxStreams < 2 ^ 64"
  let ?e = "erasedPeerStream m sid it"
  define m6 where "m6 = projr (removeClosedStream_limitUpdate maxMaxStreams ?e sid)"
  have a1: "peerInitialStreamId ?e sid \<le> peerMaxStreamId ?e sid"
    using h by (simp add: erasedPeerStream_fields)
  have a2: "peerOpenableStreams ?e sid + card (peerOpenStreams ?e sid) \<le> peerInitialStreamLimit ?e sid"
    using h by (simp add: erasedPeerStream_fields)
  have a3: "(peerMaxStreamId ?e sid - peerInitialStreamId ?e sid) div 4 + peerInitialStreamLimit ?e sid
              \<le> maxMaxStreams"
    using h by (simp add: erasedPeerStream_fields)
  have a4: "maxMaxStreams < 2 ^ 64" using h by (elim conjE)
  note lu = limitUpdate_nowrap[OF a1 a2 a3 a4, folded m6_def, unfolded erasedPeerStream_fields]
  have r: "isRemoteStream (nodeType m) sid" and st: "streams m sid = Some it"
    and pl: "streamPriorityLevels m sid = Some l"
    using h by blast+
  have m6: "removeClosedStream_limitUpdate maxMaxStreams ?e sid = Inr m6"
    using lu by (rule conjunct1)
  have res: "removeClosedStream maxMaxStreams m sid = Inr (updateAppIdleState m6)"
    by (simp add: removeClosedStream_peer_eq[OF r st pl] m6)
  have s0: "streams m6 = (streams m)(sid := None)"
    using lu[THEN conjunct2, THEN conjunct2] by (rule conjunct1)
  have s: "streams (updateAppIdleState m6) sid = None"
    by (simp add: updateAppIdleState_fields s0)
  have o0: "peerOpenStreams m6 sid = peerOpenStreams m sid - {sid}"
    using lu[THEN conjunct2, THEN conjunct2, THEN conjunct2, THEN conjunct2] by (rule conjunct1)
  have o: "peerOpenStreams (updateAppIdleState m6) sid = peerOpenStreams m sid - {sid}"
    by (simp add: updateAppIdleState_fields o0)
  show "case removeClosedStream maxMaxStreams m sid of
        Inl e \<Rightarrow> False
      | Inr m' \<Rightarrow>
         (let streamCredit = peerInitialStreamLimit m sid - peerOpenableStreams m sid
                               - card (peerOpenStreams m sid - {sid})
          in streams m' sid = None
           \<and> peerOpenStreams m' sid = peerOpenStreams m sid - {sid}
           \<and> (if peerInitialStreamLimit m sid div streamLimitWindowingFraction m \<le> streamCredit
               then (peerMaxStreamId m' sid - peerInitialStreamId m sid) div 4
                      = (peerMaxStreamId m sid - peerInitialStreamId m sid) div 4 + streamCredit
                  \<and> peerStreamLimitUpdate m' sid
                      = Some ((peerMaxStreamId m sid - peerInitialStreamId m sid) div 4 + streamCredit)
               else peerMaxStreamId m' sid = peerMaxStreamId m sid
                  \<and> peerStreamLimitUpdate m' sid = peerStreamLimitUpdate m sid))"
  proof (cases "peerInitialStreamLimit m sid div streamLimitWindowingFraction m
                  \<le> peerInitialStreamLimit m sid - peerOpenableStreams m sid
                               - card (peerOpenStreams m sid - {sid})")
    case True
    note xz = conj10_if_True[OF lu True]
    have "(peerMaxStreamId m6 sid - peerInitialStreamId m sid) div 4
                 = (peerMaxStreamId m sid - peerInitialStreamId m sid) div 4
                   + (peerInitialStreamLimit m sid - peerOpenableStreams m sid - card (peerOpenStreams m sid - {sid}))"
      "peerStreamLimitUpdate m6 sid
                 = Some ((peerMaxStreamId m sid - peerInitialStreamId m sid) div 4
                   + (peerInitialStreamLimit m sid - peerOpenableStreams m sid - card (peerOpenStreams m sid - {sid})))"
      using xz by (rule conjunct1, rule conjunct2)
    then have "(peerMaxStreamId (updateAppIdleState m6) sid - peerInitialStreamId m sid) div 4
                 = (peerMaxStreamId m sid - peerInitialStreamId m sid) div 4
                   + (peerInitialStreamLimit m sid - peerOpenableStreams m sid - card (peerOpenStreams m sid - {sid}))"
      "peerStreamLimitUpdate (updateAppIdleState m6) sid
                 = Some ((peerMaxStreamId m sid - peerInitialStreamId m sid) div 4
                   + (peerInitialStreamLimit m sid - peerOpenableStreams m sid - card (peerOpenStreams m sid - {sid})))"
      by (simp_all only: updateAppIdleState_fields)
    then show ?thesis using True s o
      unfolding res by (simp only: sum.case Let_def if_True simp_thms)
  next
    case False
    have "m6 = ?e" using lu False by (rule conj10_if_False)
    then have "peerMaxStreamId (updateAppIdleState m6) sid = peerMaxStreamId m sid"
      "peerStreamLimitUpdate (updateAppIdleState m6) sid = peerStreamLimitUpdate m sid"
      by (simp_all only: updateAppIdleState_fields erasedPeerStream_fields)
    then show ?thesis using False s o
      unfolding res by (simp only: sum.case Let_def if_False simp_thms)
  qed
next
  assume k: "200 \<le> maxMaxStreams \<and> maxMaxStreams < 2 ^ 64"
  have k1: "200 \<le> maxMaxStreams" using k by (rule conjunct1)
  have k2: "maxMaxStreams < 2 ^ 64" using k by (rule conjunct2)
  from window_scenario[OF k1 k2, of p] obtain m1 m2 where
    g1: "getStreams p (serverManager 100 4) (map (\<lambda>i. 4 * i) [0..<100]) = Inr m1" and
    g2: "removeClosedStreams maxMaxStreams m1 (map (\<lambda>i. 4 * i) [0..<25]) = Inr m2" and
    u: "remoteBidirectionalStreamLimitUpdate_mem m2 = Some 125" by blast
  show "case getStreams p (serverManager 100 4) (map (\<lambda>i. 4 * i) [0..<100]) of
          Inl e \<Rightarrow> False
        | Inr m1 \<Rightarrow>
           (case removeClosedStreams maxMaxStreams m1 (map (\<lambda>i. 4 * i) [0..<25]) of
              Inl e \<Rightarrow> False
            | Inr m2 \<Rightarrow>
                fst (remoteBidirectionalStreamLimitUpdate m2) = Some 125
              \<and> fst (remoteBidirectionalStreamLimitUpdate
                        (snd (remoteBidirectionalStreamLimitUpdate m2))) = None)"
    unfolding g1 g2 sum.case by (rule limitUpdate_read_twice[OF u])
qed

lemma managerW_simps:
  "isRemoteStream (nodeType managerW) 0"
  "streams managerW 0 = Some (newQuicStreamState priority0 0)"
  "streamPriorityLevels managerW 0 = Some 3"
  "streamLimitWindowingFraction managerW = 2"
  "peerInitialStreamId managerW 0 = 0"
  "peerMaxStreamId managerW 0 = 16"
  "peerOpenableStreams managerW 0 = 1"
  "peerOpenStreams managerW 0 = {0}"
  "peerInitialStreamLimit managerW 0 = 4"
  by (simp_all add: managerW_def serverManager_def isRemoteStream_def isClientStream_def
      isUnidirectionalStream_def peerInitialStreamId_def peerMaxStreamId_def peerOpenableStreams_def
      peerOpenStreams_def peerInitialStreamLimit_def openableRemoteBidirectionalStreams_def
      kStreamIncrement_def)

theorem removeClosedStream_stream_credit_witness:
  "(case removeClosedStream 1000 managerW 0 of
      Inl e \<Rightarrow> False
    | Inr m' \<Rightarrow> streams m' 0 = None \<and> peerOpenStreams m' 0 = {}
        \<and> (peerMaxStreamId m' 0 - 0) div 4 = 7 \<and> peerStreamLimitUpdate m' 0 = Some 7)
   \<and> (case getStreams priority0 (serverManager 100 4) (map (\<lambda>i. 4 * i) [0..<100]) of
          Inl e \<Rightarrow> False
        | Inr m1 \<Rightarrow>
           (case removeClosedStreams 1000 m1 (map (\<lambda>i. 4 * i) [0..<25]) of
              Inl e \<Rightarrow> False
            | Inr m2 \<Rightarrow>
                fst (remoteBidirectionalStreamLimitUpdate m2) = Some 125
              \<and> fst (remoteBidirectionalStreamLimitUpdate
                        (snd (remoteBidirectionalStreamLimitUpdate m2))) = None))"
proof (rule conjI)
  have hyp: "isRemoteStream (nodeType managerW) 0
     \<and> streams managerW 0 = Some (newQuicStreamState priority0 0)
     \<and> streamPriorityLevels managerW 0 = Some 3
     \<and> 0 < streamLimitWindowingFraction managerW
     \<and> peerInitialStreamId managerW 0 \<le> peerMaxStreamId managerW 0
     \<and> peerOpenableStreams managerW 0 + card (peerOpenStreams managerW 0 - {0})
           \<le> peerInitialStreamLimit managerW 0
     \<and> (peerMaxStreamId managerW 0 - peerInitialStreamId managerW 0) div 4
           + peerInitialStreamLimit managerW 0 \<le> 1000
     \<and> (1000::nat) < 2 ^ 64"
    by (simp add: managerW_simps)
  note t = removeClosedStream_stream_credit [where m = managerW and sid = 0
      and it = "newQuicStreamState priority0 0" and l = 3 and maxMaxStreams = 1000
      and p = priority0, THEN conjunct1, THEN mp, OF hyp]
  then show "case removeClosedStream 1000 managerW 0 of
      Inl e \<Rightarrow> False
    | Inr m' \<Rightarrow> streams m' 0 = None \<and> peerOpenStreams m' 0 = {}
        \<and> (peerMaxStreamId m' 0 - 0) div 4 = 7 \<and> peerStreamLimitUpdate m' 0 = Some 7"
    by (simp add: managerW_simps split: sum.splits)
next
  have hyp: "200 \<le> (1000::nat) \<and> (1000::nat) < 2 ^ 64" by simp
  show "case getStreams priority0 (serverManager 100 4) (map (\<lambda>i. 4 * i) [0..<100]) of
          Inl e \<Rightarrow> False
        | Inr m1 \<Rightarrow>
           (case removeClosedStreams 1000 m1 (map (\<lambda>i. 4 * i) [0..<25]) of
              Inl e \<Rightarrow> False
            | Inr m2 \<Rightarrow>
                fst (remoteBidirectionalStreamLimitUpdate m2) = Some 125
              \<and> fst (remoteBidirectionalStreamLimitUpdate
                        (snd (remoteBidirectionalStreamLimitUpdate m2))) = None)"
    by (rule removeClosedStream_stream_credit [where maxMaxStreams = 1000 and p = priority0,
          THEN conjunct2, THEN mp, OF hyp])
qed

section \<open>Parsing of transport knobs\<close>
















section \<open>The 1-RTT write cipher is installed once\<close>

lemma d6d_keeps:
  "oneRttWriteCipher (processClientInitialParams_d6d env now conn cp mx) = oneRttWriteCipher conn"
  "readCodec (processClientInitialParams_d6d env now conn cp mx) = readCodec conn"
  by (simp_all add: processClientInitialParams_d6d_def Let_def split: option.splits)

lemma apply_keeps:
  assumes "processClientInitialParams_apply env now conn cp = Inr conn'"
  shows "oneRttWriteCipher conn' = oneRttWriteCipher conn \<and> readCodec conn' = readCodec conn"
  using assms
  by (auto simp add: processClientInitialParams_apply_def Let_def d6d_keeps throwTransport_def
      split: sum.splits option.splits if_splits prod.splits)

lemma params_keeps:
  assumes "processClientInitialParams env now conn cp = Inr conn'"
  shows "oneRttWriteCipher conn' = oneRttWriteCipher conn \<and> readCodec conn' = readCodec conn"
  using assms apply_keeps[of env now conn cp conn']
  by (simp add: processClientInitialParams_def throwTransport_def split: if_splits)

lemma withReadCodec_Inr:
  "withReadCodec conn setter = Inr conn'
    \<Longrightarrow> readCodec conn \<noteq> None \<and> readCodec conn' \<noteq> None
      \<and> oneRttWriteCipher conn' = oneRttWriteCipher conn"
  by (auto simp add: withReadCodec_def split: option.splits)

lemma withReadCodec_Inl:
  "withReadCodec conn setter = Inl e \<Longrightarrow> readCodec conn = None"
  by (auto simp add: withReadCodec_def split: option.splits)

lemma headerCiphers_success:
  assumes "updateHandshakeState_headerCiphers hs conn = Inr conn'"
  shows "oneRttWriteCipher conn' = oneRttWriteCipher conn
       \<and> (readCodec conn \<noteq> None \<longrightarrow> readCodec conn' \<noteq> None)"
  using assms
  by (auto simp add: updateHandshakeState_headerCiphers_def Let_def
      split: if_splits sum.splits dest!: withReadCodec_Inr)

lemma headerCiphers_total:
  assumes "readCodec conn \<noteq> None
        \<or> (getZeroRttReadCipher hs = None \<and> getZeroRttReadHeaderCipher hs = None
           \<and> getOneRttReadHeaderCipher hs = None)"
  shows "\<not> isl (updateHandshakeState_headerCiphers hs conn)"
  using assms
  by (auto simp add: updateHandshakeState_headerCiphers_def Let_def withReadCodec_def
      split: if_splits sum.splits option.splits)

lemma oneRttWriteCipher_duplicate:
  "getOneRttWriteCipher hs \<noteq> None \<Longrightarrow> oneRttWriteCipher conn \<noteq> None
    \<Longrightarrow> updateHandshakeState_oneRttWriteCipher env now hs conn
        = Inl (Thrown (QuicTransportException ''Duplicate 1-rtt write cipher'' CRYPTO_ERROR), conn)"
  by (simp add: updateHandshakeState_oneRttWriteCipher_def throwTransport_def)

lemma oneRttWriteCipher_success:
  assumes "updateHandshakeState_oneRttWriteCipher env now hs conn = Inr conn'"
  shows "(readCodec conn \<noteq> None \<longrightarrow> readCodec conn' \<noteq> None)
       \<and> (case getOneRttWriteCipher hs of
            None \<Rightarrow> oneRttWriteCipher conn' = oneRttWriteCipher conn
          | Some c \<Rightarrow> oneRttWriteCipher conn = None \<and> oneRttWriteCipher conn' = Some c)"
proof (cases "getOneRttWriteCipher hs")
  case None
  then have "conn' = conn" using assms by (simp add: updateHandshakeState_oneRttWriteCipher_def)
  then show ?thesis using None by simp
next
  case (Some c)
  have n: "oneRttWriteCipher conn = None"
    using assms Some
    by (auto simp add: updateHandshakeState_oneRttWriteCipher_def throwTransport_def
        split: if_splits)
  then obtain cp where cp: "getClientTransportParams hs = Some cp"
    and p: "processClientInitialParams env now
              (conn\<lparr>oneRttWriteCipher := Some c,
                    canBePaced := updatePacingOnKeyEstablished env (canBePaced conn)\<rparr>) cp = Inr conn'"
    using assms Some
    by (auto simp add: updateHandshakeState_oneRttWriteCipher_def throwTransport_def Let_def
        split: option.splits)
  from params_keeps[OF p] show ?thesis using Some n by simp
qed

lemma readCiphers_success:
  assumes "updateHandshakeState_readCiphers hs conn = Inr conn'"
  shows "oneRttWriteCipher conn' = oneRttWriteCipher conn
       \<and> (readCodec conn \<noteq> None \<longrightarrow> readCodec conn' \<noteq> None)"
  using assms
  by (auto simp add: updateHandshakeState_readCiphers_def Let_def
      split: if_splits sum.splits dest!: withReadCodec_Inr)

lemma updateHandshakeState_duplicate:
  assumes "getOneRttWriteCipher hs \<noteq> None" and "oneRttWriteCipher conn \<noteq> None"
    and "readCodec conn \<noteq> None
        \<or> (getZeroRttReadCipher hs = None \<and> getZeroRttReadHeaderCipher hs = None
           \<and> getOneRttReadHeaderCipher hs = None)"
  shows "\<exists>conn'. updateHandshakeState env now hs conn =
            Inl (Thrown (QuicTransportException ''Duplicate 1-rtt write cipher'' CRYPTO_ERROR), conn')
          \<and> oneRttWriteCipher conn' = oneRttWriteCipher conn"
proof -
  from headerCiphers_total[OF assms(3)] obtain conn1 where
    h: "updateHandshakeState_headerCiphers hs conn = Inr conn1"
    by (cases "updateHandshakeState_headerCiphers hs conn") auto
  from headerCiphers_success[OF h] have k: "oneRttWriteCipher conn1 = oneRttWriteCipher conn"
    by blast
  then have "oneRttWriteCipher conn1 \<noteq> None" using assms(2) by simp
  from oneRttWriteCipher_duplicate[OF assms(1) this]
  show ?thesis using k by (simp add: updateHandshakeState_def h)
qed

lemma updateHandshakeState_success:
  assumes "updateHandshakeState env now hs conn = Inr conn'"
  shows "(readCodec conn \<noteq> None \<longrightarrow> readCodec conn' \<noteq> None)
       \<and> (case getOneRttWriteCipher hs of
            None \<Rightarrow> oneRttWriteCipher conn' = oneRttWriteCipher conn
          | Some c \<Rightarrow> oneRttWriteCipher conn = None \<and> oneRttWriteCipher conn' = Some c)"
proof -
  from assms obtain conn1 conn2 where
    h: "updateHandshakeState_headerCiphers hs conn = Inr conn1"
    and w: "updateHandshakeState_oneRttWriteCipher env now hs conn1 = Inr conn2"
    and r: "updateHandshakeState_readCiphers hs conn2 = Inr conn'"
    by (auto simp add: updateHandshakeState_def split: sum.splits)
  from headerCiphers_success[OF h] oneRttWriteCipher_success[OF w] readCiphers_success[OF r]
  show ?thesis by (auto split: option.splits)
qed

text \<open>
  Claim C1. \<open>updateHandshakeState\<close> installs the 1-RTT write cipher at most once. When
  the handshake layer yields a 1-RTT write cipher and the connection already holds one,
  the call ends in the exception \<open>Duplicate 1-rtt write cipher\<close> with the code
  \<open>CRYPTO_ERROR\<close>, and the installed cipher is untouched; this is for a connection that
  has its read codec, as every connection has after its first packet, or a call in which
  the handshake layer gives no cipher that is stored through the read codec before the
  write cipher is looked at. A call that ends normally either leaves the cipher as it
  was (the handshake layer gave none) or installs the given one into an empty slot.
  Over two calls that both get a cipher from the handshake layer, on a connection with
  its read codec: when the first ends normally, the second ends in that
  \<open>CRYPTO_ERROR\<close>, so two calls in a row never both end normally.
\<close>

theorem updateHandshakeState_oneRttWriteCipher_once:
  "(getOneRttWriteCipher hs \<noteq> None \<and> oneRttWriteCipher conn \<noteq> None
      \<and> (readCodec conn \<noteq> None
         \<or> (getZeroRttReadCipher hs = None \<and> getZeroRttReadHeaderCipher hs = None
            \<and> getOneRttReadHeaderCipher hs = None))
     \<longrightarrow> (case updateHandshakeState env now hs conn of
            Inl (f, conn') \<Rightarrow>
              f = Thrown (QuicTransportException ''Duplicate 1-rtt write cipher'' CRYPTO_ERROR)
              \<and> oneRttWriteCipher conn' = oneRttWriteCipher conn
          | Inr conn' \<Rightarrow> False))
   \<and> (case updateHandshakeState env now hs conn of
         Inl e \<Rightarrow> True
       | Inr conn' \<Rightarrow>
          (case getOneRttWriteCipher hs of
             None \<Rightarrow> oneRttWriteCipher conn' = oneRttWriteCipher conn
           | Some c \<Rightarrow> oneRttWriteCipher conn = None \<and> oneRttWriteCipher conn' = Some c))
   \<and> (getOneRttWriteCipher hs1 \<noteq> None \<and> getOneRttWriteCipher hs2 \<noteq> None
      \<and> readCodec conn \<noteq> None
     \<longrightarrow> (case updateHandshakeState env now1 hs1 conn of
            Inl e \<Rightarrow> True
          | Inr conn1 \<Rightarrow>
             (case updateHandshakeState env now2 hs2 conn1 of
                Inl (f, conn2) \<Rightarrow>
                  f = Thrown (QuicTransportException ''Duplicate 1-rtt write cipher'' CRYPTO_ERROR)
              | Inr conn2 \<Rightarrow> False))
        \<and> (case updateHandshakeStateTwice env now1 hs1 now2 hs2 conn of
              Inl e \<Rightarrow> True | Inr conn2 \<Rightarrow> False))"
proof (intro conjI impI)
  assume "getOneRttWriteCipher hs \<noteq> None \<and> oneRttWriteCipher conn \<noteq> None
      \<and> (readCodec conn \<noteq> None
         \<or> (getZeroRttReadCipher hs = None \<and> getZeroRttReadHeaderCipher hs = None
            \<and> getOneRttReadHeaderCipher hs = None))"
  then obtain conn' where "updateHandshakeState env now hs conn =
            Inl (Thrown (QuicTransportException ''Duplicate 1-rtt write cipher'' CRYPTO_ERROR), conn')"
      "oneRttWriteCipher conn' = oneRttWriteCipher conn"
    using updateHandshakeState_duplicate[of hs conn env now] by blast
  then show "case updateHandshakeState env now hs conn of
            Inl (f, conn') \<Rightarrow>
              f = Thrown (QuicTransportException ''Duplicate 1-rtt write cipher'' CRYPTO_ERROR)
              \<and> oneRttWriteCipher conn' = oneRttWriteCipher conn
          | Inr conn' \<Rightarrow> False"
    by simp
next
  show "case updateHandshakeState env now hs conn of
         Inl e \<Rightarrow> True
       | Inr conn' \<Rightarrow>
          (case getOneRttWriteCipher hs of
             None \<Rightarrow> oneRttWriteCipher conn' = oneRttWriteCipher conn
           | Some c \<Rightarrow> oneRttWriteCipher conn = None \<and> oneRttWriteCipher conn' = Some c)"
    using updateHandshakeState_success[of env now hs conn]
    by (cases "updateHandshakeState env now hs conn") simp_all
next
  assume h: "getOneRttWriteCipher hs1 \<noteq> None \<and> getOneRttWriteCipher hs2 \<noteq> None
      \<and> readCodec conn \<noteq> None"
  show t: "case updateHandshakeState env now1 hs1 conn of
            Inl e \<Rightarrow> True
          | Inr conn1 \<Rightarrow>
             (case updateHandshakeState env now2 hs2 conn1 of
                Inl (f, conn2) \<Rightarrow>
                  f = Thrown (QuicTransportException ''Duplicate 1-rtt write cipher'' CRYPTO_ERROR)
              | Inr conn2 \<Rightarrow> False)"
  proof (cases "updateHandshakeState env now1 hs1 conn")
    case (Inl e)
    then show ?thesis by simp
  next
    case (Inr conn1)
    from updateHandshakeState_success[OF Inr] h
    have "readCodec conn1 \<noteq> None" "oneRttWriteCipher conn1 \<noteq> None" by auto
    with h obtain conn2 where "updateHandshakeState env now2 hs2 conn1 =
            Inl (Thrown (QuicTransportException ''Duplicate 1-rtt write cipher'' CRYPTO_ERROR), conn2)"
      using updateHandshakeState_duplicate[of hs2 conn1 env now2] by blast
    then show ?thesis using Inr by simp
  qed
  then show "case updateHandshakeStateTwice env now1 hs1 now2 hs2 conn of
              Inl e \<Rightarrow> True | Inr conn2 \<Rightarrow> False"
    by (auto simp add: updateHandshakeStateTwice_def split: sum.splits)
qed

lemma serverConn0_first:
  "\<not> isl (updateHandshakeState serverEnv0 5 handshake0 serverConn0)"
  by (simp add: updateHandshakeState_def updateHandshakeState_headerCiphers_def
      updateHandshakeState_oneRttWriteCipher_def updateHandshakeState_readCiphers_def
      withReadCodec_def handshake0_def serverConn0_def serverEnv0_def
      QuicConnectionStateBase.extend_def conn0_def readCodec0_def clientParams0_def
      processClientInitialParams_def processClientInitialParams_apply_def
      processClientInitialParams_d6d_def nonzero_def value_or_def Let_def
      setMaxLocalBidirectionalStreams_def setMaxLocalUnidirectionalStreams_def
      serverManager_def throwTransport_def kStreamIncrement_def)

text \<open>On the example connection: with a cipher already installed the call throws; from
  the empty slot the first call installs cipher \<open>11\<close> and the second call throws.\<close>

theorem updateHandshakeState_oneRttWriteCipher_once_witness:
  "(case updateHandshakeState serverEnv0 5 handshake0 (serverConn0\<lparr>oneRttWriteCipher := Some 9\<rparr>) of
      Inl (f, conn') \<Rightarrow>
        f = Thrown (QuicTransportException ''Duplicate 1-rtt write cipher'' CRYPTO_ERROR)
        \<and> oneRttWriteCipher conn' = Some 9
    | Inr conn' \<Rightarrow> False)
   \<and> (case updateHandshakeState serverEnv0 5 handshake0 serverConn0 of
        Inl e \<Rightarrow> False
      | Inr conn1 \<Rightarrow> oneRttWriteCipher conn1 = Some 11
          \<and> (case updateHandshakeState serverEnv0 6 handshake0 conn1 of
               Inl (f, conn2) \<Rightarrow>
                 f = Thrown (QuicTransportException ''Duplicate 1-rtt write cipher'' CRYPTO_ERROR)
             | Inr conn2 \<Rightarrow> False))"
proof (rule conjI)
  have hyp: "getOneRttWriteCipher handshake0 \<noteq> None
      \<and> oneRttWriteCipher (serverConn0\<lparr>oneRttWriteCipher := Some 9\<rparr>) \<noteq> None
      \<and> (readCodec (serverConn0\<lparr>oneRttWriteCipher := Some 9\<rparr>) \<noteq> None
         \<or> (getZeroRttReadCipher handshake0 = None \<and> getZeroRttReadHeaderCipher handshake0 = None
            \<and> getOneRttReadHeaderCipher handshake0 = None))"
    by (simp add: handshake0_def serverConn0_def QuicConnectionStateBase.extend_def)
  show "case updateHandshakeState serverEnv0 5 handshake0 (serverConn0\<lparr>oneRttWriteCipher := Some 9\<rparr>) of
      Inl (f, conn') \<Rightarrow>
        f = Thrown (QuicTransportException ''Duplicate 1-rtt write cipher'' CRYPTO_ERROR)
        \<and> oneRttWriteCipher conn' = Some 9
    | Inr conn' \<Rightarrow> False"
    using updateHandshakeState_oneRttWriteCipher_once
       [where env = serverEnv0 and now = 5 and hs = handshake0
          and conn = "serverConn0\<lparr>oneRttWriteCipher := Some 9\<rparr>", THEN conjunct1, THEN mp, OF hyp]
    by (simp split: sum.splits prod.splits)
next
  have hyp: "getOneRttWriteCipher handshake0 \<noteq> None \<and> getOneRttWriteCipher handshake0 \<noteq> None
      \<and> readCodec serverConn0 \<noteq> None"
    by (simp add: handshake0_def serverConn0_def QuicConnectionStateBase.extend_def)
  have c: "getOneRttWriteCipher handshake0 = Some 11"
    by (simp add: handshake0_def)
  note t = updateHandshakeState_oneRttWriteCipher_once
       [where env = serverEnv0 and now = 5 and hs = handshake0 and conn = serverConn0
          and ?now1.0 = 5 and ?hs1.0 = handshake0 and ?now2.0 = 6 and ?hs2.0 = handshake0]
  show "case updateHandshakeState serverEnv0 5 handshake0 serverConn0 of
        Inl e \<Rightarrow> False
      | Inr conn1 \<Rightarrow> oneRttWriteCipher conn1 = Some 11
          \<and> (case updateHandshakeState serverEnv0 6 handshake0 conn1 of
               Inl (f, conn2) \<Rightarrow>
                 f = Thrown (QuicTransportException ''Duplicate 1-rtt write cipher'' CRYPTO_ERROR)
             | Inr conn2 \<Rightarrow> False)"
    using t [THEN conjunct2, THEN conjunct1]
          t [THEN conjunct2, THEN conjunct2, THEN mp, OF hyp, THEN conjunct1]
          serverConn0_first
    by (cases "updateHandshakeState serverEnv0 5 handshake0 serverConn0") (simp_all add: c)
qed

section \<open>Packets from a new address and the migration limit\<close>

lemma resetCongestionAndRttState_numMigrations:
  "resetCongestionAndRttState env conn = Inr conn'
    \<Longrightarrow> numMigrations (migrationState conn') = numMigrations (migrationState conn)"
  by (auto simp add: resetCongestionAndRttState_def split: option.splits)

lemma recoverOrResetCongestionAndRttState_numMigrations:
  "recoverOrResetCongestionAndRttState env now conn peerAddr = Inr conn'
    \<Longrightarrow> numMigrations (migrationState conn') = numMigrations (migrationState conn)"
  by (auto simp add: recoverOrResetCongestionAndRttState_def
      dest: resetCongestionAndRttState_numMigrations split: option.splits if_splits)

lemma onConnectionMigration_limit:
  "kMaxNumMigrationsAllowed env \<le> numMigrations (migrationState conn)
    \<Longrightarrow> onConnectionMigration env now pathData conn newPeerAddress isIntentional
        = Inl (Thrown (QuicTransportException ''Too many migrations'' INVALID_MIGRATION), conn)"
  by (simp add: onConnectionMigration_def throwTransport_def)

lemma onConnectionMigration_success:
  assumes "onConnectionMigration env now pathData conn newPeerAddress isIntentional = Inr conn'"
  shows "numMigrations (migrationState conn) < kMaxNumMigrationsAllowed env
       \<and> numMigrations (migrationState conn') = numMigrations (migrationState conn) + 1
       \<and> peerAddress conn' = newPeerAddress"
proof -
  have lt: "numMigrations (migrationState conn) < kMaxNumMigrationsAllowed env"
    using assms by (auto simp add: onConnectionMigration_def throwTransport_def split: if_splits)
  define conn3 where "conn3 =
     (let conn1 = conn\<lparr>migrationState := (migrationState conn)
                      \<lparr>numMigrations := numMigrations (migrationState conn) + 1\<rparr>\<rparr>;
          conn2 = conn1\<lparr>pendingEvents := (pendingEvents conn1)\<lparr>pathChallenge := None\<rparr>\<rparr>
      in (if newPeerAddress \<notin> set (previousPeerAddresses (migrationState conn2))
               then conn2\<lparr>pendingEvents := (pendingEvents conn2)\<lparr>pathChallenge := Some pathData\<rparr>,
                          pathValidationLimiter := Some (udpSendPacketLen conn2)\<rparr>
               else conn2\<lparr>migrationState := (migrationState conn2)
                      \<lparr>previousPeerAddresses :=
                         remove1 newPeerAddress (previousPeerAddresses (migrationState conn2))\<rparr>\<rparr>))"
  have n3: "numMigrations (migrationState conn3) = numMigrations (migrationState conn) + 1"
    by (simp add: conn3_def Let_def)
  define r where "r =
              (if pathChallenge (pendingEvents conn) \<noteq> None \<or> outstandingPathValidation conn3 \<noteq> None
               then (let conn4 = conn3\<lparr>pendingEvents := (pendingEvents conn3)
                                       \<lparr>schedulePathValidationTimeout := False\<rparr>,
                                     outstandingPathValidation := None\<rparr>
                     in if \<not> maybeNATRebinding newPeerAddress (peerAddress conn3)
                        then recoverOrResetCongestionAndRttState env now conn4 newPeerAddress
                        else Inr conn4)
               else (let conn4 = conn3\<lparr>migrationState := (migrationState conn3)
                                   \<lparr>previousPeerAddresses :=
                                      previousPeerAddresses (migrationState conn3) @ [peerAddress conn3]\<rparr>\<rparr>
                     in if \<not> maybeNATRebinding newPeerAddress (peerAddress conn3)
                        then (let (st, conn5) = moveCurrentCongestionAndRttState now conn4
                              in case recoverOrResetCongestionAndRttState env now conn5 newPeerAddress of
                                   Inl e \<Rightarrow> Inl e
                                 | Inr conn6 \<Rightarrow>
                                     Inr (conn6\<lparr>migrationState := (migrationState conn6)
                                            \<lparr>lastCongestionAndRtt := Some st\<rparr>\<rparr>))
                        else Inr conn4))"
  have u: "onConnectionMigration env now pathData conn newPeerAddress isIntentional
         = (case r of Inl e \<Rightarrow> Inl e | Inr conn7 \<Rightarrow> Inr (conn7\<lparr>peerAddress := newPeerAddress\<rparr>))"
    using lt by (simp add: onConnectionMigration_def r_def conn3_def Let_def)
  from assms u obtain conn7 where r7: "r = Inr conn7" and c': "conn' = conn7\<lparr>peerAddress := newPeerAddress\<rparr>"
    by (cases r) auto
  have "numMigrations (migrationState conn7) = numMigrations (migrationState conn3)"
    using r7 unfolding r_def
    by (auto simp add: Let_def moveCurrentCongestionAndRttState_def
        dest!: recoverOrResetCongestionAndRttState_numMigrations
        split: if_splits sum.splits)
  with n3 c' lt show ?thesis by simp
qed

lemma onConnectionMigrations_count:
  "onConnectionMigrations env conn ms = Inr conn'
    \<Longrightarrow> numMigrations (migrationState conn') = numMigrations (migrationState conn) + length ms"
proof (induction ms arbitrary: conn)
  case Nil
  then show ?case by simp
next
  case (Cons a ms)
  obtain now pathData newPeerAddress isIntentional where a: "a = (now, pathData, newPeerAddress, isIntentional)"
    by (cases a) auto
  from Cons.prems obtain conn1 where
    s: "onConnectionMigration env now pathData conn newPeerAddress isIntentional = Inr conn1"
    and r: "onConnectionMigrations env conn1 ms = Inr conn'"
    unfolding a by (auto split: sum.splits)
  from onConnectionMigration_success[OF s] Cons.IH[OF r] show ?case by simp
qed

lemma packetChecks_peerAddress:
  "peerAddress (case onServerReadDataFromOpen_packetChecks env conn peer pkt of
                  Inl (f, conn') \<Rightarrow> conn' | Inr conn' \<Rightarrow> conn') = peerAddress conn"
  by (simp add: onServerReadDataFromOpen_packetChecks_def throwTransport_def Let_def)

lemma packetChecks_migration:
  assumes "frames pkt \<noteq> []"
    and "protectionType (header pkt) \<in> {ZeroRtt, KeyPhaseZero, KeyPhaseOne}
         \<or> set (frames pkt) \<subseteq> {PaddingFrame, ReadAckFrame, ConnectionCloseFrame, ReadCryptoFrame, PingFrame}"
    and "clientConnectionId conn \<noteq> None"
    and "version conn \<noteq> None \<or> isLongHeader (header pkt)"
    and "peerAddress conn \<noteq> peer"
    and "protectionTypeToEncryptionLevel env (protectionType (header pkt)) \<noteq> EL_AppData
         \<or> disableMigration (transportSettings conn)"
  shows "onServerReadDataFromOpen_packetChecks env conn peer pkt =
           Inl (Thrown (QuicTransportException
                  (if protectionTypeToEncryptionLevel env (protectionType (header pkt)) \<noteq> EL_AppData
                   then ''Migration not allowed during handshake'' else ''Migration disabled'')
                  INVALID_MIGRATION),
                if version conn = None
                then conn\<lparr>version := Some (longHeaderVersion (header pkt))\<rparr> else conn)"
proof -
  have f: "\<not> (\<not> (protectionType (header pkt) = ZeroRtt \<or> protectionType (header pkt) = KeyPhaseZero
                \<or> protectionType (header pkt) = KeyPhaseOne)
              \<and> list_ex (\<lambda>quicFrame. quicFrame \<noteq> PaddingFrame \<and> quicFrame \<noteq> ReadAckFrame
                      \<and> quicFrame \<noteq> ConnectionCloseFrame \<and> quicFrame \<noteq> ReadCryptoFrame
                      \<and> quicFrame \<noteq> PingFrame) (frames pkt))"
    using assms(2) by (auto simp add: list_ex_iff)
  show ?thesis
    using assms(1,3,4,5,6) f
    by (auto simp add: onServerReadDataFromOpen_packetChecks_def throwTransport_def Let_def)
qed

text \<open>A Handshake packet that carries a stream frame and comes from another address than
  the peer address: the check of the frames of an unprotected packet comes before the
  comparison of the addresses, and the exception is \<open>Invalid frame\<close> with the code
  \<open>PROTOCOL_VIOLATION\<close>, not \<open>INVALID_MIGRATION\<close>.\<close>

theorem packetChecks_invalid_frame_counterexample:
  "peerAddress serverConn0 \<noteq> address2
   \<and> protectionTypeToEncryptionLevel serverEnv0 (protectionType (header handshakeStreamPacket))
        \<noteq> EL_AppData
   \<and> onServerReadDataFromOpen_packetChecks serverEnv0 serverConn0 address2 handshakeStreamPacket
        = Inl (Thrown (QuicTransportException ''Invalid frame'' PROTOCOL_VIOLATION), serverConn0)"
  by (simp add: onServerReadDataFromOpen_packetChecks_def throwTransport_def Let_def
      serverConn0_def QuicConnectionStateBase.extend_def address1_def address2_def
      serverEnv0_def handshakeStreamPacket_def handshakeHeader_def)

text \<open>
  Claim C2, as amended. Take a packet that gets as far as the comparison of the
  addresses: it has a frame, it is protected or carries only padding, ack, close, crypto
  and ping frames, the client connection id is known, and the version is known or the
  header is a long one. When its source address differs from the peer address and its
  encryption level is not AppData or migration is disabled, the packet checks end in an
  exception with the code \<open>INVALID_MIGRATION\<close>. The checks never change the peer address,
  whatever the packet. \<open>onConnectionMigration\<close> throws \<open>Too many migrations\<close> with the
  code \<open>INVALID_MIGRATION\<close> and leaves the connection as it is once \<open>numMigrations\<close> has
  reached \<open>kMaxNumMigrationsAllowed\<close>; a migration that ends normally was below the
  limit, counts one more migration and commits the new address. So after
  \<open>N = kMaxNumMigrationsAllowed\<close> migrations that ended normally, starting from the count
  \<open>0\<close>, the next one fails.
\<close>

theorem onServerReadDataFromOpen_invalid_migration:
  "(frames pkt \<noteq> []
    \<and> (protectionType (header pkt) \<in> {ZeroRtt, KeyPhaseZero, KeyPhaseOne}
       \<or> set (frames pkt)
            \<subseteq> {PaddingFrame, ReadAckFrame, ConnectionCloseFrame, ReadCryptoFrame, PingFrame})
    \<and> clientConnectionId conn \<noteq> None
    \<and> (version conn \<noteq> None \<or> isLongHeader (header pkt))
    \<and> peerAddress conn \<noteq> peer
    \<and> (protectionTypeToEncryptionLevel env (protectionType (header pkt)) \<noteq> EL_AppData
       \<or> disableMigration (transportSettings conn))
    \<longrightarrow> onServerReadDataFromOpen_packetChecks env conn peer pkt =
           Inl (Thrown (QuicTransportException
                  (if protectionTypeToEncryptionLevel env (protectionType (header pkt)) \<noteq> EL_AppData
                   then ''Migration not allowed during handshake'' else ''Migration disabled'')
                  INVALID_MIGRATION),
                if version conn = None
                then conn\<lparr>version := Some (longHeaderVersion (header pkt))\<rparr> else conn))
   \<and> peerAddress (case onServerReadDataFromOpen_packetChecks env conn peer pkt of
                    Inl (f, conn') \<Rightarrow> conn' | Inr conn' \<Rightarrow> conn') = peerAddress conn
   \<and> (kMaxNumMigrationsAllowed env \<le> numMigrations (migrationState conn)
      \<longrightarrow> onConnectionMigration env now pathData conn newPeerAddress isIntentional
          = Inl (Thrown (QuicTransportException ''Too many migrations'' INVALID_MIGRATION), conn))
   \<and> (onConnectionMigration env now pathData conn newPeerAddress isIntentional = Inr conn1
      \<longrightarrow> numMigrations (migrationState conn) < kMaxNumMigrationsAllowed env
        \<and> numMigrations (migrationState conn1) = numMigrations (migrationState conn) + 1
        \<and> peerAddress conn1 = newPeerAddress)
   \<and> (numMigrations (migrationState conn) = 0 \<and> length ms = kMaxNumMigrationsAllowed env
       \<and> onConnectionMigrations env conn ms = Inr connN
      \<longrightarrow> onConnectionMigration env now pathData connN newPeerAddress isIntentional
          = Inl (Thrown (QuicTransportException ''Too many migrations'' INVALID_MIGRATION), connN))"
proof (intro conjI impI)
  assume "frames pkt \<noteq> []
    \<and> (protectionType (header pkt) \<in> {ZeroRtt, KeyPhaseZero, KeyPhaseOne}
       \<or> set (frames pkt)
            \<subseteq> {PaddingFrame, ReadAckFrame, ConnectionCloseFrame, ReadCryptoFrame, PingFrame})
    \<and> clientConnectionId conn \<noteq> None
    \<and> (version conn \<noteq> None \<or> isLongHeader (header pkt))
    \<and> peerAddress conn \<noteq> peer
    \<and> (protectionTypeToEncryptionLevel env (protectionType (header pkt)) \<noteq> EL_AppData
       \<or> disableMigration (transportSettings conn))"
  then show "onServerReadDataFromOpen_packetChecks env conn peer pkt =
           Inl (Thrown (QuicTransportException
                  (if protectionTypeToEncryptionLevel env (protectionType (header pkt)) \<noteq> EL_AppData
                   then ''Migration not allowed during handshake'' else ''Migration disabled'')
                  INVALID_MIGRATION),
                if version conn = None
                then conn\<lparr>version := Some (longHeaderVersion (header pkt))\<rparr> else conn)"
    by (intro packetChecks_migration) blast+
next
  show "peerAddress (case onServerReadDataFromOpen_packetChecks env conn peer pkt of
                    Inl (f, conn') \<Rightarrow> conn' | Inr conn' \<Rightarrow> conn') = peerAddress conn"
    by (rule packetChecks_peerAddress)
next
  assume "kMaxNumMigrationsAllowed env \<le> numMigrations (migrationState conn)"
  then show "onConnectionMigration env now pathData conn newPeerAddress isIntentional
          = Inl (Thrown (QuicTransportException ''Too many migrations'' INVALID_MIGRATION), conn)"
    by (rule onConnectionMigration_limit)
next
  assume s: "onConnectionMigration env now pathData conn newPeerAddress isIntentional = Inr conn1"
  show "numMigrations (migrationState conn) < kMaxNumMigrationsAllowed env"
    using onConnectionMigration_success[OF s] by (rule conjunct1)
  show "numMigrations (migrationState conn1) = numMigrations (migrationState conn) + 1"
    using onConnectionMigration_success[OF s] by blast
  show "peerAddress conn1 = newPeerAddress"
    using onConnectionMigration_success[OF s] by blast
next
  assume a: "numMigrations (migrationState conn) = 0 \<and> length ms = kMaxNumMigrationsAllowed env
       \<and> onConnectionMigrations env conn ms = Inr connN"
  then have "onConnectionMigrations env conn ms = Inr connN" by blast
  from onConnectionMigrations_count[OF this] a
  have "kMaxNumMigrationsAllowed env \<le> numMigrations (migrationState connN)" by simp
  then show "onConnectionMigration env now pathData connN newPeerAddress isIntentional
          = Inl (Thrown (QuicTransportException ''Too many migrations'' INVALID_MIGRATION), connN)"
    by (rule onConnectionMigration_limit)
qed

lemma twoMigrations_succeed:
  "\<not> isl (onConnectionMigrations (serverEnv0\<lparr>kMaxNumMigrationsAllowed := 2\<rparr>) serverConn0
             twoMigrations)"
  by (simp add: twoMigrations_def onConnectionMigration_def maybeNATRebinding_def
      moveCurrentCongestionAndRttState_def recoverOrResetCongestionAndRttState_def
      resetCongestionAndRttState_def serverConn0_def QuicConnectionStateBase.extend_def
      conn0_def address1_def address2_def serverEnv0_def lossState0_def Let_def
      throwTransport_def)

text \<open>On the example connection: a Handshake packet with crypto and padding frames from
  another address, an AppData packet on a connection with migration disabled, and with a
  limit of two migrations, two migrations that end normally followed by a third.\<close>

theorem onServerReadDataFromOpen_invalid_migration_witness:
  "onServerReadDataFromOpen_packetChecks serverEnv0 serverConn0 address2 handshakeCryptoPacket
     = Inl (Thrown (QuicTransportException ''Migration not allowed during handshake''
                      INVALID_MIGRATION), serverConn0)
   \<and> onServerReadDataFromOpen_packetChecks serverEnv0
        (serverConn0\<lparr>transportSettings := (transportSettings serverConn0)\<lparr>disableMigration := True\<rparr>\<rparr>)
        address2 appDataStreamPacket
     = Inl (Thrown (QuicTransportException ''Migration disabled'' INVALID_MIGRATION),
            serverConn0\<lparr>transportSettings := (transportSettings serverConn0)\<lparr>disableMigration := True\<rparr>\<rparr>)
   \<and> (case onConnectionMigrations (serverEnv0\<lparr>kMaxNumMigrationsAllowed := 2\<rparr>) serverConn0
             twoMigrations of
        Inl e \<Rightarrow> False
      | Inr connN \<Rightarrow>
          numMigrations (migrationState connN) = 2 \<and> peerAddress connN = address1
        \<and> onConnectionMigration (serverEnv0\<lparr>kMaxNumMigrationsAllowed := 2\<rparr>) 30 3 connN address2 False
          = Inl (Thrown (QuicTransportException ''Too many migrations'' INVALID_MIGRATION), connN))"
proof (intro conjI)
  have hyp: "frames handshakeCryptoPacket \<noteq> []
    \<and> (protectionType (header handshakeCryptoPacket) \<in> {ZeroRtt, KeyPhaseZero, KeyPhaseOne}
       \<or> set (frames handshakeCryptoPacket)
            \<subseteq> {PaddingFrame, ReadAckFrame, ConnectionCloseFrame, ReadCryptoFrame, PingFrame})
    \<and> clientConnectionId serverConn0 \<noteq> None
    \<and> (version serverConn0 \<noteq> None \<or> isLongHeader (header handshakeCryptoPacket))
    \<and> peerAddress serverConn0 \<noteq> address2
    \<and> (protectionTypeToEncryptionLevel serverEnv0 (protectionType (header handshakeCryptoPacket))
          \<noteq> EL_AppData
       \<or> disableMigration (transportSettings serverConn0))"
    by (simp add: handshakeCryptoPacket_def handshakeHeader_def serverConn0_def
        QuicConnectionStateBase.extend_def address1_def address2_def serverEnv0_def)
  have e: "protectionTypeToEncryptionLevel serverEnv0 (protectionType (header handshakeCryptoPacket))
          \<noteq> EL_AppData" "version serverConn0 \<noteq> None"
    by (simp_all add: handshakeCryptoPacket_def handshakeHeader_def serverEnv0_def serverConn0_def
        QuicConnectionStateBase.extend_def)
  show "onServerReadDataFromOpen_packetChecks serverEnv0 serverConn0 address2 handshakeCryptoPacket
     = Inl (Thrown (QuicTransportException ''Migration not allowed during handshake''
                      INVALID_MIGRATION), serverConn0)"
    using onServerReadDataFromOpen_invalid_migration
       [where env = serverEnv0 and conn = serverConn0 and peer = address2
          and pkt = handshakeCryptoPacket, THEN conjunct1, THEN mp, OF hyp] e
    by simp
next
  let ?c = "serverConn0\<lparr>transportSettings := (transportSettings serverConn0)\<lparr>disableMigration := True\<rparr>\<rparr>"
  have hyp: "frames appDataStreamPacket \<noteq> []
    \<and> (protectionType (header appDataStreamPacket) \<in> {ZeroRtt, KeyPhaseZero, KeyPhaseOne}
       \<or> set (frames appDataStreamPacket)
            \<subseteq> {PaddingFrame, ReadAckFrame, ConnectionCloseFrame, ReadCryptoFrame, PingFrame})
    \<and> clientConnectionId ?c \<noteq> None
    \<and> (version ?c \<noteq> None \<or> isLongHeader (header appDataStreamPacket))
    \<and> peerAddress ?c \<noteq> address2
    \<and> (protectionTypeToEncryptionLevel serverEnv0 (protectionType (header appDataStreamPacket))
          \<noteq> EL_AppData
       \<or> disableMigration (transportSettings ?c))"
    by (simp add: appDataStreamPacket_def serverConn0_def
        QuicConnectionStateBase.extend_def address1_def address2_def serverEnv0_def)
  have e: "protectionTypeToEncryptionLevel serverEnv0 (protectionType (header appDataStreamPacket))
          = EL_AppData" "version ?c \<noteq> None"
    by (simp_all add: appDataStreamPacket_def serverEnv0_def serverConn0_def
        QuicConnectionStateBase.extend_def)
  show "onServerReadDataFromOpen_packetChecks serverEnv0 ?c address2 appDataStreamPacket
     = Inl (Thrown (QuicTransportException ''Migration disabled'' INVALID_MIGRATION), ?c)"
    using onServerReadDataFromOpen_invalid_migration
       [where env = serverEnv0 and conn = ?c and peer = address2
          and pkt = appDataStreamPacket, THEN conjunct1, THEN mp, OF hyp] e
    by simp
next
  let ?env = "serverEnv0\<lparr>kMaxNumMigrationsAllowed := 2\<rparr>"
  obtain connN where r: "onConnectionMigrations ?env serverConn0 twoMigrations = Inr connN"
    using twoMigrations_succeed by (cases "onConnectionMigrations ?env serverConn0 twoMigrations") auto
  have hyp: "numMigrations (migrationState serverConn0) = 0
       \<and> length twoMigrations = kMaxNumMigrationsAllowed ?env
       \<and> onConnectionMigrations ?env serverConn0 twoMigrations = Inr connN"
    using r by (simp add: serverConn0_def QuicConnectionStateBase.extend_def twoMigrations_def)
  note t = onServerReadDataFromOpen_invalid_migration
       [where env = ?env and conn = serverConn0 and ms = twoMigrations and connN = connN
          and now = 30 and pathData = 3 and newPeerAddress = address2 and isIntentional = False]
  have f: "onConnectionMigration ?env 30 3 connN address2 False
          = Inl (Thrown (QuicTransportException ''Too many migrations'' INVALID_MIGRATION), connN)"
    using t [THEN conjunct2, THEN conjunct2, THEN conjunct2, THEN conjunct2, THEN mp, OF hyp] .
  have n: "numMigrations (migrationState connN) = 2"
    using onConnectionMigrations_count[OF r]
    by (simp add: serverConn0_def QuicConnectionStateBase.extend_def twoMigrations_def)
  have p: "peerAddress connN = address1"
    using r
    by (auto simp add: twoMigrations_def split: sum.splits dest: onConnectionMigration_success)
  show "case onConnectionMigrations ?env serverConn0 twoMigrations of
        Inl e \<Rightarrow> False
      | Inr connN \<Rightarrow>
          numMigrations (migrationState connN) = 2 \<and> peerAddress connN = address1
        \<and> onConnectionMigration ?env 30 3 connN address2 False
          = Inl (Thrown (QuicTransportException ''Too many migrations'' INVALID_MIGRATION), connN)"
    unfolding r using f n p by simp
qed

section \<open>Allocation of the server connection id\<close>

declare encodeLoop.simps [simp del]

lemma encodeLoop_cond:
  "(encodedCid \<noteq> None \<and> rejector \<noteq> None
         \<and> (case rejector of Some rejectConnectionId \<Rightarrow>
               (case encodedCid of Some cid \<Rightarrow> rejectConnectionId cid | None \<Rightarrow> False)
             | None \<Rightarrow> False)) = rejectedCandidate rejector encodedCid"
  by (auto simp add: rejectedCandidate_def split: option.splits)

lemma encodeLoop_unfold:
  "encodeLoop rejector algo calls encodedCid encodedTimes =
     (if rejectedCandidate rejector encodedCid \<and> encodedTimes + 1 < kConnIdEncodingRetryLimit
      then encodeLoop rejector algo (calls + 1) (algo calls) (encodedTimes + 1)
      else (encodedCid, calls,
            if rejectedCandidate rejector encodedCid then encodedTimes + 1 else encodedTimes))"
  by (subst encodeLoop.simps) (auto simp add: rejectedCandidate_def split: option.splits)

lemma encodeLoop_result:
  "t < kConnIdEncodingRetryLimit \<Longrightarrow>
   \<exists>n. t \<le> n \<and> n < kConnIdEncodingRetryLimit
      \<and> encodeLoop rejector algo (t + 1) (algo t) t
          = (algo n, n + 1, if rejectedCandidate rejector (algo n) then n + 1 else n)
      \<and> (\<forall>i. t \<le> i \<and> i < n \<longrightarrow> rejectedCandidate rejector (algo i))
      \<and> (n + 1 < kConnIdEncodingRetryLimit \<longrightarrow> \<not> rejectedCandidate rejector (algo n))"
proof (induction "kConnIdEncodingRetryLimit - t" arbitrary: t)
  case 0
  then show ?case by simp
next
  case (Suc d)
  show ?case
  proof (cases "rejectedCandidate rejector (algo t) \<and> t + 1 < kConnIdEncodingRetryLimit")
    case True
    then have s: "encodeLoop rejector algo (t + 1) (algo t) t
                = encodeLoop rejector algo (t + 1 + 1) (algo (t + 1)) (t + 1)"
      by (subst encodeLoop_unfold) simp
    have "d = kConnIdEncodingRetryLimit - (t + 1)" using Suc.hyps(2) by simp
    from Suc.hyps(1)[OF this] True obtain n where
      n: "t + 1 \<le> n" "n < kConnIdEncodingRetryLimit"
         "encodeLoop rejector algo (t + 1 + 1) (algo (t + 1)) (t + 1)
          = (algo n, n + 1, if rejectedCandidate rejector (algo n) then n + 1 else n)"
         "\<forall>i. t + 1 \<le> i \<and> i < n \<longrightarrow> rejectedCandidate rejector (algo i)"
         "n + 1 < kConnIdEncodingRetryLimit \<longrightarrow> \<not> rejectedCandidate rejector (algo n)"
      by blast
    have "\<forall>i. t \<le> i \<and> i < n \<longrightarrow> rejectedCandidate rejector (algo i)"
    proof (intro allI impI)
      fix i assume "t \<le> i \<and> i < n"
      then have "i = t \<or> (t + 1 \<le> i \<and> i < n)" by arith
      then show "rejectedCandidate rejector (algo i)" using True n(4) by blast
    qed
    with n s show ?thesis
      by (intro exI[of _ n]) simp
  next
    case False
    have s: "encodeLoop rejector algo (t + 1) (algo t) t
                = (algo t, t + 1, if rejectedCandidate rejector (algo t) then t + 1 else t)"
      by (subst encodeLoop_unfold) (simp only: False if_False)
    show ?thesis
      using s False Suc.prems by (intro exI[of _ t]) auto
  qed
qed

lemma createAndAddNewSelfConnId_result:
  assumes a: "connIdAlgo conn = Some algo" and p: "serverConnIdParams conn \<noteq> None"
    and s: "statelessResetTokenSecret (transportSettings conn) = Some secret"
  shows "\<exists>n<kConnIdEncodingRetryLimit.
       (\<forall>i<n. rejectedCandidate (connIdRejector conn) (algo i))
     \<and> (n + 1 < kConnIdEncodingRetryLimit \<longrightarrow> \<not> rejectedCandidate (connIdRejector conn) (algo n))
     \<and> (case createAndAddNewSelfConnId env conn of
          Inl e \<Rightarrow> False
        | Inr (d, conn') \<Rightarrow>
            connIdAlgo conn' = Some (\<lambda>i. algo (i + (n + 1)))
          \<and> (case algo n of
               None \<Rightarrow> d = None \<and> selfConnectionIds conn' = selfConnectionIds conn
                      \<and> nextSelfConnectionIdSequence conn' = nextSelfConnectionIdSequence conn
             | Some cid \<Rightarrow>
                 d = Some \<lparr>connId = cid, sequenceNumber = nextSelfConnectionIdSequence conn,
                           token = Some (generateToken env secret (serverAddr conn) cid)\<rparr>
               \<and> selfConnectionIds conn' = selfConnectionIds conn @ [the d]
               \<and> nextSelfConnectionIdSequence conn' = nextSelfConnectionIdSequence conn + 1))"
proof -
  have "0 < kConnIdEncodingRetryLimit" by (simp add: kConnIdEncodingRetryLimit_def)
  from encodeLoop_result[OF this, of "connIdRejector conn" algo] obtain n where
    n: "n < kConnIdEncodingRetryLimit"
       "encodeLoop (connIdRejector conn) algo 1 (algo 0) 0
          = (algo n, n + 1, if rejectedCandidate (connIdRejector conn) (algo n) then n + 1 else n)"
       "\<forall>i. i < n \<longrightarrow> rejectedCandidate (connIdRejector conn) (algo i)"
       "n + 1 < kConnIdEncodingRetryLimit \<longrightarrow> \<not> rejectedCandidate (connIdRejector conn) (algo n)"
    by auto
  from p obtain params where p': "serverConnIdParams conn = Some params" by auto
  have r: "case createAndAddNewSelfConnId env conn of
          Inl e \<Rightarrow> False
        | Inr (d, conn') \<Rightarrow>
            connIdAlgo conn' = Some (\<lambda>i. algo (i + (n + 1)))
          \<and> (case algo n of
               None \<Rightarrow> d = None \<and> selfConnectionIds conn' = selfConnectionIds conn
                      \<and> nextSelfConnectionIdSequence conn' = nextSelfConnectionIdSequence conn
             | Some cid \<Rightarrow>
                 d = Some \<lparr>connId = cid, sequenceNumber = nextSelfConnectionIdSequence conn,
                           token = Some (generateToken env secret (serverAddr conn) cid)\<rparr>
               \<and> selfConnectionIds conn' = selfConnectionIds conn @ [the d]
               \<and> nextSelfConnectionIdSequence conn' = nextSelfConnectionIdSequence conn + 1)"
    unfolding createAndAddNewSelfConnId_def a p' s option.case n(2)
    by (simp add: Let_def split: option.splits)
  show ?thesis
    using n(1,3,4) r by (intro exI[of _ n]) simp
qed

lemma firstPacket_connId:
  assumes "version' \<noteq> VERSION_NEGOTIATION"
    and "kDefaultConnectionIdSize env \<le> length initialDestinationConnectionId"
    and "connIdAlgo conn \<noteq> None" and "serverConnectionId conn = None"
    and "serverConnIdParams conn \<noteq> None"
  shows "case createAndAddNewSelfConnId env conn of
       Inl e \<Rightarrow>
         onServerReadDataFromOpen_firstPacket env conn
           (Some (version', clientConnectionId', initialDestinationConnectionId)) = Inl e
     | Inr (None, conn1) \<Rightarrow>
         onServerReadDataFromOpen_firstPacket env conn
           (Some (version', clientConnectionId', initialDestinationConnectionId))
           = Inl (CheckFailed ''newServerConnIdData.has_value()'', conn1)
     | Inr (Some newServerConnIdData, conn1) \<Rightarrow>
        (case onServerReadDataFromOpen_firstPacket env conn
                (Some (version', clientConnectionId', initialDestinationConnectionId)) of
           Inl e \<Rightarrow> False
         | Inr (continue, conn') \<Rightarrow>
             continue \<and> serverConnectionId conn' = Some (connId newServerConnIdData)
           \<and> selfConnectionIds conn' = selfConnectionIds conn1
           \<and> readCodec conn' \<noteq> None \<and> peerAddress conn' = originalPeerAddress conn)"
proof -
  have o: "originalPeerAddress c1 = originalPeerAddress conn"
    if "createAndAddNewSelfConnId env conn = Inr (d, c1)" for d c1
    using that
    by (auto simp add: createAndAddNewSelfConnId_def Let_def split: option.splits prod.splits)
  show ?thesis
    using assms o
    by (auto simp add: onServerReadDataFromOpen_firstPacket_def Let_def
        split: sum.splits option.splits prod.splits)
qed

text \<open>With a rejector that refuses every id, the loop stops after the sixteenth
  candidate, and this candidate, although rejected, is returned and added to the self
  connection ids.\<close>

theorem createAndAddNewSelfConnId_exhausted_counterexample:
  "rejectedCandidate (connIdRejector (serverConn0\<lparr>connIdRejector := Some rejectAll\<rparr>))
      (Some [15, 0, 0, 0, 0, 0, 0, 0])
   \<and> \<not> isl (createAndAddNewSelfConnId serverEnv0 (serverConn0\<lparr>connIdRejector := Some rejectAll\<rparr>))
   \<and> fst (projr (createAndAddNewSelfConnId serverEnv0 (serverConn0\<lparr>connIdRejector := Some rejectAll\<rparr>)))
       = Some \<lparr>connId = [15, 0, 0, 0, 0, 0, 0, 0], sequenceNumber = 1, token = Some 15\<rparr>
   \<and> selfConnectionIds (snd (projr (createAndAddNewSelfConnId serverEnv0
         (serverConn0\<lparr>connIdRejector := Some rejectAll\<rparr>))))
       = [\<lparr>connId = [15, 0, 0, 0, 0, 0, 0, 0], sequenceNumber = 1, token = Some 15\<rparr>]"
proof -
  have e: "encodeLoop (Some rejectAll) countingAlgo (Suc 0) (Some [0, 0, 0, 0, 0, 0, 0, 0]) 0
           = (Some [15, 0, 0, 0, 0, 0, 0, 0], 16, 16)"
    by (simp add: encodeLoop_unfold rejectedCandidate_def rejectAll_def countingAlgo_def
        kConnIdEncodingRetryLimit_def)
  show ?thesis
    by (simp add: createAndAddNewSelfConnId_def serverConn0_def
        QuicConnectionStateBase.extend_def conn0_def serverEnv0_def e rejectedCandidate_def
        rejectAll_def countingAlgo_def Let_def)
qed

text \<open>
  Claim C8, as amended. On a connection with its id algorithm, id parameters and reset
  token secret, \<open>createAndAddNewSelfConnId\<close> asks the algorithm for \<open>n + 1\<close> candidates
  with \<open>n < 16\<close>: every candidate before the last was rejected by the installed
  rejector, and the last one is not rejected unless it is the sixteenth. When the last
  candidate is an error, nothing is installed and none is returned; otherwise the last
  candidate is installed as a new self connection id with the next sequence number and
  its reset token, and returned, also when it is the sixteenth and was rejected. In the
  handling of the first packet (a version other than version negotiation, a destination
  id of sufficient length, no server connection id yet), the id returned becomes the
  server connection id and the read codec is set up; when none is returned, the check
  on the result fails.
\<close>

theorem createAndAddNewSelfConnId_retry_limit:
  "(connIdAlgo conn = Some algo \<and> serverConnIdParams conn \<noteq> None
     \<and> statelessResetTokenSecret (transportSettings conn) = Some secret
    \<longrightarrow> (\<exists>n<kConnIdEncodingRetryLimit.
       (\<forall>i<n. rejectedCandidate (connIdRejector conn) (algo i))
     \<and> (n + 1 < kConnIdEncodingRetryLimit \<longrightarrow> \<not> rejectedCandidate (connIdRejector conn) (algo n))
     \<and> (case createAndAddNewSelfConnId env conn of
          Inl e \<Rightarrow> False
        | Inr (d, conn') \<Rightarrow>
            connIdAlgo conn' = Some (\<lambda>i. algo (i + (n + 1)))
          \<and> (case algo n of
               None \<Rightarrow> d = None \<and> selfConnectionIds conn' = selfConnectionIds conn
                      \<and> nextSelfConnectionIdSequence conn' = nextSelfConnectionIdSequence conn
             | Some cid \<Rightarrow>
                 d = Some \<lparr>connId = cid, sequenceNumber = nextSelfConnectionIdSequence conn,
                           token = Some (generateToken env secret (serverAddr conn) cid)\<rparr>
               \<and> selfConnectionIds conn' = selfConnectionIds conn @ [the d]
               \<and> nextSelfConnectionIdSequence conn' = nextSelfConnectionIdSequence conn + 1))))
   \<and> kConnIdEncodingRetryLimit = 16
   \<and> (version' \<noteq> VERSION_NEGOTIATION
      \<and> kDefaultConnectionIdSize env \<le> length initialDestinationConnectionId
      \<and> connIdAlgo conn \<noteq> None \<and> serverConnectionId conn = None
      \<and> serverConnIdParams conn \<noteq> None
    \<longrightarrow> (case createAndAddNewSelfConnId env conn of
       Inl e \<Rightarrow>
         onServerReadDataFromOpen_firstPacket env conn
           (Some (version', clientConnectionId', initialDestinationConnectionId)) = Inl e
     | Inr (None, conn1) \<Rightarrow>
         onServerReadDataFromOpen_firstPacket env conn
           (Some (version', clientConnectionId', initialDestinationConnectionId))
           = Inl (CheckFailed ''newServerConnIdData.has_value()'', conn1)
     | Inr (Some newServerConnIdData, conn1) \<Rightarrow>
        (case onServerReadDataFromOpen_firstPacket env conn
                (Some (version', clientConnectionId', initialDestinationConnectionId)) of
           Inl e \<Rightarrow> False
         | Inr (continue, conn') \<Rightarrow>
             continue \<and> serverConnectionId conn' = Some (connId newServerConnIdData)
           \<and> selfConnectionIds conn' = selfConnectionIds conn1
           \<and> readCodec conn' \<noteq> None \<and> peerAddress conn' = originalPeerAddress conn)))"
proof (intro conjI impI)
  assume "connIdAlgo conn = Some algo \<and> serverConnIdParams conn \<noteq> None
     \<and> statelessResetTokenSecret (transportSettings conn) = Some secret"
  then have h: "connIdAlgo conn = Some algo" "serverConnIdParams conn \<noteq> None"
     "statelessResetTokenSecret (transportSettings conn) = Some secret"
    by blast+
  show "\<exists>n<kConnIdEncodingRetryLimit.
       (\<forall>i<n. rejectedCandidate (connIdRejector conn) (algo i))
     \<and> (n + 1 < kConnIdEncodingRetryLimit \<longrightarrow> \<not> rejectedCandidate (connIdRejector conn) (algo n))
     \<and> (case createAndAddNewSelfConnId env conn of
          Inl e \<Rightarrow> False
        | Inr (d, conn') \<Rightarrow>
            connIdAlgo conn' = Some (\<lambda>i. algo (i + (n + 1)))
          \<and> (case algo n of
               None \<Rightarrow> d = None \<and> selfConnectionIds conn' = selfConnectionIds conn
                      \<and> nextSelfConnectionIdSequence conn' = nextSelfConnectionIdSequence conn
             | Some cid \<Rightarrow>
                 d = Some \<lparr>connId = cid, sequenceNumber = nextSelfConnectionIdSequence conn,
                           token = Some (generateToken env secret (serverAddr conn) cid)\<rparr>
               \<and> selfConnectionIds conn' = selfConnectionIds conn @ [the d]
               \<and> nextSelfConnectionIdSequence conn' = nextSelfConnectionIdSequence conn + 1))"
    by (rule createAndAddNewSelfConnId_result[OF h])
next
  show "kConnIdEncodingRetryLimit = 16" by (rule kConnIdEncodingRetryLimit_def)
next
  assume "version' \<noteq> VERSION_NEGOTIATION
      \<and> kDefaultConnectionIdSize env \<le> length initialDestinationConnectionId
      \<and> connIdAlgo conn \<noteq> None \<and> serverConnectionId conn = None
      \<and> serverConnIdParams conn \<noteq> None"
  then have h: "version' \<noteq> VERSION_NEGOTIATION"
      "kDefaultConnectionIdSize env \<le> length initialDestinationConnectionId"
      "connIdAlgo conn \<noteq> None" "serverConnectionId conn = None"
      "serverConnIdParams conn \<noteq> None"
    by blast+
  show "case createAndAddNewSelfConnId env conn of
       Inl e \<Rightarrow>
         onServerReadDataFromOpen_firstPacket env conn
           (Some (version', clientConnectionId', initialDestinationConnectionId)) = Inl e
     | Inr (None, conn1) \<Rightarrow>
         onServerReadDataFromOpen_firstPacket env conn
           (Some (version', clientConnectionId', initialDestinationConnectionId))
           = Inl (CheckFailed ''newServerConnIdData.has_value()'', conn1)
     | Inr (Some newServerConnIdData, conn1) \<Rightarrow>
        (case onServerReadDataFromOpen_firstPacket env conn
                (Some (version', clientConnectionId', initialDestinationConnectionId)) of
           Inl e \<Rightarrow> False
         | Inr (continue, conn') \<Rightarrow>
             continue \<and> serverConnectionId conn' = Some (connId newServerConnIdData)
           \<and> selfConnectionIds conn' = selfConnectionIds conn1
           \<and> readCodec conn' \<noteq> None \<and> peerAddress conn' = originalPeerAddress conn)"
    by (rule firstPacket_connId[OF h])
qed


text \<open>With a rejector that refuses the ids whose first byte is below 3, and an algorithm
  that counts up from 0 in the first byte: the fourth candidate is installed.\<close>

theorem createAndAddNewSelfConnId_retry_limit_witness:
  "(case createAndAddNewSelfConnId serverEnv0 lowRejectingConn of
      Inl e \<Rightarrow> False
    | Inr (d, conn') \<Rightarrow>
        d = Some \<lparr>connId = [3, 0, 0, 0, 0, 0, 0, 0], sequenceNumber = 1, token = Some 15\<rparr>
      \<and> selfConnectionIds conn'
          = [\<lparr>connId = [3, 0, 0, 0, 0, 0, 0, 0], sequenceNumber = 1, token = Some 15\<rparr>]
      \<and> connIdAlgo conn' = Some (\<lambda>i. countingAlgo (i + 4)))
   \<and> (case onServerReadDataFromOpen_firstPacket serverEnv0 lowRejectingConn
             (Some (QUIC_V1, [1, 2, 3, 4, 5, 6, 7, 8], [9, 9, 9, 9, 9, 9, 9, 9])) of
        Inl e \<Rightarrow> False
      | Inr (continue, conn') \<Rightarrow>
          continue \<and> serverConnectionId conn' = Some [3, 0, 0, 0, 0, 0, 0, 0])"
proof -
  have f: "connIdAlgo lowRejectingConn = Some countingAlgo"
      "serverConnIdParams lowRejectingConn \<noteq> None"
      "statelessResetTokenSecret (transportSettings lowRejectingConn) = Some 7"
      "connIdRejector lowRejectingConn = Some rejectLow"
      "selfConnectionIds lowRejectingConn = []"
      "nextSelfConnectionIdSequence lowRejectingConn = 1"
      "serverConnectionId lowRejectingConn = None"
      "generateToken serverEnv0 7 (serverAddr lowRejectingConn) [3, 0, 0, 0, 0, 0, 0, 0] = 15"
      "kDefaultConnectionIdSize serverEnv0 = 8"
    by (simp_all add: lowRejectingConn_def freshServerConn_def serverConn0_def
        QuicConnectionStateBase.extend_def conn0_def serverEnv0_def)
  have hyp: "connIdAlgo lowRejectingConn = Some countingAlgo
     \<and> serverConnIdParams lowRejectingConn \<noteq> None
     \<and> statelessResetTokenSecret (transportSettings lowRejectingConn) = Some 7"
    using f(1,2,3) by blast
  note t = createAndAddNewSelfConnId_retry_limit
     [where env = serverEnv0 and conn = lowRejectingConn and algo = countingAlgo and secret = 7
        and version' = QUIC_V1 and clientConnectionId' = "[1, 2, 3, 4, 5, 6, 7, 8]"
        and initialDestinationConnectionId = "[9, 9, 9, 9, 9, 9, 9, 9]"]
  from t [THEN conjunct1, THEN mp, OF hyp] obtain n where
    n: "n < kConnIdEncodingRetryLimit"
       "\<forall>i<n. rejectedCandidate (connIdRejector lowRejectingConn) (countingAlgo i)"
       "n + 1 < kConnIdEncodingRetryLimit
          \<longrightarrow> \<not> rejectedCandidate (connIdRejector lowRejectingConn) (countingAlgo n)"
    and c: "case createAndAddNewSelfConnId serverEnv0 lowRejectingConn of
          Inl e \<Rightarrow> False
        | Inr (d, conn') \<Rightarrow>
            connIdAlgo conn' = Some (\<lambda>i. countingAlgo (i + (n + 1)))
          \<and> (case countingAlgo n of
               None \<Rightarrow> d = None \<and> selfConnectionIds conn' = selfConnectionIds lowRejectingConn
                      \<and> nextSelfConnectionIdSequence conn'
                          = nextSelfConnectionIdSequence lowRejectingConn
             | Some cid \<Rightarrow>
                 d = Some \<lparr>connId = cid,
                           sequenceNumber = nextSelfConnectionIdSequence lowRejectingConn,
                           token = Some (generateToken serverEnv0 7
                                           (serverAddr lowRejectingConn) cid)\<rparr>
               \<and> selfConnectionIds conn' = selfConnectionIds lowRejectingConn @ [the d]
               \<and> nextSelfConnectionIdSequence conn'
                   = nextSelfConnectionIdSequence lowRejectingConn + 1)"
    by blast
  have r: "rejectedCandidate (Some rejectLow) (countingAlgo 0)"
          "rejectedCandidate (Some rejectLow) (countingAlgo 1)"
          "rejectedCandidate (Some rejectLow) (countingAlgo 2)"
          "\<not> rejectedCandidate (Some rejectLow) (countingAlgo 3)"
    by (simp_all add: rejectedCandidate_def rejectLow_def countingAlgo_def)
  have "\<not> 3 < n" using n(2) r(4) f(4) by auto
  moreover have "n \<noteq> 0"
  proof
    assume "n = 0"
    with n(3) r(1) f(4) show False by (simp add: kConnIdEncodingRetryLimit_def)
  qed
  moreover have "n \<noteq> 1"
  proof
    assume "n = 1"
    with n(3) r(2) f(4) show False by (simp add: kConnIdEncodingRetryLimit_def)
  qed
  moreover have "n \<noteq> 2"
  proof
    assume "n = 2"
    with n(3) r(3) f(4) show False by (simp add: kConnIdEncodingRetryLimit_def)
  qed
  ultimately have n3: "n = 3" by arith
  have a3: "countingAlgo 3 = Some [3, 0, 0, 0, 0, 0, 0, 0]"
    by (simp add: countingAlgo_def)
  have c1: "case createAndAddNewSelfConnId serverEnv0 lowRejectingConn of
      Inl e \<Rightarrow> False
    | Inr (d, conn') \<Rightarrow>
        d = Some \<lparr>connId = [3, 0, 0, 0, 0, 0, 0, 0], sequenceNumber = 1, token = Some 15\<rparr>
      \<and> selfConnectionIds conn'
          = [\<lparr>connId = [3, 0, 0, 0, 0, 0, 0, 0], sequenceNumber = 1, token = Some 15\<rparr>]
      \<and> connIdAlgo conn' = Some (\<lambda>i. countingAlgo (i + 4))"
    using c unfolding n3 a3 option.case f
    by (auto split: sum.splits)
  have hyp2: "QUIC_V1 \<noteq> VERSION_NEGOTIATION
      \<and> kDefaultConnectionIdSize serverEnv0 \<le> length [9, 9, 9, 9, 9, 9, 9, 9 :: 8 word]
      \<and> connIdAlgo lowRejectingConn \<noteq> None \<and> serverConnectionId lowRejectingConn = None
      \<and> serverConnIdParams lowRejectingConn \<noteq> None"
    using f by simp
  have c2: "case onServerReadDataFromOpen_firstPacket serverEnv0 lowRejectingConn
             (Some (QUIC_V1, [1, 2, 3, 4, 5, 6, 7, 8], [9, 9, 9, 9, 9, 9, 9, 9])) of
        Inl e \<Rightarrow> False
      | Inr (continue, conn') \<Rightarrow>
          continue \<and> serverConnectionId conn' = Some [3, 0, 0, 0, 0, 0, 0, 0]"
    using t [THEN conjunct2, THEN conjunct2, THEN mp, OF hyp2] c1
    by (auto split: sum.splits option.splits prod.splits)
  show ?thesis using c1 c2 by (rule conjI)
qed

end
